theory Spec2Isabelle
  imports Complex_Main
begin

section \<open>Rate limiter\<close>

text \<open>
  The process-wide \<^verbatim>\<open>rateLimitMap\<close> is a map from the client key to a record
  \<^verbatim>\<open>{ count, lastReset }\<close>. \<^verbatim>\<open>Date.now()\<close> is passed in as the argument \<open>now\<close>
  (milliseconds), and the mutated map is returned next to the boolean result.
\<close>

record rate_record =
  count :: nat
  lastReset :: int

type_synonym rateLimitMap = "string \<rightharpoonup> rate_record"

definition RATE_LIMIT :: nat where
  "RATE_LIMIT = 10"

definition RATE_LIMIT_WINDOW :: int where
  "RATE_LIMIT_WINDOW = 60 * 1000"

definition checkRateLimit :: "rateLimitMap \<Rightarrow> string \<Rightarrow> int \<Rightarrow> bool \<times> rateLimitMap" where
  "checkRateLimit m ip now =
     (case m ip of
        None \<Rightarrow> (True, m(ip \<mapsto> \<lparr>count = 1, lastReset = now\<rparr>))
      | Some record \<Rightarrow>
          if now - lastReset record > RATE_LIMIT_WINDOW
          then (True, m(ip \<mapsto> \<lparr>count = 1, lastReset = now\<rparr>))
          else if count record \<ge> RATE_LIMIT then (False, m)
          else (True, m(ip \<mapsto> record\<lparr>count := count record + 1\<rparr>)))"

text \<open>A sequence of calls \<open>(ip, now)\<close>, in order, with the result of each call.\<close>

fun run_calls :: "rateLimitMap \<Rightarrow> (string \<times> int) list \<Rightarrow> bool list \<times> rateLimitMap" where
  "run_calls m [] = ([], m)"
| "run_calls m ((ip, now) # cs) =
     (let (r, m1) = checkRateLimit m ip now;
          (rs, m2) = run_calls m1 cs
      in (r # rs, m2))"

text \<open>The results of the calls made with key \<open>k\<close>, in order.\<close>

definition results_for :: "string \<Rightarrow> (string \<times> int) list \<Rightarrow> bool list \<Rightarrow> bool list" where
  "results_for k cs rs = map snd (filter (\<lambda>(c, r). fst c = k) (zip cs rs))"

definition calls_of :: "string \<Rightarrow> (string \<times> int) list \<Rightarrow> nat" where
  "calls_of k cs = length (filter (\<lambda>c. fst c = k) cs)"

text \<open>A call at time \<open>t\<close> opens a new window for \<open>k\<close>: no record yet, or the old one expired.\<close>

definition opens_window :: "rateLimitMap \<Rightarrow> string \<Rightarrow> int \<Rightarrow> bool" where
  "opens_window m k t =
     (case m k of None \<Rightarrow> True | Some r \<Rightarrow> t - lastReset r > RATE_LIMIT_WINDOW)"

definition in_window :: "string \<Rightarrow> int \<Rightarrow> (string \<times> int) list \<Rightarrow> bool" where
  "in_window k t0 cs = list_all (\<lambda>(ip, t). ip = k \<longrightarrow> t - t0 \<le> RATE_LIMIT_WINDOW) cs"


definition rateLimitMap_init :: rateLimitMap where
  "rateLimitMap_init = Map.empty"

definition counts_bounded :: "rateLimitMap \<Rightarrow> bool" where
  "counts_bounded m = (\<forall>ip r. m ip = Some r \<longrightarrow> 1 \<le> count r \<and> count r \<le> RATE_LIMIT)"

text \<open>Two clients and a burst of calls, used to exercise the limiter on concrete data.\<close>

definition k1 :: string where "k1 = ''10.0.0.1''"
definition k2 :: string where "k2 = ''10.0.0.2''"

definition burst :: "(string \<times> int) list" where
  "burst = [(k1, 5), (k1, 10), (k2, 11), (k1, 20), (k1, 30), (k1, 40), (k1, 50),
            (k1, 60), (k1, 70), (k1, 59999), (k1, 60000), (k2, 60000), (k1, 60000)]"

subsection \<open>Facts about one call and about a window\<close>

lemma checkRateLimit_other:
  "ip \<noteq> k \<Longrightarrow> snd (checkRateLimit m ip now) k = m k"
  by (simp add: checkRateLimit_def split: option.splits)

lemma checkRateLimit_in_window:
  assumes "m k = Some \<lparr>count = c, lastReset = t0\<rparr>" and "t - t0 \<le> RATE_LIMIT_WINDOW"
  shows "checkRateLimit m k t =
           (if c \<ge> RATE_LIMIT then (False, m)
            else (True, m(k \<mapsto> \<lparr>count = c + 1, lastReset = t0\<rparr>)))"
  using assms by (simp add: checkRateLimit_def)

lemma run_calls_window:
  assumes "m k = Some \<lparr>count = c, lastReset = t0\<rparr>" and "c \<le> RATE_LIMIT"
    and "in_window k t0 cs" and "run_calls m cs = (rs, m')"
  shows "results_for k cs rs =
           replicate (min (calls_of k cs) (RATE_LIMIT - c)) True
           @ replicate (calls_of k cs - (RATE_LIMIT - c)) False
         \<and> m' k = Some \<lparr>count = min (c + calls_of k cs) RATE_LIMIT, lastReset = t0\<rparr>"
  using assms
proof (induction cs arbitrary: m c rs)
  case Nil
  then show ?case by (simp add: results_for_def calls_of_def)
next
  case (Cons a cs)
  obtain ip t where a: "a = (ip, t)" by (cases a)
  obtain r m1 where step: "checkRateLimit m ip t = (r, m1)" by (cases "checkRateLimit m ip t")
  obtain rs1 where run: "run_calls m1 cs = (rs1, m')" and rs: "rs = r # rs1"
    using Cons.prems(4) a step by (auto split: prod.splits)
  have win: "in_window k t0 cs" using Cons.prems(3) by (simp add: in_window_def)
  show ?case
  proof (cases "ip = k")
    case False
    then have "m1 k = Some \<lparr>count = c, lastReset = t0\<rparr>"
      using checkRateLimit_other[of ip k m t] step Cons.prems(1) by simp
    with Cons.IH[of m1 c rs1] Cons.prems(2) win run show ?thesis
      using False a rs by (simp add: results_for_def calls_of_def)
  next
    case True
    then have tw: "t - t0 \<le> RATE_LIMIT_WINDOW" using Cons.prems(3) a by (simp add: in_window_def)
    show ?thesis
    proof (cases "c \<ge> RATE_LIMIT")
      case full: True
      then have "r = False" "m1 = m"
        using checkRateLimit_in_window[of m k c t0 t] Cons.prems(1) tw step True by simp_all
      with Cons.IH[of m c rs1] Cons.prems(1) win run show ?thesis
        using True a rs full Cons.prems(2) by (simp add: results_for_def calls_of_def)
    next
      case notfull: False
      then have r: "r = True" and m1: "m1 = m(k \<mapsto> \<lparr>count = c + 1, lastReset = t0\<rparr>)"
        using checkRateLimit_in_window[of m k c t0 t] Cons.prems(1) tw step True by simp_all
      have "m1 k = Some \<lparr>count = c + 1, lastReset = t0\<rparr>" using m1 by simp
      moreover have "c + 1 \<le> RATE_LIMIT" using notfull by simp
      ultimately have "results_for k cs rs1 =
           replicate (min (calls_of k cs) (RATE_LIMIT - (c + 1))) True
           @ replicate (calls_of k cs - (RATE_LIMIT - (c + 1))) False
         \<and> m' k = Some \<lparr>count = min (c + 1 + calls_of k cs) RATE_LIMIT, lastReset = t0\<rparr>"
        using Cons.IH[of m1 "c + 1" rs1] win run by blast
      moreover have "RATE_LIMIT - c = Suc (RATE_LIMIT - (c + 1))" using notfull by simp
      ultimately show ?thesis
        using True a rs r by (simp add: results_for_def calls_of_def)
    qed
  qed
qed

lemma checkRateLimit_opens:
  "opens_window m k t \<Longrightarrow> checkRateLimit m k t = (True, m(k \<mapsto> \<lparr>count = 1, lastReset = t\<rparr>))"
  by (cases "m k") (simp_all add: opens_window_def checkRateLimit_def)


lemma checkRateLimit_bounded:
  "counts_bounded m \<Longrightarrow> counts_bounded (snd (checkRateLimit m ip now))"
  by (auto simp: counts_bounded_def checkRateLimit_def RATE_LIMIT_def split: option.splits)

lemma run_calls_bounded:
  "counts_bounded m \<Longrightarrow> counts_bounded (snd (run_calls m cs))"
proof (induction cs arbitrary: m)
  case Nil
  then show ?case by simp
next
  case (Cons a cs)
  obtain ip t where a: "a = (ip, t)" by (cases a)
  have "counts_bounded (snd (checkRateLimit m ip t))"
    using Cons.prems by (rule checkRateLimit_bounded)
  then have "counts_bounded (snd (run_calls (snd (checkRateLimit m ip t)) cs))"
    by (rule Cons.IH)
  then show ?case using a by (simp add: split_beta)
qed

lemma checkRateLimit_reject_unchanged:
  "fst (checkRateLimit m ip now) = False \<Longrightarrow> snd (checkRateLimit m ip now) = m"
  by (cases "m ip") (auto simp: checkRateLimit_def split: if_splits)

lemma window_calls_accepted:
  assumes "opens_window m k t0"
    and "in_window k t0 cs"
    and "run_calls (snd (checkRateLimit m k t0)) cs = (rs, m')"
  shows "RATE_LIMIT = 10 \<and> RATE_LIMIT_WINDOW = 60000
       \<and> fst (checkRateLimit m k t0) = True
       \<and> results_for k cs rs =
           replicate (min (calls_of k cs) (RATE_LIMIT - 1)) True
           @ replicate (calls_of k cs - (RATE_LIMIT - 1)) False
       \<and> (\<forall>t. t - t0 > RATE_LIMIT_WINDOW \<longrightarrow>
             checkRateLimit m' k t = (True, m'(k \<mapsto> \<lparr>count = 1, lastReset = t\<rparr>)))"
proof -
  let ?m0 = "m(k \<mapsto> \<lparr>count = 1, lastReset = t0\<rparr>)"
  have c0: "checkRateLimit m k t0 = (True, ?m0)" using assms(1) by (rule checkRateLimit_opens)
  have "?m0 k = Some \<lparr>count = 1, lastReset = t0\<rparr>" by simp
  moreover have "(1::nat) \<le> RATE_LIMIT" by (simp add: RATE_LIMIT_def)
  moreover have "run_calls ?m0 cs = (rs, m')" using assms(3) c0 by simp
  ultimately have main: "results_for k cs rs =
           replicate (min (calls_of k cs) (RATE_LIMIT - 1)) True
           @ replicate (calls_of k cs - (RATE_LIMIT - 1)) False
         \<and> m' k = Some \<lparr>count = min (1 + calls_of k cs) RATE_LIMIT, lastReset = t0\<rparr>"
    using run_calls_window[of ?m0 k 1 t0 cs rs m'] assms(2) by blast
  have "\<forall>t. t - t0 > RATE_LIMIT_WINDOW \<longrightarrow>
             checkRateLimit m' k t = (True, m'(k \<mapsto> \<lparr>count = 1, lastReset = t\<rparr>))"
    using main by (simp add: checkRateLimit_def)
  with c0 main show ?thesis by (simp add: RATE_LIMIT_def RATE_LIMIT_WINDOW_def)
qed


text \<open>
  Claim C9. Starting from the empty map of a fresh process, after any sequence of calls
  no stored record has a count above \<open>RATE_LIMIT\<close>; and a call that returns false
  returns the map it was given: no record, of this key or any other, is modified.
\<close>

theorem rate_limit_count_invariant:
  "(\<forall>cs ip r. snd (run_calls rateLimitMap_init cs) ip = Some r \<longrightarrow> count r \<le> RATE_LIMIT)
   \<and> (\<forall>m ip now. fst (checkRateLimit m ip now) = False \<longrightarrow> snd (checkRateLimit m ip now) = m)"
proof -
  have "counts_bounded rateLimitMap_init"
    by (simp add: counts_bounded_def rateLimitMap_init_def)
  then have "\<And>cs. counts_bounded (snd (run_calls rateLimitMap_init cs))"
    by (rule run_calls_bounded)
  then show ?thesis
    using checkRateLimit_reject_unchanged by (auto simp: counts_bounded_def)
qed

theorem rate_limit_count_invariant_witness:
  "snd (run_calls rateLimitMap_init ((k1, 0) # burst)) k1 = Some \<lparr>count = 10, lastReset = 0\<rparr>
   \<and> count \<lparr>count = 10, lastReset = 0\<rparr> \<le> RATE_LIMIT
   \<and> fst (checkRateLimit (snd (run_calls rateLimitMap_init ((k1, 0) # burst))) k1 60000) = False
   \<and> snd (checkRateLimit (snd (run_calls rateLimitMap_init ((k1, 0) # burst))) k1 60000)
       = snd (run_calls rateLimitMap_init ((k1, 0) # burst))"
proof -
  have stored: "snd (run_calls rateLimitMap_init ((k1, 0) # burst)) k1
                  = Some \<lparr>count = 10, lastReset = 0\<rparr>"
    by (simp add: burst_def k1_def k2_def rateLimitMap_init_def checkRateLimit_def
          RATE_LIMIT_def RATE_LIMIT_WINDOW_def)
  have rejected: "fst (checkRateLimit (snd (run_calls rateLimitMap_init ((k1, 0) # burst))) k1 60000)
                    = False"
    using checkRateLimit_in_window[of "snd (run_calls rateLimitMap_init ((k1, 0) # burst))"
        k1 10 0 60000] stored
    by (simp add: RATE_LIMIT_def RATE_LIMIT_WINDOW_def del: run_calls.simps)
  from rate_limit_count_invariant stored rejected show ?thesis
    by blast
qed


section \<open>Base-62 decoder for Facebook share identifiers\<close>

text \<open>
  A thrown JavaScript exception is a value: \<open>Error msg\<close> for \<^verbatim>\<open>new Error(msg)\<close>,
  \<open>TypeError msg\<close> for a property read on \<^verbatim>\<open>null\<close> or \<^verbatim>\<open>undefined\<close>, and so on.
\<close>

datatype js_error = Error string | TypeError string | SyntaxError string | NetworkError string

text \<open>
  \<^verbatim>\<open>base62ToDecimal\<close>: the loop over the characters keeps a \<^verbatim>\<open>BigInt\<close> accumulator
  (an unbounded integer, \<open>int\<close> here); \<^verbatim>\<open>alphabet.indexOf(char)\<close> is \<open>-1\<close> for a character
  that is not in the alphabet, and then the function throws.
  \<^verbatim>\<open>decimal.toString()\<close> is the decimal rendering \<open>bigint_toString\<close>.
  A character of the input is one element of the string, as \<^verbatim>\<open>base62[i]\<close> is.
\<close>


definition alphabet :: string where
  "alphabet = ''0123456789abcdefghijklmnopqrstuvwxyzABCDEFGHIJKLMNOPQRSTUVWXYZ''"

fun indexOf_from :: "'a list \<Rightarrow> 'a \<Rightarrow> int \<Rightarrow> int" where
  "indexOf_from [] c i = -1"
| "indexOf_from (x # xs) c i = (if x = c then i else indexOf_from xs c (i + 1))"

definition indexOf :: "'a list \<Rightarrow> 'a \<Rightarrow> int" where
  "indexOf xs c = indexOf_from xs c 0"

definition decimal_digits :: string where
  "decimal_digits = ''0123456789''"

fun nat_toString :: "nat \<Rightarrow> string" where
  "nat_toString n =
     (if n < 10 then [decimal_digits ! n]
      else nat_toString (n div 10) @ [decimal_digits ! (n mod 10)])"

declare nat_toString.simps [simp del]

definition bigint_toString :: "int \<Rightarrow> string" where
  "bigint_toString z = (if z < 0 then CHR ''-'' # nat_toString (nat (- z)) else nat_toString (nat z))"

fun base62_loop :: "string \<Rightarrow> int \<Rightarrow> js_error + int" where
  "base62_loop [] decimal = Inr decimal"
| "base62_loop (char # rest) decimal =
     (let value = indexOf alphabet char
      in if value = -1 then Inl (Error (''Invalid base62 character: '' @ [char]))
         else base62_loop rest (decimal * 62 + value))"

definition base62ToDecimal :: "string \<Rightarrow> js_error + string" where
  "base62ToDecimal base62 =
     (case base62_loop base62 0 of
        Inl e \<Rightarrow> Inl e
      | Inr decimal \<Rightarrow> Inr (bigint_toString decimal))"



text \<open>
  The reading of a digit string that the specification describes: the digit of a
  character is its position in the alphabet, and the digits are weighted
  most-significant-digit-first, \<open>\<Sum>i. d\<^sub>i * b ^ (n - 1 - i)\<close>.
\<close>

definition digit_in :: "string \<Rightarrow> char \<Rightarrow> nat" where
  "digit_in alpha c = nat (indexOf alpha c)"

definition msd_value :: "nat \<Rightarrow> nat list \<Rightarrow> nat" where
  "msd_value b ds = (\<Sum>i<length ds. ds ! i * b ^ (length ds - 1 - i))"


subsection \<open>Correctness of the decoder\<close>

lemma msd_value_Nil: "msd_value b [] = 0"
  by (simp add: msd_value_def)

lemma msd_value_Cons: "msd_value b (d # ds) = d * b ^ length ds + msd_value b ds"
  by (simp add: msd_value_def lessThan_Suc_eq_insert_0 sum.reindex)

lemma msd_value_snoc: "msd_value b (ds @ [d]) = msd_value b ds * b + d"
  by (induction ds) (simp_all add: msd_value_Cons msd_value_Nil algebra_simps)

lemma indexOf_from_absent: "c \<notin> set xs \<Longrightarrow> indexOf_from xs c i = -1"
  by (induction xs arbitrary: i) auto

lemma indexOf_from_present:
  "c \<in> set xs \<Longrightarrow> 0 \<le> i \<Longrightarrow> i \<le> indexOf_from xs c i \<and> indexOf_from xs c i < i + int (length xs)
      \<and> xs ! nat (indexOf_from xs c i - i) = c"
proof (induction xs arbitrary: i)
  case Nil
  then show ?case by simp
next
  case (Cons x xs)
  show ?case
  proof (cases "x = c")
    case True
    then show ?thesis by simp
  next
    case False
    with Cons.prems have "c \<in> set xs" by simp
    from Cons.IH[OF this, of "i + 1"] Cons.prems(2)
    have ih: "i + 1 \<le> indexOf_from xs c (i + 1)" "indexOf_from xs c (i + 1) < i + 1 + int (length xs)"
      "xs ! nat (indexOf_from xs c (i + 1) - (i + 1)) = c" by simp_all
    have "nat (indexOf_from xs c (i + 1) - i) = Suc (nat (indexOf_from xs c (i + 1) - (i + 1)))"
      using ih(1) by simp
    with ih False show ?thesis by simp
  qed
qed

lemma indexOf_minus_one: "indexOf xs c = -1 \<longleftrightarrow> c \<notin> set xs"
  using indexOf_from_absent[of c xs 0] indexOf_from_present[of c xs 0]
  by (auto simp: indexOf_def)

lemma indexOf_nonneg: "c \<in> set xs \<Longrightarrow> 0 \<le> indexOf xs c"
  using indexOf_from_present[of c xs 0] by (simp add: indexOf_def)

lemma base62_loop_valid:
  "set s \<subseteq> set alphabet \<Longrightarrow>
     base62_loop s acc = Inr (acc * 62 ^ length s + int (msd_value 62 (map (digit_in alphabet) s)))"
proof (induction s arbitrary: acc)
  case Nil
  then show ?case by (simp add: msd_value_Nil)
next
  case (Cons c s)
  then have c: "c \<in> set alphabet" and s: "set s \<subseteq> set alphabet" by simp_all
  have ne: "indexOf alphabet c \<noteq> -1" using c by (simp add: indexOf_minus_one)
  have nn: "0 \<le> indexOf alphabet c" using c by (rule indexOf_nonneg)
  show ?case
    using Cons.IH[OF s, of "acc * 62 + indexOf alphabet c"] ne nn
    by (simp add: Let_def msd_value_Cons digit_in_def algebra_simps)
qed

lemma base62_loop_invalid:
  "\<not> set s \<subseteq> set alphabet \<Longrightarrow>
     \<exists>c. c \<in> set s \<and> c \<notin> set alphabet
         \<and> base62_loop s acc = Inl (Error (''Invalid base62 character: '' @ [c]))"
proof (induction s arbitrary: acc)
  case Nil
  then show ?case by simp
next
  case (Cons a s)
  show ?case
  proof (cases "a \<in> set alphabet")
    case True
    with Cons.prems have "\<not> set s \<subseteq> set alphabet" by simp
    from Cons.IH[OF this, of "acc * 62 + indexOf alphabet a"] True show ?thesis
      by (auto simp: Let_def indexOf_minus_one)
  next
    case False
    then have "indexOf alphabet a = -1" by (simp add: indexOf_minus_one)
    with False show ?thesis by (auto simp: Let_def)
  qed
qed

lemma decimal_digit_at: "d < 10 \<Longrightarrow> decimal_digits ! d \<in> set decimal_digits
    \<and> digit_in decimal_digits (decimal_digits ! d) = d"
proof -
  assume "d < 10"
  then have "d \<in> {0,1,2,3,4,5,6,7,8,9}" by auto
  then show ?thesis
    by (auto simp: decimal_digits_def digit_in_def indexOf_def)
qed

lemma nat_toString_digits: "set (nat_toString n) \<subseteq> set decimal_digits"
proof (induction n rule: nat_toString.induct)
  case (1 n)
  show ?case
  proof (cases "n < 10")
    case True
    then show ?thesis using decimal_digit_at[of n] by (simp add: nat_toString.simps[of n])
  next
    case False
    then show ?thesis using 1 decimal_digit_at[of "n mod 10"]
      by (simp add: nat_toString.simps[of n])
  qed
qed

lemma nat_toString_value: "msd_value 10 (map (digit_in decimal_digits) (nat_toString n)) = n"
proof (induction n rule: nat_toString.induct)
  case (1 n)
  show ?case
  proof (cases "n < 10")
    case True
    then show ?thesis using decimal_digit_at[of n]
      by (simp add: nat_toString.simps[of n] msd_value_Cons msd_value_Nil)
  next
    case False
    then show ?thesis using 1 decimal_digit_at[of "n mod 10"]
      by (simp add: nat_toString.simps[of n] msd_value_snoc)
  qed
qed

text \<open>
  Claim C3. \<^verbatim>\<open>base62ToDecimal\<close> is a function of its argument alone. It decodes \<open>''0''\<close>
  to \<open>''0''\<close>; a multi-character input has one fixed result (\<open>''1a''\<close> gives \<open>''72''\<close>), also
  beyond the 64-bit range (eleven \<open>Z\<close> give \<open>62 ^ 11 - 1\<close>); for every input over the alphabet
  \<open>0-9a-zA-Z\<close> the result is a string of decimal digits whose value is the
  most-significant-digit-first base-62 value of the input; and for every input containing
  a character outside the alphabet the function throws the decoding error and returns no
  string.
\<close>

theorem base62ToDecimal_decodes:
  "base62ToDecimal ''0'' = Inr ''0''
   \<and> base62ToDecimal ''1a'' = Inr ''72''
   \<and> base62ToDecimal ''ZZZZZZZZZZZ'' = Inr ''52036560683837093887''
   \<and> (\<forall>s. set s \<subseteq> set alphabet \<longrightarrow>
         (\<exists>d. base62ToDecimal s = Inr d \<and> set d \<subseteq> set decimal_digits
              \<and> msd_value 10 (map (digit_in decimal_digits) d)
                  = msd_value 62 (map (digit_in alphabet) s)))
   \<and> (\<forall>s. \<not> set s \<subseteq> set alphabet \<longrightarrow>
         (\<exists>c. c \<in> set s \<and> c \<notin> set alphabet
              \<and> base62ToDecimal s = Inl (Error (''Invalid base62 character: '' @ [c]))))"
proof -
  have a: "base62ToDecimal ''0'' = Inr ''0''"
    by (simp add: base62ToDecimal_def indexOf_def alphabet_def bigint_toString_def
          nat_toString.simps decimal_digits_def)
  have b: "base62ToDecimal ''1a'' = Inr ''72''"
    by (simp add: base62ToDecimal_def indexOf_def alphabet_def bigint_toString_def
          nat_toString.simps decimal_digits_def)
  have c: "base62ToDecimal ''ZZZZZZZZZZZ'' = Inr ''52036560683837093887''"
    by (simp add: base62ToDecimal_def indexOf_def alphabet_def bigint_toString_def
          nat_toString.simps decimal_digits_def)
  have d: "\<exists>d. base62ToDecimal s = Inr d \<and> set d \<subseteq> set decimal_digits
              \<and> msd_value 10 (map (digit_in decimal_digits) d)
                  = msd_value 62 (map (digit_in alphabet) s)"
    if "set s \<subseteq> set alphabet" for s
    using base62_loop_valid[OF that, of 0] nat_toString_digits nat_toString_value
    by (simp add: base62ToDecimal_def bigint_toString_def)
  have e: "\<exists>c. c \<in> set s \<and> c \<notin> set alphabet
              \<and> base62ToDecimal s = Inl (Error (''Invalid base62 character: '' @ [c]))"
    if "\<not> set s \<subseteq> set alphabet" for s
    using base62_loop_invalid[OF that, of 0] by (auto simp: base62ToDecimal_def)
  from a b c d e show ?thesis by blast
qed

theorem base62ToDecimal_decodes_witness:
  "set ''XyZ9'' \<subseteq> set alphabet
   \<and> base62ToDecimal ''XyZ9'' = Inr ''14195839''
   \<and> msd_value 10 (map (digit_in decimal_digits) ''14195839'')
        = msd_value 62 (map (digit_in alphabet) ''XyZ9'')
   \<and> \<not> set ''a_b'' \<subseteq> set alphabet
   \<and> base62ToDecimal ''a_b'' = Inl (Error ''Invalid base62 character: _'')"
proof -
  have v: "set ''XyZ9'' \<subseteq> set alphabet" by (simp add: alphabet_def)
  have r: "base62ToDecimal ''XyZ9'' = Inr ''14195839''"
    by (simp add: base62ToDecimal_def indexOf_def alphabet_def bigint_toString_def
          nat_toString.simps decimal_digits_def)
  have i: "\<not> set ''a_b'' \<subseteq> set alphabet" by (simp add: alphabet_def)
  have e: "base62ToDecimal ''a_b'' = Inl (Error ''Invalid base62 character: _'')"
    by (simp add: base62ToDecimal_def indexOf_def alphabet_def)
  note valid = base62ToDecimal_decodes[THEN conjunct2, THEN conjunct2, THEN conjunct2,
      THEN conjunct1, THEN spec, of "''XyZ9''", THEN mp, OF v]
  note invalid = base62ToDecimal_decodes[THEN conjunct2, THEN conjunct2, THEN conjunct2,
      THEN conjunct2, THEN spec, of "''a_b''", THEN mp, OF i]
  from valid r have "msd_value 10 (map (digit_in decimal_digits) ''14195839'')
        = msd_value 62 (map (digit_in alphabet) ''XyZ9'')" by auto
  moreover from invalid e have "\<exists>c. c \<in> set ''a_b'' \<and> c \<notin> set alphabet" by blast
  ultimately show ?thesis using v r i e by blast
qed



section \<open>JavaScript values\<close>

text \<open>
  A parsed JSON document. A number is an IEEE double; \<open>JNum\<close> carries its value as an
  exact rational (what the arithmetic on doubles does with it is said where it is used,
  see \<open>number_runtime\<close> below). An object is the list of its members, each key
  once. A JavaScript value is a JSON value or \<^verbatim>\<open>undefined\<close>, which is \<open>None\<close>.
\<close>

datatype json = JNull | JBool bool | JNum rat | JStr string | JArr "json list"
  | JObj "(string \<times> json) list"

type_synonym jsval = "json option"

text \<open>Truthiness, \<^verbatim>\<open>a || b\<close>, property reads (\<^verbatim>\<open>v.k\<close> throws on \<^verbatim>\<open>null\<close> and
  \<^verbatim>\<open>undefined\<close>, \<^verbatim>\<open>v?.k\<close> does not), \<^verbatim>\<open>.length\<close> and \<^verbatim>\<open>[i]\<close>.\<close>

fun truthy :: "jsval \<Rightarrow> bool" where
  "truthy None = False"
| "truthy (Some JNull) = False"
| "truthy (Some (JBool b)) = b"
| "truthy (Some (JNum n)) = (n \<noteq> 0)"
| "truthy (Some (JStr s)) = (s \<noteq> [])"
| "truthy (Some (JArr xs)) = True"
| "truthy (Some (JObj kvs)) = True"

definition js_or :: "jsval \<Rightarrow> jsval \<Rightarrow> jsval" where
  "js_or a b = (if truthy a then a else b)"

fun get_prop :: "json \<Rightarrow> string \<Rightarrow> jsval" where
  "get_prop (JObj kvs) k = map_of kvs k"
| "get_prop v k = None"

fun nullish :: "jsval \<Rightarrow> bool" where
  "nullish None = True"
| "nullish (Some JNull) = True"
| "nullish (Some v) = False"

definition member :: "jsval \<Rightarrow> string \<Rightarrow> js_error + jsval" where
  "member v k =
     (case v of
        None \<Rightarrow> Inl (TypeError (''Cannot read properties of undefined (reading '' @ k @ '')''))
      | Some JNull \<Rightarrow> Inl (TypeError (''Cannot read properties of null (reading '' @ k @ '')''))
      | Some x \<Rightarrow> Inr (get_prop x k))"

definition opt_member :: "jsval \<Rightarrow> string \<Rightarrow> jsval" where
  "opt_member v k = (case v of None \<Rightarrow> None | Some JNull \<Rightarrow> None | Some x \<Rightarrow> get_prop x k)"

fun js_length :: "json \<Rightarrow> jsval" where
  "js_length (JArr xs) = Some (JNum (of_nat (length xs)))"
| "js_length (JStr s) = Some (JNum (of_nat (length s)))"
| "js_length (JObj kvs) = map_of kvs ''length''"
| "js_length v = None"

fun js_index :: "json \<Rightarrow> nat \<Rightarrow> jsval" where
  "js_index (JArr xs) i = (if i < length xs then Some (xs ! i) else None)"
| "js_index (JStr s) i = (if i < length s then Some (JStr [s ! i]) else None)"
| "js_index (JObj kvs) i = map_of kvs (nat_toString i)"
| "js_index v i = None"

definition opt_index :: "jsval \<Rightarrow> nat \<Rightarrow> jsval" where
  "opt_index v i = (case v of None \<Rightarrow> None | Some JNull \<Rightarrow> None | Some x \<Rightarrow> js_index x i)"

definition opt_length :: "jsval \<Rightarrow> jsval" where
  "opt_length v = (case v of None \<Rightarrow> None | Some JNull \<Rightarrow> None | Some x \<Rightarrow> js_length x)"

text \<open>
  Numbers. A JavaScript number is an IEEE double, and \<open>JNum\<close> carries its exact value.
  The model computes with exact rationals where the doubles give the same result, and
  takes what the runtime does elsewhere as a parameter:
  \<^item> \<^verbatim>\<open>ToNumber\<close> of a string, an array or an object is \<open>coerce_number\<close> (\<open>None\<close> is
    \<^verbatim>\<open>NaN\<close>); the other cases are as in the language;
  \<^item> \<^verbatim>\<open>Math.floor(d / 60)\<close> is \<open>\<lfloor>d / 60\<rfloor>\<close> for a double \<open>d\<close> with \<open>0 \<le> d < 2 ^ 53\<close>: the
    quotient is rounded to a double before the floor is taken, and for these \<open>d\<close> the
    rounding cannot reach the next integer (\<open>d\<close> is at least one unit of its own
    precision away from the next multiple of 60). Elsewhere it can: at
    \<open>d = 60 * 2 ^ 52 + 32\<close> the rounded quotient is \<open>2 ^ 52 + 1\<close>, and the quotient of the
    smallest negative double rounds to zero. There the result is \<open>rounded_floor_div_60\<close>;
  \<^item> \<^verbatim>\<open>a % b\<close> truncates towards zero and is exact;
  \<^item> \<^verbatim>\<open>String(n)\<close> is plain decimal for an integral \<open>n\<close> of magnitude below \<open>10 ^ 21\<close>;
    from there on JavaScript prints exponent notation, and a fraction prints with its
    decimals: both are \<open>other_toString\<close>.
\<close>

record number_runtime =
  coerce_number :: "json \<Rightarrow> rat option"
  rounded_floor_div_60 :: "rat \<Rightarrow> int"
  other_toString :: "rat \<Rightarrow> string"

fun ToNumber :: "(json \<Rightarrow> rat option) \<Rightarrow> jsval \<Rightarrow> rat option" where
  "ToNumber coerce None = None"
| "ToNumber coerce (Some JNull) = Some 0"
| "ToNumber coerce (Some (JBool b)) = Some (if b then 1 else 0)"
| "ToNumber coerce (Some (JNum n)) = Some n"
| "ToNumber coerce (Some v) = coerce v"

definition js_gt :: "rat option \<Rightarrow> rat option \<Rightarrow> bool" where
  "js_gt a b = (case (a, b) of (Some x, Some y) \<Rightarrow> x > y | _ \<Rightarrow> False)"

definition js_rem :: "rat \<Rightarrow> rat \<Rightarrow> rat" where
  "js_rem a b = a - b * of_int (if a / b < 0 then \<lceil>a / b\<rceil> else \<lfloor>a / b\<rfloor>)"

definition number_toString :: "number_runtime \<Rightarrow> rat option \<Rightarrow> string" where
  "number_toString rt n =
     (case n of
        None \<Rightarrow> ''NaN''
      | Some r \<Rightarrow>
          if r = of_int \<lfloor>r\<rfloor> \<and> \<bar>r\<bar> < 10 ^ 21 then bigint_toString \<lfloor>r\<rfloor>
          else other_toString rt r)"

definition Math_floor_div_60 :: "number_runtime \<Rightarrow> rat option \<Rightarrow> rat option" where
  "Math_floor_div_60 rt n =
     map_option
       (\<lambda>d. of_int (if 0 \<le> d \<and> d < 2 ^ 53 then \<lfloor>d / 60\<rfloor> else rounded_floor_div_60 rt d)) n"

definition Math_floor :: "rat option \<Rightarrow> rat option" where
  "Math_floor n = map_option (\<lambda>r. of_int \<lfloor>r\<rfloor>) n"

definition padStart :: "nat \<Rightarrow> string \<Rightarrow> string \<Rightarrow> string" where
  "padStart n pad s =
     (if length s \<ge> n \<or> pad = [] then s
      else take (n - length s) (concat (replicate (n - length s) pad)) @ s)"

text \<open>
  The expression that both branches of \<^verbatim>\<open>extractVideoFromJSON\<close> use for the field
  \<^verbatim>\<open>duration\<close>:
  \<^verbatim>\<open>d ? `${Math.floor(d / 60)}:${String(Math.floor(d % 60)).padStart(2, "0")}` : undefined\<close>.
\<close>

definition duration_field :: "number_runtime \<Rightarrow> jsval \<Rightarrow> string option" where
  "duration_field rt video_duration =
     (if truthy video_duration
      then let d = ToNumber (coerce_number rt) video_duration
           in Some (number_toString rt (Math_floor_div_60 rt d) @ '':''
                    @ padStart 2 ''0''
                        (number_toString rt (Math_floor (map_option (\<lambda>r. js_rem r 60) d))))
      else None)"


section \<open>Extraction results and the JSON extractor\<close>

text \<open>
  \<open>try_bind\<close> sequences two steps of a \<^verbatim>\<open>try\<close> block, the first of which may throw;
  \<open>catch_null\<close> is \<^verbatim>\<open>catch (e) { ... } return null\<close>.
\<close>

definition try_bind :: "js_error + 'a \<Rightarrow> ('a \<Rightarrow> js_error + 'b) \<Rightarrow> js_error + 'b" where
  "try_bind x f = (case x of Inl e \<Rightarrow> Inl e | Inr v \<Rightarrow> f v)"

definition catch_null :: "js_error + 'a option \<Rightarrow> 'a option" where
  "catch_null x = (case x of Inl e \<Rightarrow> None | Inr r \<Rightarrow> r)"

text \<open>The object literal that every strategy returns; an absent property is \<open>None\<close>.
  The property \<^verbatim>\<open>method\<close> of the source is the field \<open>extraction_method\<close>.\<close>

record video_data =
  video_url :: jsval
  thumbnail :: jsval
  quality :: "string option"
  duration :: jsval
  extraction_method :: "string option"

definition extractVideoFromJSON_body ::
  "number_runtime \<Rightarrow> jsval \<Rightarrow> js_error + video_data option" where
  "extractVideoFromJSON_body rt data =
     (let items = js_or (opt_member data ''items'')
                    (js_or (opt_member (opt_member data ''graphql'') ''shortcode_media'')
                           (opt_member (opt_member data ''data'') ''shortcode_media''))
      in case items of
           Some (JArr (item # rest)) \<Rightarrow>
             try_bind (member (Some item) ''video_versions'') (\<lambda>videoVersions.
               let imageVersions = opt_member (opt_member (Some item) ''image_versions2'') ''candidates''
               in if truthy videoVersions
                     \<and> js_gt (ToNumber (coerce_number rt) (opt_length videoVersions)) (Some 0)
                  then try_bind (member (opt_index videoVersions 0) ''url'') (\<lambda>url.
                         Inr (Some \<lparr>video_url = url,
                                     thumbnail = js_or (opt_member (opt_index imageVersions 0) ''url'')
                                                   (opt_member (Some item) ''display_url''),
                                     quality = Some ''HD'',
                                     duration = map_option JStr
                                       (duration_field rt (opt_member (Some item) ''video_duration'')),
                                     extraction_method = None\<rparr>))
                  else Inr None)
         | _ \<Rightarrow>
             if truthy items
             then let videoUrl = opt_member items ''video_url'';
                      thumbnail = js_or (opt_member items ''display_url'') (opt_member items ''thumbnail_src'')
                  in if truthy videoUrl
                     then Inr (Some \<lparr>video_url = videoUrl,
                                      thumbnail = thumbnail,
                                      quality = Some ''HD'',
                                      duration = map_option JStr
                                        (duration_field rt (opt_member items ''video_duration'')),
                                      extraction_method = None\<rparr>)
                     else Inr None
             else Inr None)"

definition extractVideoFromJSON :: "number_runtime \<Rightarrow> jsval \<Rightarrow> video_data option" where
  "extractVideoFromJSON rt data = catch_null (extractVideoFromJSON_body rt data)"


text \<open>Two digits, with a leading zero below ten, as the specification words it.\<close>

definition two_digits :: "nat \<Rightarrow> string" where
  "two_digits s = (if s < 10 then CHR ''0'' # nat_toString s else nat_toString s)"

lemma nat_toString_length1: "n < 10 \<Longrightarrow> length (nat_toString n) = 1"
  by (simp add: nat_toString.simps[of n])

lemma nat_toString_length2: "10 \<le> n \<Longrightarrow> n < 100 \<Longrightarrow> length (nat_toString n) = 2"
  using nat_toString_length1[of "n div 10"] by (simp add: nat_toString.simps[of n])

lemma two_digits_length: "s < 60 \<Longrightarrow> length (two_digits s) = 2"
  using nat_toString_length1[of s] nat_toString_length2[of s]
  by (simp add: two_digits_def)

lemma padStart_two_digits: "s < 60 \<Longrightarrow> padStart 2 ''0'' (nat_toString s) = two_digits s"
  using nat_toString_length1[of s] nat_toString_length2[of s]
  by (cases "s < 10") (simp_all add: padStart_def two_digits_def)

lemma floor_div_60:
  fixes d :: rat
  shows "\<lfloor>d / 60\<rfloor> = \<lfloor>d\<rfloor> div 60"
proof (rule floor_unique)
  have a: "of_int (\<lfloor>d\<rfloor> div 60 * 60) \<le> (of_int \<lfloor>d\<rfloor> :: rat)"
    by (simp only: of_int_le_iff)
  have "(of_int (\<lfloor>d\<rfloor> div 60 * 60) :: rat) \<le> d"
    using a of_int_floor_le[of d] by (rule order_trans)
  then have "of_int (\<lfloor>d\<rfloor> div 60) * 60 \<le> d" by simp
  then show "of_int (\<lfloor>d\<rfloor> div 60) \<le> d / 60" by (simp add: le_divide_eq)
  have "\<lfloor>d\<rfloor> + 1 \<le> (\<lfloor>d\<rfloor> div 60 + 1) * 60"
    by presburger
  then have b: "(of_int (\<lfloor>d\<rfloor> + 1) :: rat) \<le> of_int ((\<lfloor>d\<rfloor> div 60 + 1) * 60)"
    by (simp only: of_int_le_iff)
  have "d < of_int (\<lfloor>d\<rfloor> + 1)" by linarith
  with b have "d < (of_int (\<lfloor>d\<rfloor> div 60) + 1) * 60" by simp
  then show "d / 60 < of_int (\<lfloor>d\<rfloor> div 60) + 1" by (simp add: divide_less_eq)
qed

lemma floor_rem_60:
  fixes d :: rat
  shows "\<lfloor>d - 60 * of_int \<lfloor>d / 60\<rfloor>\<rfloor> = \<lfloor>d\<rfloor> mod 60"
proof -
  have "\<lfloor>d - of_int (60 * \<lfloor>d / 60\<rfloor>)\<rfloor> = \<lfloor>d\<rfloor> - 60 * \<lfloor>d / 60\<rfloor>"
    by (rule floor_diff_of_int)
  then show ?thesis
    by (simp add: floor_div_60 minus_mult_div_eq_mod)
qed

lemma number_toString_plain:
  assumes "0 \<le> k" and "k < 10 ^ 21"
  shows "number_toString rt (Some (of_int k)) = nat_toString (nat k)"
proof -
  have "(of_int k :: rat) < of_int (10 ^ 21)"
    using assms(2) by (simp only: of_int_less_iff)
  then have "\<bar>of_int k :: rat\<bar> < 10 ^ 21"
    using assms(1) by simp
  then show ?thesis
    using assms(1) by (simp add: number_toString_def bigint_toString_def)
qed

lemma minutes_below_plain_limit:
  fixes d :: rat
  assumes "d < 2 ^ 53"
  shows "\<lfloor>d / 60\<rfloor> < 10 ^ 21"
proof -
  have "d / 60 < 10 ^ 21" using assms by simp
  then have "d / 60 < of_int (10 ^ 21)" by simp
  then show ?thesis by (simp only: floor_less_iff)
qed

lemma duration_field_number:
  fixes d :: rat
  assumes "0 < d" and "d < 2 ^ 53"
  shows "duration_field rt (Some (JNum d))
           = Some (nat_toString (nat \<lfloor>d / 60\<rfloor>) @ '':''
                   @ two_digits (nat \<lfloor>d - 60 * of_int \<lfloor>d / 60\<rfloor>\<rfloor>))"
proof -
  have q: "0 \<le> \<lfloor>d / 60\<rfloor>" using assms(1) by simp
  have r: "js_rem d 60 = d - 60 * of_int \<lfloor>d / 60\<rfloor>"
    using assms(1) by (simp add: js_rem_def)
  have m: "0 \<le> \<lfloor>d\<rfloor> mod 60" "\<lfloor>d\<rfloor> mod 60 < 10 ^ 21" by simp_all
  have lt: "nat (\<lfloor>d\<rfloor> mod 60) < 60" by simp
  have range: "0 \<le> d \<and> d < 2 ^ 53" using assms by simp
  have minutes: "number_toString rt (Math_floor_div_60 rt (Some d))
                   = nat_toString (nat \<lfloor>d / 60\<rfloor>)"
    using range number_toString_plain[OF q minutes_below_plain_limit[OF assms(2)]]
    by (simp add: Math_floor_div_60_def)
  have seconds: "number_toString rt (Math_floor (Some (js_rem d 60)))
                   = nat_toString (nat (\<lfloor>d\<rfloor> mod 60))"
    using number_toString_plain[OF m]
    by (simp add: Math_floor_def r floor_rem_60)
  show ?thesis
    using assms(1) padStart_two_digits[OF lt]
    by (simp add: duration_field_def minutes seconds floor_rem_60)
qed

definition sample_item :: "rat \<Rightarrow> json" where
  "sample_item d = JObj [(''video_versions'', JArr [JObj [(''url'', JStr ''https://x.cdn/v.mp4'')]]),
                         (''video_duration'', JNum d)]"


lemma duration_field_absent: "\<not> truthy v \<Longrightarrow> duration_field rt v = None"
  by (simp add: duration_field_def)

lemma extractVideoFromJSON_array_duration:
  assumes "map_of kvs ''items'' = Some (JArr (JObj item # rest))"
    and "map_of item ''video_versions'' = Some (JArr (JObj v # vs))"
  shows "\<exists>res. extractVideoFromJSON rt (Some (JObj kvs)) = Some res
           \<and> duration res = map_option JStr (duration_field rt (map_of item ''video_duration''))"
  using assms
  by (simp add: extractVideoFromJSON_def extractVideoFromJSON_body_def js_or_def opt_member_def
        member_def try_bind_def catch_null_def js_gt_def opt_index_def opt_length_def)

lemma extractVideoFromJSON_single_duration:
  assumes "map_of kvs ''items'' = Some (JObj item)"
    and "truthy (map_of item ''video_url'')"
  shows "\<exists>res. extractVideoFromJSON rt (Some (JObj kvs)) = Some res
           \<and> duration res = map_option JStr (duration_field rt (map_of item ''video_duration''))"
  using assms
  by (simp add: extractVideoFromJSON_def extractVideoFromJSON_body_def js_or_def opt_member_def
        catch_null_def)

text \<open>
  Claim C8. For a raw duration of \<open>d\<close> seconds with \<open>0 < d < 2 ^ 53\<close>, integral or not,
  and whatever the runtime does outside this range, the field \<^verbatim>\<open>duration\<close> is the decimal
  rendering of \<open>\<lfloor>d / 60\<rfloor>\<close>, a colon, and \<open>\<lfloor>d mod 60\<rfloor>\<close> (which is below 60) written with
  exactly two digits, a leading zero when it is below ten. When the raw duration is
  missing (\<^verbatim>\<open>undefined\<close>, \<^verbatim>\<open>null\<close>, or the falsy number 0) the field is absent. Both
  branches of \<^verbatim>\<open>extractVideoFromJSON\<close>, the one for an array of items and the one for a
  single item, fill the field of the result they build with exactly this expression of
  the item's \<^verbatim>\<open>video_duration\<close>.
\<close>

theorem duration_minutes_seconds:
  "(\<forall>rt d. 0 < d \<and> d < 2 ^ 53 \<longrightarrow>
      duration_field rt (Some (JNum d))
        = Some (nat_toString (nat \<lfloor>d / 60\<rfloor>) @ '':''
                @ two_digits (nat \<lfloor>d - 60 * of_int \<lfloor>d / 60\<rfloor>\<rfloor>))
      \<and> nat \<lfloor>d - 60 * of_int \<lfloor>d / 60\<rfloor>\<rfloor> < 60
      \<and> length (two_digits (nat \<lfloor>d - 60 * of_int \<lfloor>d / 60\<rfloor>\<rfloor>)) = 2)
   \<and> (\<forall>rt v. \<not> truthy v \<longrightarrow> duration_field rt v = None)
   \<and> (\<forall>rt kvs item rest v vs.
         map_of kvs ''items'' = Some (JArr (JObj item # rest))
         \<and> map_of item ''video_versions'' = Some (JArr (JObj v # vs)) \<longrightarrow>
         (\<exists>res. extractVideoFromJSON rt (Some (JObj kvs)) = Some res
            \<and> duration res
                = map_option JStr (duration_field rt (map_of item ''video_duration''))))
   \<and> (\<forall>rt kvs item.
         map_of kvs ''items'' = Some (JObj item) \<and> truthy (map_of item ''video_url'') \<longrightarrow>
         (\<exists>res. extractVideoFromJSON rt (Some (JObj kvs)) = Some res
            \<and> duration res
                = map_option JStr (duration_field rt (map_of item ''video_duration''))))"
proof -
  have sec: "nat \<lfloor>d - 60 * of_int \<lfloor>d / 60\<rfloor>\<rfloor> < 60" for d :: rat
    by (simp add: floor_rem_60)
  show ?thesis
    using duration_field_number sec two_digits_length[OF sec] duration_field_absent
      extractVideoFromJSON_array_duration extractVideoFromJSON_single_duration
    by (intro conjI allI impI; (elim conjE)?; blast)
qed

definition plain_runtime :: number_runtime where
  "plain_runtime = \<lparr>coerce_number = (\<lambda>v. None), rounded_floor_div_60 = (\<lambda>d. 0),
                     other_toString = (\<lambda>d. ''Infinity'')\<rparr>"

theorem duration_minutes_seconds_witness:
  "(0::rat) < 3605 \<and> (3605::rat) < 2 ^ 53
   \<and> duration_field plain_runtime (Some (JNum 3605)) = Some ''60:05''
   \<and> \<not> truthy None \<and> duration_field plain_runtime None = None
   \<and> extractVideoFromJSON plain_runtime (Some (JObj [(''items'', JArr [sample_item 605])]))
       = Some \<lparr>video_url = Some (JStr ''https://x.cdn/v.mp4''), thumbnail = None,
               quality = Some ''HD'', duration = Some (JStr ''10:05''), extraction_method = None\<rparr>
   \<and> extractVideoFromJSON plain_runtime
         (Some (JObj [(''items'', JObj [(''video_url'', JStr ''https://x.cdn/v.mp4'')])]))
       = Some \<lparr>video_url = Some (JStr ''https://x.cdn/v.mp4''), thumbnail = None,
               quality = Some ''HD'', duration = None, extraction_method = None\<rparr>"
proof -
  note T = duration_minutes_seconds
  have a: "duration_field plain_runtime (Some (JNum 3605)) = Some ''60:05''"
    using T[THEN conjunct1, THEN spec, THEN spec, of 3605 plain_runtime,
            unfolded floor_rem_60, unfolded floor_div_60]
    by (simp add: two_digits_def nat_toString.simps decimal_digits_def)
  have c: "duration_field plain_runtime None = None"
    using T[THEN conjunct2, THEN conjunct1, THEN spec, THEN spec, of None plain_runtime] by simp
  have d: "duration_field plain_runtime (Some (JNum 605)) = Some ''10:05''"
    using T[THEN conjunct1, THEN spec, THEN spec, of 605 plain_runtime,
            unfolded floor_rem_60, unfolded floor_div_60]
    by (simp add: two_digits_def nat_toString.simps decimal_digits_def)
  have e: "extractVideoFromJSON plain_runtime (Some (JObj [(''items'', JArr [sample_item 605])]))
       = Some \<lparr>video_url = Some (JStr ''https://x.cdn/v.mp4''), thumbnail = None,
               quality = Some ''HD'', duration = Some (JStr ''10:05''), extraction_method = None\<rparr>"
    using T[THEN conjunct2, THEN conjunct2, THEN conjunct1, THEN spec, THEN spec, THEN spec,
            THEN spec, THEN spec, THEN spec,
            of "[(''items'', JArr [sample_item 605])]"
               "[(''video_versions'', JArr [JObj [(''url'', JStr ''https://x.cdn/v.mp4'')]]),
                 (''video_duration'', JNum 605)]"
               "[]" "[(''url'', JStr ''https://x.cdn/v.mp4'')]" "[]" plain_runtime]
    by (simp add: extractVideoFromJSON_def extractVideoFromJSON_body_def sample_item_def js_or_def
          opt_member_def member_def try_bind_def catch_null_def js_gt_def opt_index_def
          opt_length_def d)
  have f: "extractVideoFromJSON plain_runtime
         (Some (JObj [(''items'', JObj [(''video_url'', JStr ''https://x.cdn/v.mp4'')])]))
       = Some \<lparr>video_url = Some (JStr ''https://x.cdn/v.mp4''), thumbnail = None,
               quality = Some ''HD'', duration = None, extraction_method = None\<rparr>"
    using T[THEN conjunct2, THEN conjunct2, THEN conjunct2, THEN spec, THEN spec, THEN spec,
            of "[(''items'', JObj [(''video_url'', JStr ''https://x.cdn/v.mp4'')])]"
               "[(''video_url'', JStr ''https://x.cdn/v.mp4'')]" plain_runtime]
          c
    by (simp add: extractVideoFromJSON_def extractVideoFromJSON_body_def js_or_def
          opt_member_def member_def try_bind_def catch_null_def)
  from a c e f show ?thesis by simp
qed



section \<open>Strings and regular expressions\<close>

text \<open>The backslash cannot be written inside a string literal; \<open>bs\<close> is the string of it.\<close>

definition bs :: string where
  "bs = [CHR 0x5C]"

text \<open>
  \<^verbatim>\<open>s.replace(/lit/g, r)\<close> for a pattern that is a literal string replaces every
  occurrence, left to right; \<^verbatim>\<open>s.replace("lit", r)\<close> replaces the first one only;
  \<^verbatim>\<open>s.includes(t)\<close> is the substring test.
\<close>

function replace_all :: "string \<Rightarrow> string \<Rightarrow> string \<Rightarrow> string" where
  "replace_all pat rep [] = []"
| "replace_all pat rep (c # cs) =
     (if pat \<noteq> [] \<and> take (length pat) (c # cs) = pat
      then rep @ replace_all pat rep (drop (length pat) (c # cs))
      else c # replace_all pat rep cs)"
  by pat_completeness auto
termination
  by (relation "measure (\<lambda>(pat, rep, s). length s)") auto

fun replace_first :: "string \<Rightarrow> string \<Rightarrow> string \<Rightarrow> string" where
  "replace_first pat rep [] = (if pat = [] then rep else [])"
| "replace_first pat rep (c # cs) =
     (if take (length pat) (c # cs) = pat
      then rep @ drop (length pat) (c # cs)
      else c # replace_first pat rep cs)"

fun js_includes :: "string \<Rightarrow> string \<Rightarrow> bool" where
  "js_includes [] t = (t = [])"
| "js_includes (c # cs) t = (take (length t) (c # cs) = t \<or> js_includes cs t)"

text \<open>
  A regular expression literal is kept as its source text and its flags. The regular
  expression engine of the runtime is a parameter of the model (see \<open>env\<close> below):
  \<open>re_test\<close> is \<^verbatim>\<open>re.test(s)\<close>, \<open>re_group1\<close> is \<^verbatim>\<open>s.match(re)\<close> reduced to what the
  code reads of it (no match, or the text of capture group 1), and \<open>re_match_all\<close> is
  \<^verbatim>\<open>s.match(re)\<close> for a pattern with the flag \<^verbatim>\<open>g\<close> (the list of matches, empty for
  \<^verbatim>\<open>null\<close>).
\<close>

datatype regex = RegExp string string

section \<open>The network and the environment\<close>

datatype body = NoBody | JsonBody "(string \<times> json) list" | FormBody "(string \<times> string) list"

record request =
  req_url :: string
  req_method :: string
  req_headers :: "(string \<times> string) list"
  req_body :: body
  req_redirect :: string
  req_timeout :: "nat option"

text \<open>
  What \<^verbatim>\<open>await fetch(...)\<close> gives: the promise rejects (network failure, timeout), or
  there is a response. \<open>resp_text\<close> and \<open>resp_json\<close> are the outcomes of
  \<^verbatim>\<open>await response.text()\<close> and \<^verbatim>\<open>await response.json()\<close>, which may reject too;
  \<open>resp_location\<close> is \<^verbatim>\<open>response.headers.get('location')\<close>.
\<close>

record response =
  resp_ok :: bool
  resp_status :: nat
  resp_url :: string
  resp_location :: "string option"
  resp_text :: "js_error + string"
  resp_json :: "js_error + json"

datatype reply = Rejected js_error | Responded response

text \<open>
  The world outside the process is a state \<open>'w\<close>; a fetch is a transition of the world
  that yields a reply. Nothing is assumed of it: the same request may be answered
  differently each time. \<open>BACKEND_URL\<close> is \<^verbatim>\<open>process.env.BACKEND_URL\<close>.
\<close>

record 'w env =
  fetch :: "request \<Rightarrow> 'w \<Rightarrow> reply \<times> 'w"
  BACKEND_URL :: "string option"
  re_test :: "regex \<Rightarrow> string \<Rightarrow> bool"
  re_group1 :: "regex \<Rightarrow> string \<Rightarrow> string option"
  re_match_all :: "regex \<Rightarrow> string \<Rightarrow> string list"
  encodeURIComponent :: "string \<Rightarrow> js_error + string"
  coerce_string :: "json \<Rightarrow> string"

text \<open>The first pattern of a list that matches, with its capture group 1.\<close>

fun first_match :: "'w env \<Rightarrow> regex list \<Rightarrow> string \<Rightarrow> string option" where
  "first_match env [] s = None"
| "first_match env (pattern # patterns) s =
     (case re_group1 env pattern s of
        Some g \<Rightarrow> Some g
      | None \<Rightarrow> first_match env patterns s)"

definition GET_request :: "string \<Rightarrow> (string \<times> string) list \<Rightarrow> request" where
  "GET_request u hs = \<lparr>req_url = u, req_method = ''GET'', req_headers = hs, req_body = NoBody,
                        req_redirect = ''follow'', req_timeout = None\<rparr>"

definition UA_chrome_windows :: string where
  "UA_chrome_windows = ''Mozilla/5.0 (Windows NT 10.0; Win64; x64) AppleWebKit/537.36 (KHTML, like Gecko) Chrome/120.0.0.0 Safari/537.36''"

definition accept_html :: string where
  "accept_html = ''text/html,application/xhtml+xml,application/xml;q=0.9,*/*;q=0.8''"

section \<open>Facebook: URL classification\<close>

definition fbPatterns :: "regex list" where
  \<open>fbPatterns =
    [RegExp (''facebook'' @ bs @ ''.com'' @ bs @ ''/reel'' @ bs @ ''/'') '''',
     RegExp (''facebook'' @ bs @ ''.com'' @ bs @ ''/.*'' @ bs @ ''/videos'' @ bs @ ''/'') '''',
     RegExp (''fb'' @ bs @ ''.watch'' @ bs @ ''/'') '''',
     RegExp (''facebook'' @ bs @ ''.com'' @ bs @ ''/watch'' @ bs @ ''/'') '''',
     RegExp (''facebook'' @ bs @ ''.com'' @ bs @ ''/share'' @ bs @ ''/'') '''',
     RegExp (''m'' @ bs @ ''.facebook'' @ bs @ ''.com'' @ bs @ ''/share'' @ bs @ ''/'') '''']\<close>

definition sharePatterns :: "regex list" where
  \<open>sharePatterns =
    [RegExp (''facebook'' @ bs @ ''.com'' @ bs @ ''/share'' @ bs @ ''/r'' @ bs @ ''/'') '''',
     RegExp (''facebook'' @ bs @ ''.com'' @ bs @ ''/share'' @ bs @ ''/v'' @ bs @ ''/'') '''',
     RegExp (''facebook'' @ bs @ ''.com'' @ bs @ ''/share'' @ bs @ ''/reel'' @ bs @ ''/'') '''',
     RegExp (''facebook'' @ bs @ ''.com'' @ bs @ ''/share'' @ bs @ ''/'') '''',
     RegExp (''m'' @ bs @ ''.facebook'' @ bs @ ''.com'' @ bs @ ''/share'' @ bs @ ''/r'' @ bs @ ''/'') '''']\<close>

definition isFacebookURL :: "'w env \<Rightarrow> string \<Rightarrow> bool" where
  "isFacebookURL env url = list_ex (\<lambda>pattern. re_test env pattern url) fbPatterns"

definition isFacebookShareURL :: "'w env \<Rightarrow> string \<Rightarrow> bool" where
  "isFacebookShareURL env url = list_ex (\<lambda>pattern. re_test env pattern url) sharePatterns"

text \<open>
  An \<^verbatim>\<open>async\<close> function is a transition of the world that returns a value or throws.
\<close>

type_synonym ('w, 'a) async = "'w \<Rightarrow> (js_error + 'a) \<times> 'w"

definition truthy_string :: "string option \<Rightarrow> bool" where
  "truthy_string s = (case s of None \<Rightarrow> False | Some t \<Rightarrow> t \<noteq> [])"

section \<open>Facebook: extraction strategies\<close>

subsection \<open>Thumbnail probe\<close>

definition ogImage_patterns :: "regex list" where
  \<open>ogImage_patterns =
    [RegExp ''property="og:image"[^>]*content="([^"]+)"'' '''',
     RegExp ''meta[^>]*content="([^"]+)"[^>]*property="og:image"'' '''']\<close>

definition thumbnail_request :: "string \<Rightarrow> request" where
  "thumbnail_request url =
     GET_request url [(''User-Agent'', UA_chrome_windows), (''Accept'', accept_html)]"

definition extractFacebookThumbnail :: "'w env \<Rightarrow> string \<Rightarrow> ('w, string option) async" where
  "extractFacebookThumbnail env url w =
     (let (rep, w1) = fetch env (thumbnail_request url) w
      in (Inr (catch_null
            (case rep of
               Rejected e \<Rightarrow> Inl e
             | Responded response \<Rightarrow>
                 if \<not> resp_ok response then Inr None
                 else try_bind (resp_text response) (\<lambda>html.
                        case first_match env ogImage_patterns html of
                          Some g \<Rightarrow> Inr (Some (replace_all ''&amp;'' ''&'' g))
                        | None \<Rightarrow> Inr None))), w1))"

subsection \<open>Embed player page\<close>

definition api_hdPatterns :: "regex list" where
  \<open>api_hdPatterns =
    [RegExp ''"playable_url_quality_hd":"([^"]+)"'' '''',
     RegExp ''"browser_native_hd_url":"([^"]+)"'' '''',
     RegExp ''"hd_src":"([^"]+)"'' '''',
     RegExp ''hd_src:"([^"]+)"'' '''',
     RegExp ''"playable_url":"([^"]+)"'' '''']\<close>

definition api_thumbnailPatterns :: "regex list" where
  \<open>api_thumbnailPatterns =
    [RegExp ''"preferred_thumbnail":{"image":{"uri":"([^"]+)"'' '''',
     RegExp ''"thumbnailImage":{"uri":"([^"]+)"'' '''',
     RegExp ''"og:image"[^>]*content="([^"]+)"'' '''',
     RegExp ''"thumbnail_url":"([^"]+)"'' '''',
     RegExp ''property="og:image"[^>]*content="([^"]+)"'' '''']\<close>

definition api_sdPatterns :: "regex list" where
  \<open>api_sdPatterns =
    [RegExp ''"browser_native_sd_url":"([^"]+)"'' '''',
     RegExp ''"sd_src":"([^"]+)"'' '''',
     RegExp ''sd_src:"([^"]+)"'' '''',
     RegExp ''"video_url":"([^"]+)"'' '''']\<close>

text \<open>The chain of replacements applied to a matched video URL.\<close>

definition unescape_video_url :: "string \<Rightarrow> string" where
  "unescape_video_url s =
     replace_all bs []
       (replace_all (bs @ ''u002F'') ''/''
         (replace_all (bs @ ''u0026'') ''&''
           (replace_all (bs @ ''u0025'') ''%'' s)))"

definition unescape_thumbnail :: "string \<Rightarrow> string" where
  "unescape_thumbnail s = replace_all ''&amp;'' ''&'' (replace_all bs [] s)"

definition fetchViaFacebookAPI_parse :: "'w env \<Rightarrow> string \<Rightarrow> video_data option" where
  "fetchViaFacebookAPI_parse env html =
     (let thumbnail = map_option unescape_thumbnail (first_match env api_thumbnailPatterns html)
      in case first_match env api_hdPatterns html of
           Some g \<Rightarrow>
             Some \<lparr>video_url = Some (JStr (unescape_video_url g)),
                   thumbnail = map_option JStr thumbnail,
                   quality = Some ''HD'', duration = None, extraction_method = None\<rparr>
         | None \<Rightarrow>
             (case first_match env api_sdPatterns html of
                Some g \<Rightarrow>
                  Some \<lparr>video_url = Some (JStr (unescape_video_url g)),
                        thumbnail = map_option JStr thumbnail,
                        quality = Some ''SD'', duration = None, extraction_method = None\<rparr>
              | None \<Rightarrow> None))"

definition facebookAPI_request :: "string \<Rightarrow> request" where
  "facebookAPI_request enc =
     GET_request (''https://www.facebook.com/plugins/video.php?href='' @ enc)
       [(''User-Agent'', UA_chrome_windows), (''Accept'', accept_html)]"

definition fetchViaFacebookAPI :: "'w env \<Rightarrow> string \<Rightarrow> ('w, video_data option) async" where
  "fetchViaFacebookAPI env url w =
     (case encodeURIComponent env url of
        Inl e \<Rightarrow> (Inr None, w)
      | Inr enc \<Rightarrow>
          let (rep, w1) = fetch env (facebookAPI_request enc) w
          in (Inr (catch_null
                (case rep of
                   Rejected e \<Rightarrow> Inl e
                 | Responded response \<Rightarrow>
                     if \<not> resp_ok response then Inr None
                     else try_bind (resp_text response) (\<lambda>html.
                            Inr (fetchViaFacebookAPI_parse env html)))), w1))"

subsection \<open>Delegated Cobalt API\<close>

definition cobalt_statuses :: "jsval \<Rightarrow> bool" where
  "cobalt_statuses st =
     (st = Some (JStr ''redirect'') \<or> st = Some (JStr ''stream'') \<or> st = Some (JStr ''tunnel''))"

definition cobalt_headers :: "(string \<times> string) list" where
  "cobalt_headers = [(''Accept'', ''application/json''), (''Content-Type'', ''application/json'')]"

definition cobalt_request :: "string \<Rightarrow> request" where
  "cobalt_request url =
     \<lparr>req_url = ''https://api.cobalt.tools/api/json'', req_method = ''POST'',
      req_headers = cobalt_headers,
      req_body = JsonBody [(''url'', JStr url), (''vCodec'', JStr ''h264''),
                           (''vQuality'', JStr ''max''), (''aFormat'', JStr ''best''),
                           (''filenamePattern'', JStr ''basic''), (''isAudioOnly'', JBool False),
                           (''disableMetadata'', JBool False)],
      req_redirect = ''follow'', req_timeout = None\<rparr>"

definition fetchViaCobalAPI_parse :: "json \<Rightarrow> js_error + video_data option" where
  "fetchViaCobalAPI_parse data =
     try_bind (member (Some data) ''status'') (\<lambda>status.
       if status = Some (JStr ''error'') then Inr None
       else if cobalt_statuses status
       then Inr (Some \<lparr>video_url = get_prop data ''url'',
                        thumbnail = js_or (get_prop data ''thumb'') None,
                        quality = Some ''HD'', duration = None, extraction_method = None\<rparr>)
       else if truthy (get_prop data ''url'')
       then Inr (Some \<lparr>video_url = get_prop data ''url'',
                        thumbnail = js_or (get_prop data ''thumb'') None,
                        quality = Some ''HD'', duration = None, extraction_method = None\<rparr>)
       else Inr None)"

definition fetchViaCobalAPI :: "'w env \<Rightarrow> string \<Rightarrow> ('w, video_data option) async" where
  "fetchViaCobalAPI env url w =
     (let (rep, w1) = fetch env (cobalt_request url) w
      in (Inr (catch_null
            (case rep of
               Rejected e \<Rightarrow> Inl e
             | Responded response \<Rightarrow>
                 if \<not> resp_ok response
                 then try_bind (resp_text response) (\<lambda>errorText. Inr None)
                 else try_bind (resp_json response) fetchViaCobalAPI_parse)), w1))"

subsection \<open>Mirror site\<close>

definition snapsave_hdPatterns :: "regex list" where
  \<open>snapsave_hdPatterns =
    [RegExp (''href="([^"]+)"'' @ bs @ ''s+download="[^"]*hd[^"]*'' @ bs @ ''.mp4"'') ''i'',
     RegExp (''href="([^"]+)"'' @ bs @ ''s+[^>]*>.*?HD.*?<'' @ bs @ ''/a>'') ''i'',
     RegExp ''<a[^>]+href="([^"]+)"[^>]*class="[^"]*hd[^"]*"'' ''i'']\<close>

definition snapsave_thumbnailPatterns :: "regex list" where
  \<open>snapsave_thumbnailPatterns =
    [RegExp ''poster="([^"]+)"'' ''i'',
     RegExp ''"thumbnail":"([^"]+)"'' ''i'',
     RegExp ''data-thumb="([^"]+)"'' ''i'']\<close>

definition snapsave_fallbackPatterns :: "regex list" where
  \<open>snapsave_fallbackPatterns =
    [RegExp (''href="([^"]+)"'' @ bs @ ''s+download="[^"]*'' @ bs @ ''.mp4"'') ''i'',
     RegExp ''<a[^>]+href="([^"]+)"[^>]*class="[^"]*download[^"]*"'' ''i'',
     RegExp (''href="(https:'' @ bs @ ''/'' @ bs @ ''/[^"]+'' @ bs @ ''.mp4[^"]*)"'') ''i'',
     RegExp ''"downloadUrl":"([^"]+)"'' ''i'']\<close>

definition snapsave_request :: "string \<Rightarrow> request" where
  "snapsave_request url =
     \<lparr>req_url = ''https://www.getfvid.com/downloader'', req_method = ''POST'',
      req_headers = [(''User-Agent'', UA_chrome_windows),
                     (''Content-Type'', ''application/x-www-form-urlencoded''),
                     (''Accept'', accept_html),
                     (''Origin'', ''https://www.getfvid.com''),
                     (''Referer'', ''https://www.getfvid.com/'')],
      req_body = FormBody [(''url'', url)],
      req_redirect = ''follow'', req_timeout = None\<rparr>"

definition unescape_snapsave :: "string \<Rightarrow> string" where
  "unescape_snapsave s = replace_all (bs @ ''u002F'') ''/'' (replace_all ''&amp;'' ''&'' s)"

definition fetchViaSnapSave_parse :: "'w env \<Rightarrow> string \<Rightarrow> video_data option" where
  "fetchViaSnapSave_parse env html =
     (case first_match env snapsave_hdPatterns html of
        Some g \<Rightarrow>
          Some \<lparr>video_url = Some (JStr (unescape_snapsave g)),
                thumbnail = map_option JStr (first_match env snapsave_thumbnailPatterns html),
                quality = Some ''HD'', duration = None, extraction_method = None\<rparr>
      | None \<Rightarrow>
          (case first_match env snapsave_fallbackPatterns html of
             Some g \<Rightarrow>
               Some \<lparr>video_url = Some (JStr (unescape_snapsave g)),
                     thumbnail = map_option JStr (first_match env snapsave_thumbnailPatterns html),
                     quality = Some ''SD'', duration = None, extraction_method = None\<rparr>
           | None \<Rightarrow> None))"

definition fetchViaSnapSave :: "'w env \<Rightarrow> string \<Rightarrow> ('w, video_data option) async" where
  "fetchViaSnapSave env url w =
     (let (rep, w1) = fetch env (snapsave_request url) w
      in (Inr (catch_null
            (case rep of
               Rejected e \<Rightarrow> Inl e
             | Responded response \<Rightarrow>
                 if \<not> resp_ok response then Inr None
                 else try_bind (resp_text response) (\<lambda>html.
                        Inr (fetchViaSnapSave_parse env html)))), w1))"

subsection \<open>Mobile markup\<close>

definition direct_hdPatterns :: "regex list" where
  \<open>direct_hdPatterns =
    [RegExp ''"playable_url_quality_hd":"([^"]+)"'' '''',
     RegExp ''"browser_native_hd_url":"([^"]+)"'' '''',
     RegExp ''hd_src:"([^"]+)"'' '''',
     RegExp ''"hd_src":"([^"]+)"'' '''']\<close>

definition direct_thumbnailPatterns :: "regex list" where
  \<open>direct_thumbnailPatterns =
    [RegExp ''"preferred_thumbnail":{"image":{"uri":"([^"]+)"'' '''',
     RegExp ''"thumbnailImage":{"uri":"([^"]+)"'' '''',
     RegExp ''og:image"[^>]*content="([^"]+)"'' '''']\<close>

definition direct_fallbackPatterns :: "regex list" where
  \<open>direct_fallbackPatterns =
    [RegExp ''"playable_url":"([^"]+)"'' '''',
     RegExp ''"browser_native_sd_url":"([^"]+)"'' '''',
     RegExp ''sd_src:"([^"]+)"'' '''',
     RegExp ''"video_url":"([^"]+)"'' '''',
     RegExp (''src="(https:'' @ bs @ ''/'' @ bs @ ''/[^"]+'' @ bs @ ''.mp4[^"]*)"'') '''',
     RegExp (''href="(https:'' @ bs @ ''/'' @ bs @ ''/video[^"]+)"'') '''']\<close>

definition UA_android :: string where
  "UA_android = ''Mozilla/5.0 (Linux; Android 10; SM-G973F) AppleWebKit/537.36 (KHTML, like Gecko) Chrome/120.0.0.0 Mobile Safari/537.36''"

definition direct_request :: "string \<Rightarrow> request" where
  "direct_request url =
     GET_request
       (replace_first ''m.facebook.com'' ''mbasic.facebook.com''
          (replace_first ''www.facebook.com'' ''mbasic.facebook.com'' url))
       [(''User-Agent'', UA_android), (''Accept'', accept_html),
        (''Accept-Language'', ''en-US,en;q=0.9'')]"

definition unescape_direct :: "string \<Rightarrow> string" where
  "unescape_direct s = replace_all ''&amp;'' ''&'' (unescape_video_url s)"

definition fetchViaFacebookDirect_parse :: "'w env \<Rightarrow> string \<Rightarrow> video_data option" where
  "fetchViaFacebookDirect_parse env html =
     (case first_match env direct_hdPatterns html of
        Some g \<Rightarrow>
          Some \<lparr>video_url = Some (JStr (unescape_direct g)),
                thumbnail = map_option (JStr \<circ> unescape_thumbnail)
                              (first_match env direct_thumbnailPatterns html),
                quality = Some ''HD'', duration = None, extraction_method = None\<rparr>
      | None \<Rightarrow>
          (case first_match env direct_fallbackPatterns html of
             Some g \<Rightarrow>
               Some \<lparr>video_url = Some (JStr (unescape_direct g)),
                     thumbnail = map_option (JStr \<circ> unescape_thumbnail)
                                   (first_match env direct_thumbnailPatterns html),
                     quality = Some ''SD'', duration = None, extraction_method = None\<rparr>
           | None \<Rightarrow> None))"

definition fetchViaFacebookDirect :: "'w env \<Rightarrow> string \<Rightarrow> ('w, video_data option) async" where
  "fetchViaFacebookDirect env url w =
     (let (rep, w1) = fetch env (direct_request url) w
      in (Inr (catch_null
            (case rep of
               Rejected e \<Rightarrow> Inl e
             | Responded response \<Rightarrow>
                 if \<not> resp_ok response then Inr None
                 else try_bind (resp_text response) (\<lambda>html.
                        Inr (fetchViaFacebookDirect_parse env html)))), w1))"

section \<open>Facebook: share-link resolver\<close>

definition shareId_pattern :: regex where
  \<open>shareId_pattern = RegExp (bs @ ''/share'' @ bs @ ''/[rv]'' @ bs @ ''/([A-Za-z0-9]+)'') ''i''\<close>

definition metaRefresh_pattern :: regex where
  \<open>metaRefresh_pattern = RegExp ''<meta[^>]*http-equiv=["']refresh["'][^>]*content=["'][^"']*url=([^"']+)["']'' ''i''\<close>

definition ogUrlPatterns :: "regex list" where
  \<open>ogUrlPatterns =
    [RegExp ''property="og:url"[^>]*content="([^"]+)"'' ''i'',
     RegExp ''meta[^>]*content="([^"]+)"[^>]*property="og:url"'' ''i'',
     RegExp ''<link[^>]*rel="canonical"[^>]*href="([^"]+)"'' ''i'']\<close>

definition reelIdPatterns :: "regex list" where
  \<open>reelIdPatterns =
    [RegExp (''"video_id":"('' @ bs @ ''d+)"'') '''',
     RegExp (''"videoID":"('' @ bs @ ''d+)"'') '''',
     RegExp (bs @ ''/reel'' @ bs @ ''/('' @ bs @ ''d+)'') '''',
     RegExp (''"fbid":"('' @ bs @ ''d+)"'') '''']\<close>

definition is_canonical :: "'w env \<Rightarrow> string \<Rightarrow> bool" where
  "is_canonical env u = (\<not> isFacebookShareURL env u \<and> isFacebookURL env u)"

definition cobalt_probe_request :: "string \<Rightarrow> request" where
  "cobalt_probe_request url =
     \<lparr>req_url = ''https://api.cobalt.tools/api/json'', req_method = ''POST'',
      req_headers = cobalt_headers,
      req_body = JsonBody [(''url'', JStr url), (''vCodec'', JStr ''h264''),
                           (''vQuality'', JStr ''max'')],
      req_redirect = ''follow'', req_timeout = Some 8000\<rparr>"

text \<open>
  What strategies 1 and 2 do with the reply of the Cobalt probe: true when the code
  reaches its \<^verbatim>\<open>return\<close>, false when it falls through, an error when it throws.
\<close>

definition cobalt_probe_accepts :: "reply \<Rightarrow> js_error + bool" where
  "cobalt_probe_accepts rep =
     (case rep of
        Rejected e \<Rightarrow> Inl e
      | Responded response \<Rightarrow>
          if resp_ok response
          then try_bind (resp_json response) (\<lambda>data.
                 try_bind (member (Some data) ''status'') (\<lambda>status.
                   Inr (cobalt_statuses status \<and> truthy (get_prop data ''url''))))
          else Inr False)"

text \<open>
  Each strategy is a \<^verbatim>\<open>try\<close> block with its own \<^verbatim>\<open>catch\<close>: \<open>Some u\<close> when the block
  executes \<^verbatim>\<open>return u\<close>, \<open>None\<close> when it falls through or its exception is caught.
\<close>

definition resolve_strategy1 :: "'w env \<Rightarrow> string \<Rightarrow> 'w \<Rightarrow> string option \<times> 'w" where
  "resolve_strategy1 env url w =
     (let (rep, w1) = fetch env (cobalt_probe_request url) w
      in (catch_null
            (try_bind (cobalt_probe_accepts rep) (\<lambda>accepted.
               Inr (if accepted then Some url else None))), w1))"

definition resolve_strategy2 :: "'w env \<Rightarrow> string option \<Rightarrow> 'w \<Rightarrow> string option \<times> 'w" where
  "resolve_strategy2 env shareId w =
     (case shareId of
        None \<Rightarrow> (None, w)
      | Some sid \<Rightarrow>
          if sid = [] then (None, w)
          else (case base62ToDecimal sid of
                  Inl e \<Rightarrow> (None, w)
                | Inr decimalId \<Rightarrow>
                    let constructedUrl = ''https://www.facebook.com/reel/'' @ decimalId;
                        (rep, w1) = fetch env (cobalt_probe_request constructedUrl) w
                    in (catch_null
                          (try_bind (cobalt_probe_accepts rep) (\<lambda>accepted.
                             Inr (if accepted then Some constructedUrl else None))), w1)))"

definition UA_iphone :: string where
  "UA_iphone = ''Mozilla/5.0 (iPhone; CPU iPhone OS 16_0 like Mac OS X) AppleWebKit/605.1.15 (KHTML, like Gecko) Version/16.0 Mobile/15E148 Safari/604.1''"

definition manual_request :: "string \<Rightarrow> request" where
  "manual_request url =
     \<lparr>req_url = url, req_method = ''GET'',
      req_headers = [(''User-Agent'', UA_iphone), (''Accept'', accept_html)],
      req_body = NoBody, req_redirect = ''manual'', req_timeout = Some 8000\<rparr>"

definition follow_request :: "string \<Rightarrow> request" where
  "follow_request url =
     \<lparr>req_url = url, req_method = ''GET'',
      req_headers = [(''User-Agent'', UA_chrome_windows), (''Accept'', accept_html)],
      req_body = NoBody, req_redirect = ''follow'', req_timeout = Some 8000\<rparr>"

text \<open>The loop over \<^verbatim>\<open>ogUrlPatterns\<close>: a match that is not canonical does not stop it.\<close>

fun og_url_loop :: "'w env \<Rightarrow> regex list \<Rightarrow> string \<Rightarrow> string option" where
  "og_url_loop env [] html = None"
| "og_url_loop env (pattern # patterns) html =
     (case re_group1 env pattern html of
        Some g \<Rightarrow>
          if g \<noteq> [] \<and> is_canonical env (replace_all ''&amp;'' ''&'' g)
          then Some (replace_all ''&amp;'' ''&'' g)
          else og_url_loop env patterns html
      | None \<Rightarrow> og_url_loop env patterns html)"

fun reel_id_loop :: "'w env \<Rightarrow> regex list \<Rightarrow> string \<Rightarrow> string option" where
  "reel_id_loop env [] html = None"
| "reel_id_loop env (pattern # patterns) html =
     (case re_group1 env pattern html of
        Some reelId \<Rightarrow>
          if reelId \<noteq> [] then Some (''https://www.facebook.com/reel/'' @ reelId)
          else reel_id_loop env patterns html
      | None \<Rightarrow> reel_id_loop env patterns html)"

definition meta_refresh_url :: "'w env \<Rightarrow> string \<Rightarrow> string option" where
  "meta_refresh_url env html =
     (case re_group1 env metaRefresh_pattern html of
        Some g \<Rightarrow>
          if g \<noteq> [] \<and> is_canonical env (replace_all ''&amp;'' ''&'' g)
          then Some (replace_all ''&amp;'' ''&'' g)
          else None
      | None \<Rightarrow> None)"

definition resolve_scan_html :: "'w env \<Rightarrow> string \<Rightarrow> string option" where
  "resolve_scan_html env html =
     (case meta_refresh_url env html of
        Some refreshUrl \<Rightarrow> Some refreshUrl
      | None \<Rightarrow>
          (case og_url_loop env ogUrlPatterns html of
             Some canonicalUrl \<Rightarrow> Some canonicalUrl
           | None \<Rightarrow> reel_id_loop env reelIdPatterns html))"

definition location_accepted :: "'w env \<Rightarrow> string option \<Rightarrow> bool" where
  "location_accepted env location =
     (case location of None \<Rightarrow> False | Some l \<Rightarrow> l \<noteq> [] \<and> is_canonical env l)"

definition resolve_strategy3 :: "'w env \<Rightarrow> string \<Rightarrow> 'w \<Rightarrow> string option \<times> 'w" where
  "resolve_strategy3 env url w =
     (let (rep1, w1) = fetch env (manual_request url) w
      in case rep1 of
           Rejected e \<Rightarrow> (None, w1)
         | Responded manualResponse \<Rightarrow>
             if location_accepted env (resp_location manualResponse)
             then (resp_location manualResponse, w1)
             else
               let (rep2, w2) = fetch env (follow_request url) w1
               in (catch_null
                     (case rep2 of
                        Rejected e \<Rightarrow> Inl e
                      | Responded followResponse \<Rightarrow>
                          if resp_ok followResponse
                          then if resp_url followResponse \<noteq> []
                                  \<and> is_canonical env (resp_url followResponse)
                               then Inr (Some (resp_url followResponse))
                               else try_bind (resp_text followResponse) (\<lambda>html.
                                      Inr (resolve_scan_html env html))
                          else Inr None), w2))"

definition backend_resolve_request :: "string \<Rightarrow> string \<Rightarrow> request" where
  "backend_resolve_request backendUrl url =
     \<lparr>req_url = backendUrl @ ''/api/facebook-resolve'', req_method = ''POST'',
      req_headers = [(''Content-Type'', ''application/json'')],
      req_body = JsonBody [(''url'', JStr url)],
      req_redirect = ''follow'', req_timeout = Some 15000\<rparr>"

text \<open>
  Strategy 4 runs only when \<^verbatim>\<open>BACKEND_URL\<close> is set and not empty. The backend answers
  with a string in \<^verbatim>\<open>resolved_url\<close>. A truthy value of another JSON type is outside the
  model, which treats it as no resolution; the source would return it when its string
  form is a canonical Facebook URL. In neither reading does the strategy throw.
\<close>

definition resolve_strategy4 :: "'w env \<Rightarrow> string \<Rightarrow> 'w \<Rightarrow> string option \<times> 'w" where
  "resolve_strategy4 env url w =
     (case BACKEND_URL env of
        None \<Rightarrow> (None, w)
      | Some backendUrl \<Rightarrow>
          if backendUrl = [] then (None, w)
          else let (rep, w1) = fetch env (backend_resolve_request backendUrl url) w
               in (catch_null
                     (case rep of
                        Rejected e \<Rightarrow> Inl e
                      | Responded backendResponse \<Rightarrow>
                          if resp_ok backendResponse
                          then try_bind (resp_json backendResponse) (\<lambda>data.
                                 try_bind (member (Some data) ''resolved_url'') (\<lambda>resolved_url.
                                   case resolved_url of
                                     Some (JStr u) \<Rightarrow>
                                       if u \<noteq> [] \<and> is_canonical env u then Inr (Some u)
                                       else Inr None
                                   | _ \<Rightarrow> Inr None))
                          else Inr None), w1))"

definition resolveFacebookShareURL_Improved :: "'w env \<Rightarrow> string \<Rightarrow> ('w, string) async" where
  "resolveFacebookShareURL_Improved env url w =
     (let shareId = re_group1 env shareId_pattern url
      in case resolve_strategy1 env url w of
           (Some u, w1) \<Rightarrow> (Inr u, w1)
         | (None, w1) \<Rightarrow>
             (case resolve_strategy2 env shareId w1 of
                (Some u, w2) \<Rightarrow> (Inr u, w2)
              | (None, w2) \<Rightarrow>
                  (case resolve_strategy3 env url w2 of
                     (Some u, w3) \<Rightarrow> (Inr u, w3)
                   | (None, w3) \<Rightarrow>
                       (case resolve_strategy4 env url w3 of
                          (Some u, w4) \<Rightarrow> (Inr u, w4)
                        | (None, w4) \<Rightarrow> (Inr url, w4)))))"

section \<open>Facebook: orchestrator\<close>

text \<open>
  The loop \<^verbatim>\<open>for (const method of methods) { try { ... } catch (e) { continue } }\<close> of
  \<^verbatim>\<open>fetchFacebookVideo\<close>, which both passes run with the same body: the first result
  with a truthy \<^verbatim>\<open>video_url\<close> is returned, after the thumbnail backfill from
  \<open>originalUrl\<close>; \<open>None\<close> when the loop ends without a \<^verbatim>\<open>return\<close>.
\<close>

fun fb_try_methods ::
  "'w env \<Rightarrow> string \<Rightarrow> ('w, video_data option) async list \<Rightarrow> 'w \<Rightarrow> video_data option \<times> 'w" where
  "fb_try_methods env originalUrl [] w = (None, w)"
| "fb_try_methods env originalUrl (meth # methods) w =
     (case meth w of
        (Inl e, w1) \<Rightarrow> fb_try_methods env originalUrl methods w1
      | (Inr None, w1) \<Rightarrow> fb_try_methods env originalUrl methods w1
      | (Inr (Some result), w1) \<Rightarrow>
          if truthy (video_url result)
          then if \<not> truthy (thumbnail result)
               then (case extractFacebookThumbnail env originalUrl w1 of
                       (Inl e, w2) \<Rightarrow> fb_try_methods env originalUrl methods w2
                     | (Inr thumbnailResult, w2) \<Rightarrow>
                         (Some (if truthy_string thumbnailResult
                                then result\<lparr>thumbnail := map_option JStr thumbnailResult\<rparr>
                                else result), w2))
               else (Some result, w1)
          else fb_try_methods env originalUrl methods w1)"

definition fb_exhausted :: js_error where
  "fb_exhausted = Error ''Unable to fetch Facebook video. The post may be private or unavailable.''"

definition fetchFacebookVideo :: "'w env \<Rightarrow> string \<Rightarrow> ('w, video_data) async" where
  "fetchFacebookVideo env url0 w =
     (let originalUrl = url0
      in case (if isFacebookShareURL env url0
               then resolveFacebookShareURL_Improved env url0 w
               else (Inr url0, w)) of
           (Inl e, w1) \<Rightarrow> (Inl e, w1)
         | (Inr resolvedUrl, w1) \<Rightarrow>
             let url = resolvedUrl
             in case fb_try_methods env originalUrl
                       [fetchViaFacebookAPI env url, fetchViaCobalAPI env url,
                        fetchViaFacebookDirect env url, fetchViaSnapSave env url] w1 of
                  (Some result, w2) \<Rightarrow> (Inr result, w2)
                | (None, w2) \<Rightarrow>
                    if isFacebookShareURL env originalUrl \<and> originalUrl \<noteq> resolvedUrl
                    then (case fb_try_methods env originalUrl
                                 [fetchViaCobalAPI env originalUrl,
                                  fetchViaSnapSave env originalUrl] w2 of
                            (Some result, w3) \<Rightarrow> (Inr result, w3)
                          | (None, w3) \<Rightarrow> (Inl fb_exhausted, w3))
                    else (Inl fb_exhausted, w2))"

section \<open>Instagram: markup extractors and strategies\<close>

definition extractShortcode_patterns :: "regex list" where
  \<open>extractShortcode_patterns =
    [RegExp (''instagram'' @ bs @ ''.com'' @ bs @ ''/p'' @ bs @ ''/(['' @ bs @ ''w-]+)'') '''',
     RegExp (''instagram'' @ bs @ ''.com'' @ bs @ ''/reel'' @ bs @ ''/(['' @ bs @ ''w-]+)'') '''',
     RegExp (''instagram'' @ bs @ ''.com'' @ bs @ ''/reels'' @ bs @ ''/(['' @ bs @ ''w-]+)'') '''',
     RegExp (''instagram'' @ bs @ ''.com'' @ bs @ ''/tv'' @ bs @ ''/(['' @ bs @ ''w-]+)'') '''']\<close>

definition extractShortcode :: "'w env \<Rightarrow> string \<Rightarrow> string option" where
  "extractShortcode env url = first_match env extractShortcode_patterns url"

definition unescape_instagram :: "string \<Rightarrow> string" where
  "unescape_instagram s =
     replace_all bs [] (replace_all (bs @ ''u002F'') ''/'' (replace_all (bs @ ''u0026'') ''&'' s))"

subsection \<open>The shared HTML extractor\<close>

definition html_videoPatterns :: "regex list" where
  \<open>html_videoPatterns =
    [RegExp ''"video_url":"([^"]+)"'' '''',
     RegExp ''"playback_url":"([^"]+)"'' '''',
     RegExp (''"src":"([^"]+'' @ bs @ ''.mp4[^"]*)"'') '''',
     RegExp ''"videoUrl":"([^"]+)"'' '''',
     RegExp ''property="og:video:secure_url"[^>]*content="([^"]+)"'' '''',
     RegExp ''property="og:video"[^>]*content="([^"]+)"'' '''',
     RegExp ''meta[^>]*property="og:video"[^>]*content="([^"]+)"'' '''',
     RegExp (''"video_versions":'' @ bs @ ''[{"url":"([^"]+)"'') '''',
     RegExp ''"video_dash_manifest":"[^"]*","video_url":"([^"]+)"'' '''',
     RegExp (''videoUrl['"]'' @ bs @ ''s*:'' @ bs @ ''s*['"]([^'"]+)['"]'') '''',
     RegExp (''"contentUrl":"([^"]+'' @ bs @ ''.mp4[^"]*)"'') '''',
     RegExp (''src="([^"]+'' @ bs @ ''.mp4[^"]*)"'') '''',
     RegExp (''"url":"([^"]+'' @ bs @ ''.mp4[^"]*)"'') '''']\<close>

definition html_thumbnailPatterns :: "regex list" where
  \<open>html_thumbnailPatterns =
    [RegExp ''"display_url":"([^"]+)"'' '''',
     RegExp ''"thumbnail_src":"([^"]+)"'' '''',
     RegExp ''"thumbnail_url":"([^"]+)"'' '''',
     RegExp ''property="og:image"[^>]*content="([^"]+)"'' '''',
     RegExp ''meta[^>]*property="og:image"[^>]*content="([^"]+)"'' '''',
     RegExp (''"image_versions2":{"candidates":'' @ bs @ ''[{"url":"([^"]+)"'') '''',
     RegExp (''thumbnailUrl['"]'' @ bs @ ''s*:'' @ bs @ ''s*['"]([^'"]+)['"]'') '''']\<close>

definition script_pattern :: regex where
  \<open>script_pattern = RegExp (''<script[^>]*>(.*?)<'' @ bs @ ''/script>'') ''g''\<close>

definition plausible_video_url :: "string \<Rightarrow> bool" where
  "plausible_video_url url =
     (js_includes url ''.mp4'' \<or> js_includes url ''video'' \<or> js_includes url ''scontent'')"

fun find_video_url :: "'w env \<Rightarrow> regex list \<Rightarrow> string \<Rightarrow> string option" where
  "find_video_url env [] s = None"
| "find_video_url env (pattern # patterns) s =
     (case re_group1 env pattern s of
        Some url \<Rightarrow>
          if url \<noteq> [] \<and> plausible_video_url url then Some url
          else find_video_url env patterns s
      | None \<Rightarrow> find_video_url env patterns s)"

fun find_thumbnail :: "'w env \<Rightarrow> regex list \<Rightarrow> string \<Rightarrow> string option" where
  "find_thumbnail env [] s = None"
| "find_thumbnail env (pattern # patterns) s =
     (case re_group1 env pattern s of
        Some g \<Rightarrow> if g \<noteq> [] then Some g else find_thumbnail env patterns s
      | None \<Rightarrow> find_thumbnail env patterns s)"

fun find_in_scripts :: "'w env \<Rightarrow> string list \<Rightarrow> string option" where
  "find_in_scripts env [] = None"
| "find_in_scripts env (script # scripts) =
     (case find_video_url env html_videoPatterns script of
        Some url \<Rightarrow> Some url
      | None \<Rightarrow> find_in_scripts env scripts)"

text \<open>
  \<^verbatim>\<open>thumbnail\<close> starts as \<^verbatim>\<open>null\<close>, so a result without a thumbnail carries \<open>JNull\<close>.
\<close>

definition extractVideoFromHTML :: "'w env \<Rightarrow> string \<Rightarrow> video_data option" where
  "extractVideoFromHTML env html =
     (let cleanHtml = unescape_instagram html;
          thumbnail = find_thumbnail env html_thumbnailPatterns cleanHtml;
          videoUrl = (case find_video_url env html_videoPatterns cleanHtml of
                        Some url \<Rightarrow> Some url
                      | None \<Rightarrow> find_in_scripts env (re_match_all env script_pattern cleanHtml))
      in case videoUrl of
           None \<Rightarrow> None
         | Some url \<Rightarrow>
             Some \<lparr>video_url = Some (JStr url),
                   thumbnail = (case thumbnail of None \<Rightarrow> Some JNull | Some t \<Rightarrow> Some (JStr t)),
                   quality = Some ''HD'', duration = None, extraction_method = None\<rparr>)"

subsection \<open>Embed endpoint\<close>

definition ig_api_videoPatterns :: "regex list" where
  \<open>ig_api_videoPatterns =
    [RegExp ''"video_url":"([^"]+)"'' '''',
     RegExp (''"src":"([^"]+'' @ bs @ ''.mp4[^"]*)"'') '''',
     RegExp (''videoUrl['"]'' @ bs @ ''s*:'' @ bs @ ''s*['"]([^'"]+)['"]'') '''']\<close>

definition ig_api_thumbnailPatterns :: "regex list" where
  \<open>ig_api_thumbnailPatterns =
    [RegExp ''"display_url":"([^"]+)"'' '''',
     RegExp ''"thumbnail_url":"([^"]+)"'' '''',
     RegExp (''thumbnailUrl['"]'' @ bs @ ''s*:'' @ bs @ ''s*['"]([^'"]+)['"]'') '''']\<close>

definition UA_googlebot :: string where
  "UA_googlebot = ''Mozilla/5.0 (compatible; Googlebot/2.1; +http://www.google.com/bot.html)''"

definition instagramAPI_request :: "string \<Rightarrow> request" where
  "instagramAPI_request shortcode =
     GET_request (''https://www.instagram.com/p/'' @ shortcode @ ''/embed/captioned/'')
       [(''User-Agent'', UA_googlebot), (''Accept'', accept_html),
        (''Accept-Language'', ''en-US,en;q=0.9'')]"

definition fetchViaInstagramAPI_parse :: "'w env \<Rightarrow> string \<Rightarrow> video_data option" where
  "fetchViaInstagramAPI_parse env html =
     (case first_match env ig_api_videoPatterns html of
        Some g \<Rightarrow>
          Some \<lparr>video_url = Some (JStr (unescape_instagram g)),
                thumbnail = map_option (JStr \<circ> unescape_instagram)
                              (first_match env ig_api_thumbnailPatterns html),
                quality = Some ''HD'', duration = None, extraction_method = None\<rparr>
      | None \<Rightarrow> None)"

definition fetchViaInstagramAPI :: "'w env \<Rightarrow> string \<Rightarrow> ('w, video_data option) async" where
  "fetchViaInstagramAPI env shortcode w =
     (let (rep, w1) = fetch env (instagramAPI_request shortcode) w
      in (Inr (catch_null
            (case rep of
               Rejected e \<Rightarrow> Inl e
             | Responded response \<Rightarrow>
                 if \<not> resp_ok response then Inr None
                 else try_bind (resp_text response) (\<lambda>html.
                        Inr (fetchViaInstagramAPI_parse env html)))), w1))"

subsection \<open>Page scraping\<close>

definition userAgents :: "string list" where
  "userAgents =
     [''Mozilla/5.0 (compatible; Googlebot/2.1; +http://www.google.com/bot.html)'',
      ''Mozilla/5.0 (compatible; facebookexternalhit/1.1; +http://www.facebook.com/externalhit_uatext.php)'',
      ''Mozilla/5.0 (X11; Linux x86_64) AppleWebKit/537.36 (KHTML, like Gecko) Chrome/120.0.0.0 Safari/537.36'',
      ''Mozilla/5.0 (iPhone; CPU iPhone OS 16_0 like Mac OS X) AppleWebKit/605.1.15'']"

definition userAgent_request :: "string \<Rightarrow> string \<Rightarrow> request" where
  "userAgent_request url userAgent =
     GET_request url
       [(''User-Agent'', userAgent),
        (''Accept'', ''text/html,application/xhtml+xml,application/xml;q=0.9,image/webp,*/*;q=0.8''),
        (''Accept-Language'', ''en-US,en;q=0.9''),
        (''Cache-Control'', ''no-cache''),
        (''Pragma'', ''no-cache'')]"

text \<open>The two helpers have no \<^verbatim>\<open>try\<close> of their own: a failed fetch throws to the caller.\<close>

definition tryFetchWithUserAgent ::
  "'w env \<Rightarrow> string \<Rightarrow> string \<Rightarrow> ('w, video_data option) async" where
  "tryFetchWithUserAgent env url userAgent w =
     (let (rep, w1) = fetch env (userAgent_request url userAgent) w
      in (case rep of
            Rejected e \<Rightarrow> Inl e
          | Responded response \<Rightarrow>
              if \<not> resp_ok response then Inr None
              else try_bind (resp_text response) (\<lambda>html. Inr (extractVideoFromHTML env html)), w1))"

definition embed_request :: "string \<Rightarrow> request" where
  "embed_request shortcode =
     GET_request (''https://www.instagram.com/p/'' @ shortcode @ ''/embed/'')
       [(''User-Agent'', ''Mozilla/5.0 (compatible; facebookexternalhit/1.1)''),
        (''Accept'', accept_html)]"

definition tryEmbedApproach :: "'w env \<Rightarrow> string \<Rightarrow> ('w, video_data option) async" where
  "tryEmbedApproach env shortcode w =
     (let (rep, w1) = fetch env (embed_request shortcode) w
      in (case rep of
            Rejected e \<Rightarrow> Inl e
          | Responded response \<Rightarrow>
              if \<not> resp_ok response then Inr None
              else try_bind (resp_text response) (\<lambda>html. Inr (extractVideoFromHTML env html)), w1))"

definition has_video_url :: "video_data option \<Rightarrow> bool" where
  "has_video_url result = (case result of None \<Rightarrow> False | Some r \<Rightarrow> truthy (video_url r))"

fun scrape_user_agents ::
  "'w env \<Rightarrow> string \<Rightarrow> string list \<Rightarrow> 'w \<Rightarrow> video_data option \<times> 'w" where
  "scrape_user_agents env url [] w = (None, w)"
| "scrape_user_agents env url (userAgent # rest) w =
     (case tryFetchWithUserAgent env url userAgent w of
        (Inl e, w1) \<Rightarrow> scrape_user_agents env url rest w1
      | (Inr result, w1) \<Rightarrow>
          if has_video_url result then (result, w1)
          else scrape_user_agents env url rest w1)"

definition fetchViaPageScrape :: "'w env \<Rightarrow> string \<Rightarrow> ('w, video_data option) async" where
  "fetchViaPageScrape env url w =
     (case scrape_user_agents env url userAgents w of
        (Some result, w1) \<Rightarrow> (Inr (Some result), w1)
      | (None, w1) \<Rightarrow>
          (case extractShortcode env url of
             None \<Rightarrow> (Inr None, w1)
           | Some shortcode \<Rightarrow>
               if shortcode = [] then (Inr None, w1)
               else (case tryEmbedApproach env shortcode w1 of
                       (Inl e, w2) \<Rightarrow> (Inr None, w2)
                     | (Inr embedResult, w2) \<Rightarrow>
                         (Inr (if has_video_url embedResult then embedResult else None), w2))))"

subsection \<open>oEmbed and the mobile scrape\<close>

definition oembed_videoPatterns :: "regex list" where
  \<open>oembed_videoPatterns =
    [RegExp (''src="([^"]+'' @ bs @ ''.mp4[^"]*)"'') '''',
     RegExp ''"video_url":"([^"]+)"'' '''']\<close>

definition alt_videoPatterns :: "regex list" where
  \<open>alt_videoPatterns =
    [RegExp ''"video_url":"([^"]+)"'' '''',
     RegExp (''videoUrl['"]'' @ bs @ ''s*:'' @ bs @ ''s*['"]([^'"]+)['"]'') '''',
     RegExp (''"src":"([^"]+'' @ bs @ ''.mp4[^"]*)"'') '''']\<close>

definition alt_thumbnailPatterns :: "regex list" where
  \<open>alt_thumbnailPatterns =
    [RegExp ''"display_url":"([^"]+)"'' '''',
     RegExp ''"thumbnail_url":"([^"]+)"'' '''']\<close>

definition alternative_request :: "string \<Rightarrow> request" where
  "alternative_request shortcode =
     GET_request (''https://www.instagram.com/p/'' @ shortcode @ ''/'')
       [(''User-Agent'', ''Instagram 76.0.0.15.395 Android (24/7.0; 640dpi; 1440x2560; samsung; SM-G930F; herolte; samsungexynos8890; en_US; 138226743)''),
        (''Accept'', ''*/*''),
        (''Accept-Language'', ''en-US,en;q=0.9'')]"

definition fetchViaAlternativeService_parse :: "'w env \<Rightarrow> string \<Rightarrow> video_data option" where
  "fetchViaAlternativeService_parse env html =
     (case first_match env alt_videoPatterns html of
        Some g \<Rightarrow>
          Some \<lparr>video_url = Some (JStr (unescape_instagram g)),
                thumbnail = map_option (JStr \<circ> unescape_instagram)
                              (first_match env alt_thumbnailPatterns html),
                quality = Some ''HD'', duration = None, extraction_method = None\<rparr>
      | None \<Rightarrow> None)"

definition fetchViaAlternativeService :: "'w env \<Rightarrow> string \<Rightarrow> ('w, video_data option) async" where
  "fetchViaAlternativeService env url w =
     (case extractShortcode env url of
        None \<Rightarrow> (Inr None, w)
      | Some shortcode \<Rightarrow>
          if shortcode = [] then (Inr None, w)
          else let (rep, w1) = fetch env (alternative_request shortcode) w
               in (Inr (catch_null
                     (case rep of
                        Rejected e \<Rightarrow> Inl e
                      | Responded response \<Rightarrow>
                          if \<not> resp_ok response then Inr None
                          else try_bind (resp_text response) (\<lambda>html.
                                 Inr (fetchViaAlternativeService_parse env html)))), w1))"

definition oembed_request :: "string \<Rightarrow> request" where
  "oembed_request enc =
     GET_request (''https://api.instagram.com/oembed/?url='' @ enc)
       [(''User-Agent'', ''Mozilla/5.0 (Windows NT 10.0; Win64; x64) AppleWebKit/537.36'')]"

text \<open>
  What \<^verbatim>\<open>fetchViaOEmbed\<close> does with the parsed oEmbed document: \<open>Inr (Some r)\<close> when it
  returns the object \<open>r\<close>, \<open>Inr None\<close> when it goes on to the alternative service, an
  error when it throws (\<^verbatim>\<open>data\<close> is \<^verbatim>\<open>null\<close>, or \<^verbatim>\<open>data.html\<close> is truthy and has no
  \<^verbatim>\<open>match\<close> method).
\<close>

definition fetchViaOEmbed_parse :: "'w env \<Rightarrow> json \<Rightarrow> js_error + video_data option" where
  "fetchViaOEmbed_parse env data =
     try_bind (member (Some data) ''html'') (\<lambda>html.
       try_bind
         (if truthy html
          then (case html of
                  Some (JStr h) \<Rightarrow> Inr (first_match env oembed_videoPatterns h)
                | _ \<Rightarrow> Inl (TypeError ''data.html.match is not a function''))
          else Inr None)
         (\<lambda>videoMatch.
            case videoMatch of
              Some g \<Rightarrow>
                Inr (Some \<lparr>video_url = Some (JStr g),
                           thumbnail = get_prop data ''thumbnail_url'',
                           quality = Some ''HD'', duration = None, extraction_method = None\<rparr>)
            | None \<Rightarrow>
                if truthy (get_prop data ''thumbnail_url'')
                then Inr (Some \<lparr>video_url = None,
                                 thumbnail = get_prop data ''thumbnail_url'',
                                 quality = None, duration = None, extraction_method = None\<rparr>)
                else Inr None))"

definition fetchViaOEmbed :: "'w env \<Rightarrow> string \<Rightarrow> ('w, video_data option) async" where
  "fetchViaOEmbed env url w =
     (case encodeURIComponent env url of
        Inl e \<Rightarrow> (Inr None, w)
      | Inr enc \<Rightarrow>
          let (rep, w1) = fetch env (oembed_request enc) w
          in case (case rep of
                     Rejected e \<Rightarrow> Inl e
                   | Responded response \<Rightarrow>
                       if resp_ok response
                       then try_bind (resp_json response) (fetchViaOEmbed_parse env)
                       else Inr None) of
               Inl e \<Rightarrow> (Inr None, w1)
             | Inr (Some result) \<Rightarrow> (Inr (Some result), w1)
             | Inr None \<Rightarrow>
                 (case fetchViaAlternativeService env url w1 of
                    (Inl e, w2) \<Rightarrow> (Inr None, w2)
                  | (Inr result, w2) \<Rightarrow> (Inr result, w2)))"

section \<open>Instagram: orchestrator\<close>

text \<open>
  \<^verbatim>\<open>`puppeteer-${data.method}`\<close>: the string coercion of a number, an array or an
  object is the parameter \<open>coerce_string\<close>.
\<close>

definition js_ToString :: "'w env \<Rightarrow> jsval \<Rightarrow> string" where
  "js_ToString env v =
     (case v of
        None \<Rightarrow> ''undefined''
      | Some JNull \<Rightarrow> ''null''
      | Some (JBool b) \<Rightarrow> (if b then ''true'' else ''false'')
      | Some (JStr s) \<Rightarrow> s
      | Some x \<Rightarrow> coerce_string env x)"

definition backend_base :: "'w env \<Rightarrow> string" where
  "backend_base env =
     (case BACKEND_URL env of
        None \<Rightarrow> ''http://localhost:3001''
      | Some b \<Rightarrow> if b = [] then ''http://localhost:3001'' else b)"

definition backend_reel_request :: "'w env \<Rightarrow> string \<Rightarrow> request" where
  "backend_reel_request env enc =
     GET_request (backend_base env @ ''/api/reel?url='' @ enc)
       [(''Accept'', ''application/json''), (''User-Agent'', ''Instagram-Downloader-Frontend/1.0'')]"

definition backend_parse :: "'w env \<Rightarrow> json \<Rightarrow> js_error + video_data option" where
  "backend_parse env data =
     try_bind (member (Some data) ''success'') (\<lambda>success.
       if truthy success \<and> truthy (get_prop data ''videoUrl'')
       then Inr (Some \<lparr>video_url = get_prop data ''videoUrl'',
                        thumbnail = Some JNull,
                        quality = Some ''HD'', duration = None,
                        extraction_method =
                          Some (''puppeteer-'' @ js_ToString env (get_prop data ''method''))\<rparr>)
       else Inr None)"

definition fetchViaBackend :: "'w env \<Rightarrow> string \<Rightarrow> 'w \<Rightarrow> video_data option \<times> 'w" where
  "fetchViaBackend env url w =
     (case encodeURIComponent env url of
        Inl e \<Rightarrow> (None, w)
      | Inr enc \<Rightarrow>
          let (rep, w1) = fetch env (backend_reel_request env enc) w
          in (catch_null
                (case rep of
                   Rejected e \<Rightarrow> Inl e
                 | Responded response \<Rightarrow>
                     if resp_ok response
                     then try_bind (resp_json response) (backend_parse env)
                     else Inr None), w1))"

text \<open>
  The loop \<^verbatim>\<open>for (const approach of approaches) { try { ... } catch (e) { continue } }\<close>.
\<close>

fun ig_try_approaches ::
  "('w, video_data option) async list \<Rightarrow> 'w \<Rightarrow> video_data option \<times> 'w" where
  "ig_try_approaches [] w = (None, w)"
| "ig_try_approaches (approach # approaches) w =
     (case approach w of
        (Inl e, w1) \<Rightarrow> ig_try_approaches approaches w1
      | (Inr None, w1) \<Rightarrow> ig_try_approaches approaches w1
      | (Inr (Some result), w1) \<Rightarrow>
          if truthy (video_url result) then (Some result, w1)
          else ig_try_approaches approaches w1)"

definition ig_exhausted :: js_error where
  "ig_exhausted = Error ''Unable to fetch video. The post may be private or unavailable.''"

definition fetchInstagramData :: "'w env \<Rightarrow> string \<Rightarrow> ('w, video_data) async" where
  "fetchInstagramData env url w =
     (case fetchViaBackend env url w of
        (Some result, w1) \<Rightarrow> (Inr result, w1)
      | (None, w1) \<Rightarrow>
          (case extractShortcode env url of
             None \<Rightarrow> (Inl (Error ''Invalid Instagram URL''), w1)
           | Some shortcode \<Rightarrow>
               if shortcode = [] then (Inl (Error ''Invalid Instagram URL''), w1)
               else (case ig_try_approaches
                            [fetchViaInstagramAPI env shortcode, fetchViaPageScrape env url,
                             fetchViaOEmbed env url] w1 of
                       (Some result, w2) \<Rightarrow> (Inr result, w2)
                     | (None, w2) \<Rightarrow> (Inl ig_exhausted, w2))))"

section \<open>The route handler\<close>

definition validPatterns :: "regex list" where
  \<open>validPatterns =
    [RegExp (''^https?:'' @ bs @ ''/'' @ bs @ ''/(www'' @ bs @ ''.)?instagram'' @ bs @ ''.com'' @ bs @ ''/p'' @ bs @ ''/['' @ bs @ ''w-]+'') '''',
     RegExp (''^https?:'' @ bs @ ''/'' @ bs @ ''/(www'' @ bs @ ''.)?instagram'' @ bs @ ''.com'' @ bs @ ''/reel'' @ bs @ ''/['' @ bs @ ''w-]+'') '''',
     RegExp (''^https?:'' @ bs @ ''/'' @ bs @ ''/(www'' @ bs @ ''.)?instagram'' @ bs @ ''.com'' @ bs @ ''/reels'' @ bs @ ''/['' @ bs @ ''w-]+'') '''',
     RegExp (''^https?:'' @ bs @ ''/'' @ bs @ ''/(www'' @ bs @ ''.)?instagram'' @ bs @ ''.com'' @ bs @ ''/tv'' @ bs @ ''/['' @ bs @ ''w-]+'') '''']\<close>

text \<open>
  The incoming request: the two headers the handler reads and the outcome of
  \<^verbatim>\<open>await request.json()\<close>.
\<close>

record post_request =
  x_forwarded_for :: "string option"
  x_real_ip :: "string option"
  post_json :: "js_error + json"

text \<open>The JSON response: the HTTP status and the members of the body.\<close>

record http_response =
  http_status :: nat
  http_success :: bool
  http_error :: "string option"
  http_data :: "video_data option"

definition json_error :: "nat \<Rightarrow> string \<Rightarrow> http_response" where
  "json_error code msg =
     \<lparr>http_status = code, http_success = False, http_error = Some msg, http_data = None\<rparr>"

definition json_success :: "video_data \<Rightarrow> http_response" where
  "json_success videoData =
     \<lparr>http_status = 200, http_success = True, http_error = None, http_data = Some videoData\<rparr>"

fun error_message :: "js_error \<Rightarrow> string" where
  "error_message (Error msg) = msg"
| "error_message (TypeError msg) = msg"
| "error_message (SyntaxError msg) = msg"
| "error_message (NetworkError msg) = msg"

text \<open>
  \<^verbatim>\<open>headers.get("x-forwarded-for")?.split(",")[0] || headers.get("x-real-ip") || "unknown"\<close>
\<close>

definition client_ip :: "post_request \<Rightarrow> string" where
  "client_ip req =
     (let forwarded = map_option (takeWhile (\<lambda>c. c \<noteq> CHR '','')) (x_forwarded_for req)
      in if truthy_string forwarded then (case forwarded of Some f \<Rightarrow> f | None \<Rightarrow> [])
         else if truthy_string (x_real_ip req) then (case x_real_ip req of Some r \<Rightarrow> r | None \<Rightarrow> [])
         else ''unknown'')"

text \<open>
  The part of the handler after the rate limit check, inside the outer \<^verbatim>\<open>try\<close>. The
  model covers a body whose \<^verbatim>\<open>url\<close> is a string or falsy. A truthy \<^verbatim>\<open>url\<close> of another
  JSON type is outside the model: the source passes the raw value on (\<^verbatim>\<open>pattern.test\<close>
  coerces it, \<^verbatim>\<open>url.match\<close> throws on it), while this definition continues with its
  string coercion. Every statement below about this part of the handler assumes a
  string.
\<close>

definition POST_resolve :: "'w env \<Rightarrow> post_request \<Rightarrow> ('w, http_response) async" where
  "POST_resolve env req w =
     (case try_bind (post_json req) (\<lambda>body. member (Some body) ''url'') of
        Inl e \<Rightarrow> (Inl e, w)
      | Inr url_value \<Rightarrow>
          if \<not> truthy url_value then (Inr (json_error 400 ''URL is required''), w)
          else
            let url = js_ToString env url_value
            in if isFacebookURL env url
               then (case fetchFacebookVideo env url w of
                       (Inl fbError, w1) \<Rightarrow> (Inr (json_error 500 (error_message fbError)), w1)
                     | (Inr videoData, w1) \<Rightarrow>
                         if \<not> truthy (video_url videoData)
                         then (Inr (json_error 404
                                 ''Unable to fetch Facebook video. The post may be private or unavailable.''), w1)
                         else (Inr (json_success videoData), w1))
               else if \<not> list_ex (\<lambda>p. re_test env p url) validPatterns
               then (Inr (json_error 400 ''Invalid Instagram or Facebook URL format''), w)
               else (case fetchInstagramData env url w of
                       (Inl e, w1) \<Rightarrow> (Inl e, w1)
                     | (Inr videoData, w1) \<Rightarrow>
                         if \<not> truthy (video_url videoData)
                         then (Inr (json_error 404
                                 ''Unable to fetch video. The post may be private or unavailable.''), w1)
                         else (Inr (json_success videoData), w1)))"

text \<open>
  The handler: the state is the rate limit map and the world; \<open>now\<close> is \<^verbatim>\<open>Date.now()\<close>
  at the call of \<^verbatim>\<open>checkRateLimit\<close>.
\<close>

definition POST ::
  "'w env \<Rightarrow> post_request \<Rightarrow> int \<Rightarrow> rateLimitMap \<times> 'w \<Rightarrow> http_response \<times> rateLimitMap \<times> 'w" where
  "POST env req now s =
     (let ip = client_ip req;
          (allowed, m1) = checkRateLimit (fst s) ip now
      in if \<not> allowed
         then (json_error 429 ''Too many requests. Please wait a moment and try again.'', m1, snd s)
         else (case POST_resolve env req (snd s) of
                 (Inl error, w1) \<Rightarrow> (json_error 500 (error_message error), m1, w1)
               | (Inr response, w1) \<Rightarrow> (response, m1, w1)))"

section \<open>Quality tagging of the Facebook strategies\<close>

definition matches_any :: "'w env \<Rightarrow> regex list \<Rightarrow> string \<Rightarrow> bool" where
  "matches_any env patterns s = list_ex (\<lambda>p. re_group1 env p s \<noteq> None) patterns"

definition tier_tagged ::
  "'w env \<Rightarrow> regex list \<Rightarrow> regex list \<Rightarrow> string \<Rightarrow> video_data \<Rightarrow> bool" where
  "tier_tagged env hdPatterns sdPatterns html r =
     ((quality r = Some ''HD'' \<and> matches_any env hdPatterns html)
      \<or> (quality r = Some ''SD'' \<and> \<not> matches_any env hdPatterns html
          \<and> matches_any env sdPatterns html))"

lemma first_match_None_iff: "first_match env ps s = None \<longleftrightarrow> \<not> matches_any env ps s"
  by (induction ps) (auto simp: matches_any_def split: option.splits)

lemma api_parse_tagged:
  "fetchViaFacebookAPI_parse env html = Some r \<Longrightarrow> tier_tagged env api_hdPatterns api_sdPatterns html r"
  using first_match_None_iff[of env api_hdPatterns html] first_match_None_iff[of env api_sdPatterns html]
  by (auto simp: fetchViaFacebookAPI_parse_def tier_tagged_def Let_def split: option.splits)

lemma snapsave_parse_tagged:
  "fetchViaSnapSave_parse env html = Some r \<Longrightarrow>
     tier_tagged env snapsave_hdPatterns snapsave_fallbackPatterns html r"
  using first_match_None_iff[of env snapsave_hdPatterns html]
    first_match_None_iff[of env snapsave_fallbackPatterns html]
  by (auto simp: fetchViaSnapSave_parse_def tier_tagged_def split: option.splits)

lemma direct_parse_tagged:
  "fetchViaFacebookDirect_parse env html = Some r \<Longrightarrow>
     tier_tagged env direct_hdPatterns direct_fallbackPatterns html r"
  using first_match_None_iff[of env direct_hdPatterns html]
    first_match_None_iff[of env direct_fallbackPatterns html]
  by (auto simp: fetchViaFacebookDirect_parse_def tier_tagged_def split: option.splits)

lemma api_parse_total:
  "matches_any env api_hdPatterns html \<or> matches_any env api_sdPatterns html \<Longrightarrow>
     \<exists>r. fetchViaFacebookAPI_parse env html = Some r"
  using first_match_None_iff[of env api_hdPatterns html] first_match_None_iff[of env api_sdPatterns html]
  by (auto simp: fetchViaFacebookAPI_parse_def Let_def split: option.splits)

lemma snapsave_parse_total:
  "matches_any env snapsave_hdPatterns html \<or> matches_any env snapsave_fallbackPatterns html \<Longrightarrow>
     \<exists>r. fetchViaSnapSave_parse env html = Some r"
  using first_match_None_iff[of env snapsave_hdPatterns html]
    first_match_None_iff[of env snapsave_fallbackPatterns html]
  by (auto simp: fetchViaSnapSave_parse_def split: option.splits)

lemma direct_parse_total:
  "matches_any env direct_hdPatterns html \<or> matches_any env direct_fallbackPatterns html \<Longrightarrow>
     \<exists>r. fetchViaFacebookDirect_parse env html = Some r"
  using first_match_None_iff[of env direct_hdPatterns html]
    first_match_None_iff[of env direct_fallbackPatterns html]
  by (auto simp: fetchViaFacebookDirect_parse_def split: option.splits)

text \<open>The markup that a strategy parsed: the text of an ok response to its request.\<close>

definition fetched_markup :: "'w env \<Rightarrow> request \<Rightarrow> 'w \<Rightarrow> 'w \<Rightarrow> string \<Rightarrow> bool" where
  "fetched_markup env req w w' html =
     (\<exists>response. fetch env req w = (Responded response, w') \<and> resp_ok response
                 \<and> resp_text response = Inr html)"

lemma catch_null_Some:
  "catch_null x = Some r \<longleftrightarrow> x = Inr (Some r)"
  by (auto simp: catch_null_def split: sum.splits)

lemma api_strategy_markup:
  assumes "fetchViaFacebookAPI env url w = (Inr (Some r), w')"
  shows "\<exists>enc html. encodeURIComponent env url = Inr enc
           \<and> fetched_markup env (facebookAPI_request enc) w w' html
           \<and> fetchViaFacebookAPI_parse env html = Some r"
  using assms
  by (auto simp: fetchViaFacebookAPI_def fetched_markup_def catch_null_Some try_bind_def
           split: sum.splits prod.splits reply.splits if_splits)

lemma snapsave_strategy_markup:
  assumes "fetchViaSnapSave env url w = (Inr (Some r), w')"
  shows "\<exists>html. fetched_markup env (snapsave_request url) w w' html
           \<and> fetchViaSnapSave_parse env html = Some r"
  using assms
  by (auto simp: fetchViaSnapSave_def fetched_markup_def catch_null_Some try_bind_def
           split: sum.splits prod.splits reply.splits if_splits)

lemma direct_strategy_markup:
  assumes "fetchViaFacebookDirect env url w = (Inr (Some r), w')"
  shows "\<exists>html. fetched_markup env (direct_request url) w w' html
           \<and> fetchViaFacebookDirect_parse env html = Some r"
  using assms
  by (auto simp: fetchViaFacebookDirect_def fetched_markup_def catch_null_Some try_bind_def
           split: sum.splits prod.splits reply.splits if_splits)

lemma cobalt_parse_HD:
  "fetchViaCobalAPI_parse data = Inr (Some r) \<Longrightarrow> quality r = Some ''HD''"
  by (auto simp: fetchViaCobalAPI_parse_def try_bind_def split: sum.splits if_splits)

lemma cobalt_strategy_HD:
  assumes "fetchViaCobalAPI env url w = (Inr (Some r), w')"
  shows "quality r = Some ''HD''"
  using assms cobalt_parse_HD
  by (auto simp: fetchViaCobalAPI_def catch_null_Some try_bind_def
           split: sum.splits prod.splits reply.splits if_splits)

text \<open>
  The forward direction: what a strategy returns once the text of an ok response to its
  request is known. The tier is decided by the HD list alone whenever it matches.
\<close>

lemma first_match_Some:
  "matches_any env ps s \<Longrightarrow> \<exists>g. first_match env ps s = Some g"
  using first_match_None_iff[of env ps s] by (cases "first_match env ps s") simp_all

lemma api_strategy_parse:
  assumes "encodeURIComponent env url = Inr enc"
    and "fetched_markup env (facebookAPI_request enc) w w' html"
  shows "fetchViaFacebookAPI env url w = (Inr (fetchViaFacebookAPI_parse env html), w')"
  using assms
  by (auto simp: fetchViaFacebookAPI_def fetched_markup_def catch_null_def try_bind_def)

lemma api_forward_HD:
  assumes "encodeURIComponent env url = Inr enc"
    and "fetched_markup env (facebookAPI_request enc) w w' html"
    and "matches_any env api_hdPatterns html"
  shows "\<exists>r. fetchViaFacebookAPI env url w = (Inr (Some r), w') \<and> quality r = Some ''HD''
           \<and> video_url r
               = map_option (\<lambda>g. JStr (unescape_video_url g)) (first_match env api_hdPatterns html)"
proof -
  from first_match_Some[OF assms(3)]
  obtain g where "first_match env api_hdPatterns html = Some g" ..
  then show ?thesis
    using api_strategy_parse[OF assms(1-2)]
    by (simp add: fetchViaFacebookAPI_parse_def Let_def)
qed

lemma api_forward_SD:
  assumes "encodeURIComponent env url = Inr enc"
    and "fetched_markup env (facebookAPI_request enc) w w' html"
    and "\<not> matches_any env api_hdPatterns html"
    and "matches_any env api_sdPatterns html"
  shows "\<exists>r. fetchViaFacebookAPI env url w = (Inr (Some r), w') \<and> quality r = Some ''SD''
           \<and> video_url r
               = map_option (\<lambda>g. JStr (unescape_video_url g)) (first_match env api_sdPatterns html)"
proof -
  from first_match_Some[OF assms(4)]
  obtain g where "first_match env api_sdPatterns html = Some g" ..
  moreover have "first_match env api_hdPatterns html = None"
    using assms(3) by (simp add: first_match_None_iff)
  ultimately show ?thesis
    using api_strategy_parse[OF assms(1-2)]
    by (simp add: fetchViaFacebookAPI_parse_def Let_def)
qed

lemma api_forward_none:
  assumes "encodeURIComponent env url = Inr enc"
    and "fetched_markup env (facebookAPI_request enc) w w' html"
    and "\<not> matches_any env api_hdPatterns html"
    and "\<not> matches_any env api_sdPatterns html"
  shows "fetchViaFacebookAPI env url w = (Inr None, w')"
proof -
  have "first_match env api_hdPatterns html = None" "first_match env api_sdPatterns html = None"
    using assms(3-4) by (simp_all add: first_match_None_iff)
  then show ?thesis
    using api_strategy_parse[OF assms(1-2)]
    by (simp add: fetchViaFacebookAPI_parse_def Let_def)
qed

lemma direct_strategy_parse:
  assumes "fetched_markup env (direct_request url) w w' html"
  shows "fetchViaFacebookDirect env url w = (Inr (fetchViaFacebookDirect_parse env html), w')"
  using assms
  by (auto simp: fetchViaFacebookDirect_def fetched_markup_def catch_null_def try_bind_def)

lemma direct_forward_HD:
  assumes "fetched_markup env (direct_request url) w w' html"
    and "matches_any env direct_hdPatterns html"
  shows "\<exists>r. fetchViaFacebookDirect env url w = (Inr (Some r), w') \<and> quality r = Some ''HD''
           \<and> video_url r
               = map_option (\<lambda>g. JStr (unescape_direct g)) (first_match env direct_hdPatterns html)"
proof -
  from first_match_Some[OF assms(2)]
  obtain g where "first_match env direct_hdPatterns html = Some g" ..
  then show ?thesis
    using direct_strategy_parse[OF assms(1)]
    by (simp add: fetchViaFacebookDirect_parse_def)
qed

lemma direct_forward_SD:
  assumes "fetched_markup env (direct_request url) w w' html"
    and "\<not> matches_any env direct_hdPatterns html"
    and "matches_any env direct_fallbackPatterns html"
  shows "\<exists>r. fetchViaFacebookDirect env url w = (Inr (Some r), w') \<and> quality r = Some ''SD''
           \<and> video_url r
               = map_option (\<lambda>g. JStr (unescape_direct g)) (first_match env direct_fallbackPatterns html)"
proof -
  from first_match_Some[OF assms(3)]
  obtain g where "first_match env direct_fallbackPatterns html = Some g" ..
  moreover have "first_match env direct_hdPatterns html = None"
    using assms(2) by (simp add: first_match_None_iff)
  ultimately show ?thesis
    using direct_strategy_parse[OF assms(1)]
    by (simp add: fetchViaFacebookDirect_parse_def)
qed

lemma direct_forward_none:
  assumes "fetched_markup env (direct_request url) w w' html"
    and "\<not> matches_any env direct_hdPatterns html"
    and "\<not> matches_any env direct_fallbackPatterns html"
  shows "fetchViaFacebookDirect env url w = (Inr None, w')"
proof -
  have "first_match env direct_hdPatterns html = None" "first_match env direct_fallbackPatterns html = None"
    using assms(2-3) by (simp_all add: first_match_None_iff)
  then show ?thesis
    using direct_strategy_parse[OF assms(1)]
    by (simp add: fetchViaFacebookDirect_parse_def)
qed

lemma snapsave_strategy_parse:
  assumes "fetched_markup env (snapsave_request url) w w' html"
  shows "fetchViaSnapSave env url w = (Inr (fetchViaSnapSave_parse env html), w')"
  using assms
  by (auto simp: fetchViaSnapSave_def fetched_markup_def catch_null_def try_bind_def)

lemma snapsave_forward_HD:
  assumes "fetched_markup env (snapsave_request url) w w' html"
    and "matches_any env snapsave_hdPatterns html"
  shows "\<exists>r. fetchViaSnapSave env url w = (Inr (Some r), w') \<and> quality r = Some ''HD''
           \<and> video_url r
               = map_option (\<lambda>g. JStr (unescape_snapsave g)) (first_match env snapsave_hdPatterns html)"
proof -
  from first_match_Some[OF assms(2)]
  obtain g where "first_match env snapsave_hdPatterns html = Some g" ..
  then show ?thesis
    using snapsave_strategy_parse[OF assms(1)]
    by (simp add: fetchViaSnapSave_parse_def)
qed

lemma snapsave_forward_SD:
  assumes "fetched_markup env (snapsave_request url) w w' html"
    and "\<not> matches_any env snapsave_hdPatterns html"
    and "matches_any env snapsave_fallbackPatterns html"
  shows "\<exists>r. fetchViaSnapSave env url w = (Inr (Some r), w') \<and> quality r = Some ''SD''
           \<and> video_url r
               = map_option (\<lambda>g. JStr (unescape_snapsave g)) (first_match env snapsave_fallbackPatterns html)"
proof -
  from first_match_Some[OF assms(3)]
  obtain g where "first_match env snapsave_fallbackPatterns html = Some g" ..
  moreover have "first_match env snapsave_hdPatterns html = None"
    using assms(2) by (simp add: first_match_None_iff)
  ultimately show ?thesis
    using snapsave_strategy_parse[OF assms(1)]
    by (simp add: fetchViaSnapSave_parse_def)
qed

lemma snapsave_forward_none:
  assumes "fetched_markup env (snapsave_request url) w w' html"
    and "\<not> matches_any env snapsave_hdPatterns html"
    and "\<not> matches_any env snapsave_fallbackPatterns html"
  shows "fetchViaSnapSave env url w = (Inr None, w')"
proof -
  have "first_match env snapsave_hdPatterns html = None" "first_match env snapsave_fallbackPatterns html = None"
    using assms(2-3) by (simp_all add: first_match_None_iff)
  then show ?thesis
    using snapsave_strategy_parse[OF assms(1)]
    by (simp add: fetchViaSnapSave_parse_def)
qed

lemma cobalt_forward:
  assumes "fetch env (cobalt_request url) w = (Responded response, w')"
    and "resp_ok response"
    and "resp_json response = Inr (JObj kvs)"
    and "map_of kvs ''status'' \<noteq> Some (JStr ''error'')"
    and "cobalt_statuses (map_of kvs ''status'') \<or> truthy (map_of kvs ''url'')"
  shows "\<exists>r. fetchViaCobalAPI env url w = (Inr (Some r), w') \<and> quality r = Some ''HD''
           \<and> video_url r = map_of kvs ''url''"
  using assms
  by (auto simp: fetchViaCobalAPI_def catch_null_def try_bind_def fetchViaCobalAPI_parse_def
        member_def)

definition playable_url_pattern :: regex where
  \<open>playable_url_pattern = RegExp ''"playable_url":"([^"]+)"'' []\<close>

lemma playable_url_tiers:
  "playable_url_pattern \<in> set api_hdPatterns
   \<and> playable_url_pattern \<notin> set direct_hdPatterns
   \<and> playable_url_pattern \<in> set direct_fallbackPatterns"
  by (simp add: playable_url_pattern_def api_hdPatterns_def direct_hdPatterns_def
        direct_fallbackPatterns_def)

text \<open>
  Claim C7. Each of the three strategies that parse markup (embed player page, mobile
  markup, mirror site) tries its list of HD patterns before its list of SD or fallback
  patterns. Whatever outcome such a strategy returns was parsed from the text of an ok
  response to its request, and it is tagged \<open>HD\<close> exactly when some HD pattern matched
  that markup, and \<open>SD\<close> when no HD pattern matched and some SD pattern did. Conversely,
  once the request of a strategy is answered by an ok response with text \<open>html\<close>, the
  strategy returns an outcome tagged \<open>HD\<close> carrying the unescaped first HD match whenever
  an HD pattern matches \<open>html\<close> (whatever the SD patterns do), an outcome tagged \<open>SD\<close>
  carrying the unescaped first SD match when no HD pattern and some SD pattern matches,
  and \<^verbatim>\<open>null\<close> when neither tier matches. Every outcome of the delegated Cobalt API is
  tagged \<open>HD\<close>, whatever the response says, and an ok response whose status is not
  \<^verbatim>\<open>error\<close> and that has one of the three success statuses or a truthy \<^verbatim>\<open>url\<close> does
  yield such an outcome. The tiers are the lists of each strategy: the marker
  \<^verbatim>\<open>"playable_url"\<close> is in the HD list of the embed player page and in the fallback
  list, not the HD list, of the mobile markup.
\<close>

theorem quality_tagging:
  "(\<forall>(env :: 'w env) url w r w'.
      fetchViaFacebookAPI env url w = (Inr (Some r), w') \<longrightarrow>
      (\<exists>enc html. encodeURIComponent env url = Inr enc
          \<and> fetched_markup env (facebookAPI_request enc) w w' html
          \<and> tier_tagged env api_hdPatterns api_sdPatterns html r))
   \<and> (\<forall>(env :: 'w env) url w r w'.
      fetchViaFacebookDirect env url w = (Inr (Some r), w') \<longrightarrow>
      (\<exists>html. fetched_markup env (direct_request url) w w' html
          \<and> tier_tagged env direct_hdPatterns direct_fallbackPatterns html r))
   \<and> (\<forall>(env :: 'w env) url w r w'.
      fetchViaSnapSave env url w = (Inr (Some r), w') \<longrightarrow>
      (\<exists>html. fetched_markup env (snapsave_request url) w w' html
          \<and> tier_tagged env snapsave_hdPatterns snapsave_fallbackPatterns html r))
   \<and> (\<forall>(env :: 'w env) html.
        (matches_any env api_hdPatterns html \<or> matches_any env api_sdPatterns html \<longrightarrow>
           (\<exists>r. fetchViaFacebookAPI_parse env html = Some r
              \<and> tier_tagged env api_hdPatterns api_sdPatterns html r))
      \<and> (matches_any env direct_hdPatterns html \<or> matches_any env direct_fallbackPatterns html \<longrightarrow>
           (\<exists>r. fetchViaFacebookDirect_parse env html = Some r
              \<and> tier_tagged env direct_hdPatterns direct_fallbackPatterns html r))
      \<and> (matches_any env snapsave_hdPatterns html \<or> matches_any env snapsave_fallbackPatterns html \<longrightarrow>
           (\<exists>r. fetchViaSnapSave_parse env html = Some r
              \<and> tier_tagged env snapsave_hdPatterns snapsave_fallbackPatterns html r)))
   \<and> (\<forall>(env :: 'w env) url w r w'.
        fetchViaCobalAPI env url w = (Inr (Some r), w') \<longrightarrow> quality r = Some ''HD'')
   \<and> (\<forall>(env :: 'w env) url enc w w' html.
      encodeURIComponent env url = Inr enc
      \<and> fetched_markup env (facebookAPI_request enc) w w' html \<longrightarrow>
        (matches_any env api_hdPatterns html \<longrightarrow>
           (\<exists>r. fetchViaFacebookAPI env url w = (Inr (Some r), w') \<and> quality r = Some ''HD''
              \<and> video_url r
                  = map_option (\<lambda>g. JStr (unescape_video_url g)) (first_match env api_hdPatterns html)))
      \<and> (\<not> matches_any env api_hdPatterns html \<and> matches_any env api_sdPatterns html \<longrightarrow>
           (\<exists>r. fetchViaFacebookAPI env url w = (Inr (Some r), w') \<and> quality r = Some ''SD''
              \<and> video_url r
                  = map_option (\<lambda>g. JStr (unescape_video_url g)) (first_match env api_sdPatterns html)))
      \<and> (\<not> matches_any env api_hdPatterns html \<and> \<not> matches_any env api_sdPatterns html \<longrightarrow>
           fetchViaFacebookAPI env url w = (Inr None, w')))
   \<and> (\<forall>(env :: 'w env) url w w' html.
      fetched_markup env (direct_request url) w w' html \<longrightarrow>
        (matches_any env direct_hdPatterns html \<longrightarrow>
           (\<exists>r. fetchViaFacebookDirect env url w = (Inr (Some r), w') \<and> quality r = Some ''HD''
              \<and> video_url r
                  = map_option (\<lambda>g. JStr (unescape_direct g)) (first_match env direct_hdPatterns html)))
      \<and> (\<not> matches_any env direct_hdPatterns html \<and> matches_any env direct_fallbackPatterns html \<longrightarrow>
           (\<exists>r. fetchViaFacebookDirect env url w = (Inr (Some r), w') \<and> quality r = Some ''SD''
              \<and> video_url r
                  = map_option (\<lambda>g. JStr (unescape_direct g)) (first_match env direct_fallbackPatterns html)))
      \<and> (\<not> matches_any env direct_hdPatterns html \<and> \<not> matches_any env direct_fallbackPatterns html \<longrightarrow>
           fetchViaFacebookDirect env url w = (Inr None, w')))
   \<and> (\<forall>(env :: 'w env) url w w' html.
      fetched_markup env (snapsave_request url) w w' html \<longrightarrow>
        (matches_any env snapsave_hdPatterns html \<longrightarrow>
           (\<exists>r. fetchViaSnapSave env url w = (Inr (Some r), w') \<and> quality r = Some ''HD''
              \<and> video_url r
                  = map_option (\<lambda>g. JStr (unescape_snapsave g)) (first_match env snapsave_hdPatterns html)))
      \<and> (\<not> matches_any env snapsave_hdPatterns html \<and> matches_any env snapsave_fallbackPatterns html \<longrightarrow>
           (\<exists>r. fetchViaSnapSave env url w = (Inr (Some r), w') \<and> quality r = Some ''SD''
              \<and> video_url r
                  = map_option (\<lambda>g. JStr (unescape_snapsave g)) (first_match env snapsave_fallbackPatterns html)))
      \<and> (\<not> matches_any env snapsave_hdPatterns html \<and> \<not> matches_any env snapsave_fallbackPatterns html \<longrightarrow>
           fetchViaSnapSave env url w = (Inr None, w')))
   \<and> (\<forall>(env :: 'w env) url w w' response kvs.
      fetch env (cobalt_request url) w = (Responded response, w') \<and> resp_ok response
      \<and> resp_json response = Inr (JObj kvs)
      \<and> map_of kvs ''status'' \<noteq> Some (JStr ''error'')
      \<and> (cobalt_statuses (map_of kvs ''status'') \<or> truthy (map_of kvs ''url'')) \<longrightarrow>
      (\<exists>r. fetchViaCobalAPI env url w = (Inr (Some r), w') \<and> quality r = Some ''HD''
         \<and> video_url r = map_of kvs ''url''))
   \<and> playable_url_pattern \<in> set api_hdPatterns
   \<and> playable_url_pattern \<notin> set direct_hdPatterns
   \<and> playable_url_pattern \<in> set direct_fallbackPatterns"
proof (intro conjI allI impI)
  fix env :: "'w env" and url w r w'
  assume "fetchViaFacebookAPI env url w = (Inr (Some r), w')"
  from api_strategy_markup[OF this] api_parse_tagged
  show "\<exists>enc html. encodeURIComponent env url = Inr enc
          \<and> fetched_markup env (facebookAPI_request enc) w w' html
          \<and> tier_tagged env api_hdPatterns api_sdPatterns html r"
    by blast
next
  fix env :: "'w env" and url w r w'
  assume "fetchViaFacebookDirect env url w = (Inr (Some r), w')"
  from direct_strategy_markup[OF this] direct_parse_tagged
  show "\<exists>html. fetched_markup env (direct_request url) w w' html
          \<and> tier_tagged env direct_hdPatterns direct_fallbackPatterns html r"
    by blast
next
  fix env :: "'w env" and url w r w'
  assume "fetchViaSnapSave env url w = (Inr (Some r), w')"
  from snapsave_strategy_markup[OF this] snapsave_parse_tagged
  show "\<exists>html. fetched_markup env (snapsave_request url) w w' html
          \<and> tier_tagged env snapsave_hdPatterns snapsave_fallbackPatterns html r"
    by blast
next
  fix env :: "'w env" and html
  assume "matches_any env api_hdPatterns html \<or> matches_any env api_sdPatterns html"
  from api_parse_total[OF this] api_parse_tagged
  show "\<exists>r. fetchViaFacebookAPI_parse env html = Some r
              \<and> tier_tagged env api_hdPatterns api_sdPatterns html r"
    by blast
next
  fix env :: "'w env" and html
  assume "matches_any env direct_hdPatterns html \<or> matches_any env direct_fallbackPatterns html"
  from direct_parse_total[OF this] direct_parse_tagged
  show "\<exists>r. fetchViaFacebookDirect_parse env html = Some r
              \<and> tier_tagged env direct_hdPatterns direct_fallbackPatterns html r"
    by blast
next
  fix env :: "'w env" and html
  assume "matches_any env snapsave_hdPatterns html \<or> matches_any env snapsave_fallbackPatterns html"
  from snapsave_parse_total[OF this] snapsave_parse_tagged
  show "\<exists>r. fetchViaSnapSave_parse env html = Some r
              \<and> tier_tagged env snapsave_hdPatterns snapsave_fallbackPatterns html r"
    by blast
next
  fix env :: "'w env" and url w r w'
  assume "fetchViaCobalAPI env url w = (Inr (Some r), w')"
  then show "quality r = Some ''HD''" by (rule cobalt_strategy_HD)
next
  fix env :: "'w env" and url enc w w' html
  assume "encodeURIComponent env url = Inr enc
      \<and> fetched_markup env (facebookAPI_request enc) w w' html"
    and "matches_any env api_hdPatterns html"
  then show "\<exists>r. fetchViaFacebookAPI env url w = (Inr (Some r), w') \<and> quality r = Some ''HD''
              \<and> video_url r
                  = map_option (\<lambda>g. JStr (unescape_video_url g)) (first_match env api_hdPatterns html)"
    by - ((elim conjE)?, rule api_forward_HD; assumption)
next
  fix env :: "'w env" and url enc w w' html
  assume "encodeURIComponent env url = Inr enc
      \<and> fetched_markup env (facebookAPI_request enc) w w' html"
    and "\<not> matches_any env api_hdPatterns html \<and> matches_any env api_sdPatterns html"
  then show "\<exists>r. fetchViaFacebookAPI env url w = (Inr (Some r), w') \<and> quality r = Some ''SD''
              \<and> video_url r
                  = map_option (\<lambda>g. JStr (unescape_video_url g)) (first_match env api_sdPatterns html)"
    by - ((elim conjE)?, rule api_forward_SD; assumption)
next
  fix env :: "'w env" and url enc w w' html
  assume "encodeURIComponent env url = Inr enc
      \<and> fetched_markup env (facebookAPI_request enc) w w' html"
    and "\<not> matches_any env api_hdPatterns html \<and> \<not> matches_any env api_sdPatterns html"
  then show "fetchViaFacebookAPI env url w = (Inr None, w')"
    by - ((elim conjE)?, rule api_forward_none; assumption)
next
  fix env :: "'w env" and url w w' html
  assume "fetched_markup env (direct_request url) w w' html"
    and "matches_any env direct_hdPatterns html"
  then show "\<exists>r. fetchViaFacebookDirect env url w = (Inr (Some r), w') \<and> quality r = Some ''HD''
              \<and> video_url r
                  = map_option (\<lambda>g. JStr (unescape_direct g)) (first_match env direct_hdPatterns html)"
    by - ((elim conjE)?, rule direct_forward_HD; assumption)
next
  fix env :: "'w env" and url w w' html
  assume "fetched_markup env (direct_request url) w w' html"
    and "\<not> matches_any env direct_hdPatterns html \<and> matches_any env direct_fallbackPatterns html"
  then show "\<exists>r. fetchViaFacebookDirect env url w = (Inr (Some r), w') \<and> quality r = Some ''SD''
              \<and> video_url r
                  = map_option (\<lambda>g. JStr (unescape_direct g)) (first_match env direct_fallbackPatterns html)"
    by - ((elim conjE)?, rule direct_forward_SD; assumption)
next
  fix env :: "'w env" and url w w' html
  assume "fetched_markup env (direct_request url) w w' html"
    and "\<not> matches_any env direct_hdPatterns html \<and> \<not> matches_any env direct_fallbackPatterns html"
  then show "fetchViaFacebookDirect env url w = (Inr None, w')"
    by - ((elim conjE)?, rule direct_forward_none; assumption)
next
  fix env :: "'w env" and url w w' html
  assume "fetched_markup env (snapsave_request url) w w' html"
    and "matches_any env snapsave_hdPatterns html"
  then show "\<exists>r. fetchViaSnapSave env url w = (Inr (Some r), w') \<and> quality r = Some ''HD''
              \<and> video_url r
                  = map_option (\<lambda>g. JStr (unescape_snapsave g)) (first_match env snapsave_hdPatterns html)"
    by - ((elim conjE)?, rule snapsave_forward_HD; assumption)
next
  fix env :: "'w env" and url w w' html
  assume "fetched_markup env (snapsave_request url) w w' html"
    and "\<not> matches_any env snapsave_hdPatterns html \<and> matches_any env snapsave_fallbackPatterns html"
  then show "\<exists>r. fetchViaSnapSave env url w = (Inr (Some r), w') \<and> quality r = Some ''SD''
              \<and> video_url r
                  = map_option (\<lambda>g. JStr (unescape_snapsave g)) (first_match env snapsave_fallbackPatterns html)"
    by - ((elim conjE)?, rule snapsave_forward_SD; assumption)
next
  fix env :: "'w env" and url w w' html
  assume "fetched_markup env (snapsave_request url) w w' html"
    and "\<not> matches_any env snapsave_hdPatterns html \<and> \<not> matches_any env snapsave_fallbackPatterns html"
  then show "fetchViaSnapSave env url w = (Inr None, w')"
    by - ((elim conjE)?, rule snapsave_forward_none; assumption)
next
  fix env :: "'w env" and url w w' response kvs
  assume "fetch env (cobalt_request url) w = (Responded response, w') \<and> resp_ok response
      \<and> resp_json response = Inr (JObj kvs)
      \<and> map_of kvs ''status'' \<noteq> Some (JStr ''error'')
      \<and> (cobalt_statuses (map_of kvs ''status'') \<or> truthy (map_of kvs ''url''))"
  then show "\<exists>r. fetchViaCobalAPI env url w = (Inr (Some r), w') \<and> quality r = Some ''HD''
         \<and> video_url r = map_of kvs ''url''"
    by - ((elim conjE)?, rule cobalt_forward; assumption)
next
  show "playable_url_pattern \<in> set api_hdPatterns" by (simp add: playable_url_tiers)
next
  show "playable_url_pattern \<notin> set direct_hdPatterns" using playable_url_tiers by simp
next
  show "playable_url_pattern \<in> set direct_fallbackPatterns" by (simp add: playable_url_tiers)
qed

section \<open>A mocked world for concrete runs\<close>

text \<open>
  The world is the log of the requests made so far; the network answers a request from
  the log and the request; the regular expression engine is a table.
\<close>

definition mock_env ::
  "(request list \<Rightarrow> request \<Rightarrow> reply) \<Rightarrow> (regex \<times> string) list \<Rightarrow> ((regex \<times> string) \<times> string) list
     \<Rightarrow> request list env" where
  "mock_env net tests groups =
     \<lparr>fetch = (\<lambda>req log. (net log req, log @ [req])),
      BACKEND_URL = None,
      re_test = (\<lambda>p s. (p, s) \<in> set tests),
      re_group1 = (\<lambda>p s. map_of groups (p, s)),
      re_match_all = (\<lambda>p s. []),
      encodeURIComponent = Inr,
      coerce_string = (\<lambda>v. ''[object Object]'')\<rparr>"

definition ok_html :: "string \<Rightarrow> reply" where
  "ok_html html =
     Responded \<lparr>resp_ok = True, resp_status = 200, resp_url = [], resp_location = None,
                resp_text = Inr html, resp_json = Inl (SyntaxError ''Unexpected token'')\<rparr>"

definition ok_json :: "json \<Rightarrow> reply" where
  "ok_json data =
     Responded \<lparr>resp_ok = True, resp_status = 200, resp_url = [], resp_location = None,
                resp_text = Inr [], resp_json = Inr data\<rparr>"


definition reel_url :: string where
  "reel_url = ''https://www.facebook.com/reel/123''"

text \<open>
  A share link, with the patterns of \<^verbatim>\<open>isFacebookURL\<close> and \<^verbatim>\<open>isFacebookShareURL\<close> that
  match it, and the reel URL that its identifier decodes to.
\<close>

definition share_url :: string where
  "share_url = ''https://facebook.com/share/r/XyZ9/''"

definition share_tests :: "(regex \<times> string) list" where
  "share_tests = map (\<lambda>p. (p, share_url)) [fbPatterns ! 4, sharePatterns ! 0, sharePatterns ! 3]"


definition hd_page :: string where
  \<open>hd_page = ''{"hd_src":"https://video.xx/hd.mp4","sd_src":"https://video.xx/sd.mp4"}''\<close>

definition sd_page :: string where
  \<open>sd_page = ''{"sd_src":"https://video.xx/sd.mp4"}''\<close>

definition hd_src_pattern :: regex where
  \<open>hd_src_pattern = RegExp ''"hd_src":"([^"]+)"'' []\<close>

definition sd_src_pattern :: regex where
  \<open>sd_src_pattern = RegExp ''"sd_src":"([^"]+)"'' []\<close>

definition markup_groups :: "((regex \<times> string) \<times> string) list" where
  "markup_groups =
     [((hd_src_pattern, hd_page), ''https://video.xx/hd.mp4''),
      ((sd_src_pattern, hd_page), ''https://video.xx/sd.mp4''),
      ((sd_src_pattern, sd_page), ''https://video.xx/sd.mp4'')]"

definition env_hd :: "request list env" where
  "env_hd = mock_env (\<lambda>log req. ok_html hd_page) [] markup_groups"

definition env_sd :: "request list env" where
  "env_sd = mock_env (\<lambda>log req. ok_html sd_page) [] markup_groups"

definition env_cobalt :: "request list env" where
  "env_cobalt = mock_env (\<lambda>log req. ok_json (JObj [(''status'', JStr ''stream''),
                   (''url'', JStr ''https://cobalt/stream/1'')])) [] []"

text \<open>
  A page whose only marker is \<^verbatim>\<open>"playable_url"\<close>, and two pages of the mirror site: one
  with a download link marked HD, one with a plain download link. The tables give group 1
  for every pattern of the mirror site that matches these pages.
\<close>

definition playable_page :: string where
  \<open>playable_page = ''{"playable_url":"https://video.xx/p.mp4"}''\<close>

definition env_playable :: "request list env" where
  "env_playable = mock_env (\<lambda>log req. ok_html playable_page) []
                    [((playable_url_pattern, playable_page), ''https://video.xx/p.mp4'')]"

definition snap_hd_page :: string where
  \<open>snap_hd_page = ''<a href="https://cdn.xx/hd.mp4" download="video_hd.mp4">Download in HD</a>''\<close>

definition snap_sd_page :: string where
  \<open>snap_sd_page = ''<a href="https://cdn.xx/v.mp4" class="download">Download</a>''\<close>

definition snap_groups :: "((regex \<times> string) \<times> string) list" where
  "snap_groups =
     [((snapsave_hdPatterns ! 0, snap_hd_page), ''https://cdn.xx/hd.mp4''),
      ((snapsave_hdPatterns ! 1, snap_hd_page), ''https://cdn.xx/hd.mp4''),
      ((snapsave_fallbackPatterns ! 0, snap_hd_page), ''https://cdn.xx/hd.mp4''),
      ((snapsave_fallbackPatterns ! 2, snap_hd_page), ''https://cdn.xx/hd.mp4''),
      ((snapsave_fallbackPatterns ! 1, snap_sd_page), ''https://cdn.xx/v.mp4''),
      ((snapsave_fallbackPatterns ! 2, snap_sd_page), ''https://cdn.xx/v.mp4'')]"

definition env_snap_hd :: "request list env" where
  "env_snap_hd = mock_env (\<lambda>log req. ok_html snap_hd_page) [] snap_groups"

definition env_snap_sd :: "request list env" where
  "env_snap_sd = mock_env (\<lambda>log req. ok_html snap_sd_page) [] snap_groups"

subsection \<open>Concrete runs of the Facebook strategies\<close>

lemma run_api_hd:
  "fetchViaFacebookAPI env_hd reel_url []
     = (Inr (Some \<lparr>video_url = Some (JStr ''https://video.xx/hd.mp4''), thumbnail = None,
                    quality = Some ''HD'', duration = None, extraction_method = None\<rparr>),
        [facebookAPI_request reel_url])"
  by (simp add: fetchViaFacebookAPI_def env_hd_def mock_env_def ok_html_def catch_null_def
        try_bind_def fetchViaFacebookAPI_parse_def api_hdPatterns_def api_sdPatterns_def
        api_thumbnailPatterns_def markup_groups_def hd_src_pattern_def sd_src_pattern_def
        hd_page_def sd_page_def unescape_video_url_def bs_def)

lemma run_api_sd:
  "fetchViaFacebookAPI env_sd reel_url []
     = (Inr (Some \<lparr>video_url = Some (JStr ''https://video.xx/sd.mp4''), thumbnail = None,
                    quality = Some ''SD'', duration = None, extraction_method = None\<rparr>),
        [facebookAPI_request reel_url])"
  by (simp add: fetchViaFacebookAPI_def env_sd_def mock_env_def ok_html_def catch_null_def
        try_bind_def fetchViaFacebookAPI_parse_def api_hdPatterns_def api_sdPatterns_def
        api_thumbnailPatterns_def markup_groups_def hd_src_pattern_def sd_src_pattern_def
        hd_page_def sd_page_def unescape_video_url_def bs_def)

lemma run_cobalt:
  "fetchViaCobalAPI env_cobalt reel_url []
     = (Inr (Some \<lparr>video_url = Some (JStr ''https://cobalt/stream/1''), thumbnail = None,
                    quality = Some ''HD'', duration = None, extraction_method = None\<rparr>),
        [cobalt_request reel_url])"
  by (simp add: fetchViaCobalAPI_def env_cobalt_def mock_env_def ok_json_def catch_null_def
        try_bind_def fetchViaCobalAPI_parse_def member_def cobalt_statuses_def js_or_def)

lemmas markup_defs =
  mock_env_def ok_html_def markup_groups_def hd_src_pattern_def sd_src_pattern_def
  hd_page_def sd_page_def playable_page_def playable_url_pattern_def snap_groups_def
  snap_hd_page_def snap_sd_page_def api_hdPatterns_def api_sdPatterns_def
  direct_hdPatterns_def direct_fallbackPatterns_def snapsave_hdPatterns_def
  snapsave_fallbackPatterns_def bs_def

lemma fetched_hd:
  "fetched_markup env_hd req [] [req] hd_page"
  by (simp add: fetched_markup_def env_hd_def mock_env_def ok_html_def)

lemma fetched_playable:
  "fetched_markup env_playable req [] [req] playable_page"
  by (simp add: fetched_markup_def env_playable_def mock_env_def ok_html_def)

lemma fetched_snap_hd:
  "fetched_markup env_snap_hd req [] [req] snap_hd_page"
  by (simp add: fetched_markup_def env_snap_hd_def mock_env_def ok_html_def)

lemma fetched_snap_sd:
  "fetched_markup env_snap_sd req [] [req] snap_sd_page"
  by (simp add: fetched_markup_def env_snap_sd_def mock_env_def ok_html_def)

lemma direct_hd_match:
  "matches_any env_hd direct_hdPatterns hd_page"
  "first_match env_hd direct_hdPatterns hd_page = Some ''https://video.xx/hd.mp4''"
  by (simp_all add: matches_any_def env_hd_def markup_defs)

lemma snapsave_no_match:
  "\<not> matches_any env_hd snapsave_hdPatterns hd_page"
  "\<not> matches_any env_hd snapsave_fallbackPatterns hd_page"
  by (simp_all add: matches_any_def env_hd_def markup_defs)

lemma snap_hd_match:
  "matches_any env_snap_hd snapsave_hdPatterns snap_hd_page"
  "first_match env_snap_hd snapsave_hdPatterns snap_hd_page = Some ''https://cdn.xx/hd.mp4''"
  by (simp_all add: matches_any_def env_snap_hd_def markup_defs)

lemma snap_sd_match:
  "\<not> matches_any env_snap_sd snapsave_hdPatterns snap_sd_page"
  "matches_any env_snap_sd snapsave_fallbackPatterns snap_sd_page"
  "first_match env_snap_sd snapsave_fallbackPatterns snap_sd_page = Some ''https://cdn.xx/v.mp4''"
  by (simp_all add: matches_any_def env_snap_sd_def markup_defs)

lemma playable_api_match:
  "matches_any env_playable api_hdPatterns playable_page"
  "first_match env_playable api_hdPatterns playable_page = Some ''https://video.xx/p.mp4''"
  by (simp_all add: matches_any_def env_playable_def markup_defs)

lemma playable_direct_match:
  "\<not> matches_any env_playable direct_hdPatterns playable_page"
  "matches_any env_playable direct_fallbackPatterns playable_page"
  "first_match env_playable direct_fallbackPatterns playable_page = Some ''https://video.xx/p.mp4''"
  by (simp_all add: matches_any_def env_playable_def markup_defs)

lemma unescape_plain:
  "unescape_direct ''https://video.xx/hd.mp4'' = ''https://video.xx/hd.mp4''"
  "unescape_direct ''https://video.xx/p.mp4'' = ''https://video.xx/p.mp4''"
  "unescape_video_url ''https://video.xx/p.mp4'' = ''https://video.xx/p.mp4''"
  "unescape_snapsave ''https://cdn.xx/hd.mp4'' = ''https://cdn.xx/hd.mp4''"
  "unescape_snapsave ''https://cdn.xx/v.mp4'' = ''https://cdn.xx/v.mp4''"
  by (simp_all add: unescape_direct_def unescape_video_url_def unescape_snapsave_def bs_def)

theorem quality_tagging_witness:
  "fetchViaFacebookAPI env_hd reel_url []
     = (Inr (Some \<lparr>video_url = Some (JStr ''https://video.xx/hd.mp4''), thumbnail = None,
                    quality = Some ''HD'', duration = None, extraction_method = None\<rparr>),
        [facebookAPI_request reel_url])
   \<and> (\<exists>html. fetched_markup env_hd (facebookAPI_request reel_url) [] [facebookAPI_request reel_url] html
         \<and> matches_any env_hd api_hdPatterns html)
   \<and> fetchViaFacebookAPI env_sd reel_url []
     = (Inr (Some \<lparr>video_url = Some (JStr ''https://video.xx/sd.mp4''), thumbnail = None,
                    quality = Some ''SD'', duration = None, extraction_method = None\<rparr>),
        [facebookAPI_request reel_url])
   \<and> (\<exists>html. fetched_markup env_sd (facebookAPI_request reel_url) [] [facebookAPI_request reel_url] html
         \<and> \<not> matches_any env_sd api_hdPatterns html \<and> matches_any env_sd api_sdPatterns html)
   \<and> (\<exists>r. fst (fetchViaCobalAPI env_cobalt reel_url []) = Inr (Some r) \<and> quality r = Some ''HD'')
   \<and> (\<exists>r. fetchViaFacebookDirect env_hd reel_url [] = (Inr (Some r), [direct_request reel_url])
         \<and> quality r = Some ''HD'' \<and> video_url r = Some (JStr ''https://video.xx/hd.mp4''))
   \<and> fetchViaSnapSave env_hd reel_url [] = (Inr None, [snapsave_request reel_url])
   \<and> (\<exists>r. fetchViaSnapSave env_snap_hd reel_url [] = (Inr (Some r), [snapsave_request reel_url])
         \<and> quality r = Some ''HD'' \<and> video_url r = Some (JStr ''https://cdn.xx/hd.mp4''))
   \<and> (\<exists>r. fetchViaSnapSave env_snap_sd reel_url [] = (Inr (Some r), [snapsave_request reel_url])
         \<and> quality r = Some ''SD'' \<and> video_url r = Some (JStr ''https://cdn.xx/v.mp4''))
   \<and> (\<exists>r. fetchViaFacebookAPI env_playable reel_url []
               = (Inr (Some r), [facebookAPI_request reel_url])
         \<and> quality r = Some ''HD'' \<and> video_url r = Some (JStr ''https://video.xx/p.mp4''))
   \<and> (\<exists>r. fetchViaFacebookDirect env_playable reel_url []
               = (Inr (Some r), [direct_request reel_url])
         \<and> quality r = Some ''SD'' \<and> video_url r = Some (JStr ''https://video.xx/p.mp4''))
   \<and> (\<exists>r. fetchViaCobalAPI env_cobalt reel_url [] = (Inr (Some r), [cobalt_request reel_url])
         \<and> quality r = Some ''HD'' \<and> video_url r = Some (JStr ''https://cobalt/stream/1''))"
proof -
  note T = quality_tagging[where 'w = "request list"]
  note forward = T[THEN conjunct2, THEN conjunct2, THEN conjunct2, THEN conjunct2, THEN conjunct2]
  note api_forward = forward[THEN conjunct1, rule_format]
  note direct_forward = forward[THEN conjunct2, THEN conjunct1, rule_format]
  note snapsave_forward = forward[THEN conjunct2, THEN conjunct2, THEN conjunct1, rule_format]
  note cobalt_forward' =
    forward[THEN conjunct2, THEN conjunct2, THEN conjunct2, THEN conjunct1, rule_format]
  have enc_hd: "encodeURIComponent env_hd reel_url = Inr reel_url"
    by (simp add: env_hd_def mock_env_def)
  have enc_sd: "encodeURIComponent env_sd reel_url = Inr reel_url"
    by (simp add: env_sd_def mock_env_def)
  have enc_playable: "encodeURIComponent env_playable reel_url = Inr reel_url"
    by (simp add: env_playable_def mock_env_def)
  from T[THEN conjunct1, rule_format, OF run_api_hd] enc_hd
  have a: "\<exists>html. fetched_markup env_hd (facebookAPI_request reel_url) [] [facebookAPI_request reel_url] html
         \<and> matches_any env_hd api_hdPatterns html"
    by (auto simp: tier_tagged_def)
  from T[THEN conjunct1, rule_format, OF run_api_sd] enc_sd
  have b: "\<exists>html. fetched_markup env_sd (facebookAPI_request reel_url) [] [facebookAPI_request reel_url] html
         \<and> \<not> matches_any env_sd api_hdPatterns html \<and> matches_any env_sd api_sdPatterns html"
    by (auto simp: tier_tagged_def)
  from T[THEN conjunct2, THEN conjunct2, THEN conjunct2, THEN conjunct2, THEN conjunct1,
         rule_format, OF run_cobalt]
  have c: "\<exists>r. fst (fetchViaCobalAPI env_cobalt reel_url []) = Inr (Some r) \<and> quality r = Some ''HD''"
    by (simp add: run_cobalt)
  from direct_forward[OF fetched_hd, THEN conjunct1, rule_format, OF direct_hd_match(1)]
  have d: "\<exists>r. fetchViaFacebookDirect env_hd reel_url [] = (Inr (Some r), [direct_request reel_url])
         \<and> quality r = Some ''HD'' \<and> video_url r = Some (JStr ''https://video.xx/hd.mp4'')"
    by (simp add: direct_hd_match(2) unescape_plain)
  from snapsave_forward[OF fetched_hd, THEN conjunct2, THEN conjunct2, rule_format,
         OF conjI, OF snapsave_no_match]
  have e: "fetchViaSnapSave env_hd reel_url [] = (Inr None, [snapsave_request reel_url])" .
  from snapsave_forward[OF fetched_snap_hd, THEN conjunct1, rule_format, OF snap_hd_match(1)]
  have f: "\<exists>r. fetchViaSnapSave env_snap_hd reel_url [] = (Inr (Some r), [snapsave_request reel_url])
         \<and> quality r = Some ''HD'' \<and> video_url r = Some (JStr ''https://cdn.xx/hd.mp4'')"
    by (simp add: snap_hd_match(2) unescape_plain)
  from snapsave_forward[OF fetched_snap_sd, THEN conjunct2, THEN conjunct1, rule_format,
         OF conjI, OF snap_sd_match(1,2)]
  have g: "\<exists>r. fetchViaSnapSave env_snap_sd reel_url [] = (Inr (Some r), [snapsave_request reel_url])
         \<and> quality r = Some ''SD'' \<and> video_url r = Some (JStr ''https://cdn.xx/v.mp4'')"
    by (simp add: snap_sd_match(3) unescape_plain)
  from api_forward[OF conjI, OF enc_playable fetched_playable, THEN conjunct1, rule_format,
         OF playable_api_match(1)]
  have h: "\<exists>r. fetchViaFacebookAPI env_playable reel_url []
               = (Inr (Some r), [facebookAPI_request reel_url])
         \<and> quality r = Some ''HD'' \<and> video_url r = Some (JStr ''https://video.xx/p.mp4'')"
    by (simp add: playable_api_match(2) unescape_plain)
  from direct_forward[OF fetched_playable, THEN conjunct2, THEN conjunct1, rule_format,
         OF conjI, OF playable_direct_match(1,2)]
  have i: "\<exists>r. fetchViaFacebookDirect env_playable reel_url []
               = (Inr (Some r), [direct_request reel_url])
         \<and> quality r = Some ''SD'' \<and> video_url r = Some (JStr ''https://video.xx/p.mp4'')"
    by (simp add: playable_direct_match(3) unescape_plain)
  have "fetch env_cobalt (cobalt_request reel_url) []
          = (ok_json (JObj [(''status'', JStr ''stream''), (''url'', JStr ''https://cobalt/stream/1'')]),
             [cobalt_request reel_url])"
    by (simp add: env_cobalt_def mock_env_def)
  then have "fetch env_cobalt (cobalt_request reel_url) []
          = (Responded \<lparr>resp_ok = True, resp_status = 200, resp_url = [], resp_location = None,
                resp_text = Inr [],
                resp_json = Inr (JObj [(''status'', JStr ''stream''),
                                       (''url'', JStr ''https://cobalt/stream/1'')])\<rparr>,
             [cobalt_request reel_url])
       \<and> resp_ok \<lparr>resp_ok = True, resp_status = 200, resp_url = [], resp_location = None,
                resp_text = Inr [],
                resp_json = Inr (JObj [(''status'', JStr ''stream''),
                                       (''url'', JStr ''https://cobalt/stream/1'')])\<rparr>
       \<and> resp_json \<lparr>resp_ok = True, resp_status = 200, resp_url = [], resp_location = None,
                resp_text = Inr [],
                resp_json = Inr (JObj [(''status'', JStr ''stream''),
                                       (''url'', JStr ''https://cobalt/stream/1'')])\<rparr>
           = Inr (JObj [(''status'', JStr ''stream''), (''url'', JStr ''https://cobalt/stream/1'')])
       \<and> map_of [(''status'', JStr ''stream''), (''url'', JStr ''https://cobalt/stream/1'')] ''status''
           \<noteq> Some (JStr ''error'')
       \<and> (cobalt_statuses (map_of [(''status'', JStr ''stream''),
                                    (''url'', JStr ''https://cobalt/stream/1'')] ''status'')
          \<or> truthy (map_of [(''status'', JStr ''stream''),
                             (''url'', JStr ''https://cobalt/stream/1'')] ''url''))"
    by (simp add: ok_json_def cobalt_statuses_def)
  from cobalt_forward'[OF this]
  have j: "\<exists>r. fetchViaCobalAPI env_cobalt reel_url [] = (Inr (Some r), [cobalt_request reel_url])
         \<and> quality r = Some ''HD'' \<and> video_url r = Some (JStr ''https://cobalt/stream/1'')"
    by simp
  from run_api_hd a run_api_sd b c d e f g h i j show ?thesis by blast
qed

section \<open>Short-circuit of the strategy chains\<close>

text \<open>
  \<open>run_failing ms w = Some w'\<close>: run in order from the world \<open>w\<close>, every strategy of \<open>ms\<close>
  fails (it throws, returns \<^verbatim>\<open>null\<close>, or returns an object without a truthy
  \<^verbatim>\<open>video_url\<close>), and the world is \<open>w'\<close> afterwards.
\<close>

fun run_failing :: "('w, video_data option) async list \<Rightarrow> 'w \<Rightarrow> 'w option" where
  "run_failing [] w = Some w"
| "run_failing (m # ms) w =
     (case m w of
        (Inr (Some r), w1) \<Rightarrow> if truthy (video_url r) then None else run_failing ms w1
      | (Inr None, w1) \<Rightarrow> run_failing ms w1
      | (Inl e, w1) \<Rightarrow> run_failing ms w1)"

lemma extractFacebookThumbnail_one_fetch:
  "\<exists>t. extractFacebookThumbnail env originalUrl w
         = (Inr t, snd (fetch env (thumbnail_request originalUrl) w))"
  by (simp add: extractFacebookThumbnail_def split_beta)

lemma ig_try_approaches_advance:
  "run_failing pre w = Some w1 \<Longrightarrow> ig_try_approaches (pre @ rest) w = ig_try_approaches rest w1"
proof (induction pre arbitrary: w)
  case Nil
  then show ?case by simp
next
  case (Cons m pre)
  then show ?case
    by (cases "m w") (auto split: sum.splits option.splits if_splits)
qed

lemma fb_try_methods_advance:
  "run_failing pre w = Some w1 \<Longrightarrow>
     fb_try_methods env originalUrl (pre @ rest) w = fb_try_methods env originalUrl rest w1"
proof (induction pre arbitrary: w)
  case Nil
  then show ?case by simp
next
  case (Cons m pre)
  then show ?case
    by (cases "m w") (auto split: sum.splits option.splits if_splits)
qed

lemma ig_try_approaches_hit:
  fixes m :: "('w, video_data option) async"
  shows "m w1 = (Inr (Some r), w2) \<Longrightarrow> truthy (video_url r) \<Longrightarrow>
     ig_try_approaches (m # post) w1 = (Some r, w2)"
  by simp

lemma fb_try_methods_hit:
  fixes m :: "('w, video_data option) async" and env :: "'w env"
  assumes "m w1 = (Inr (Some r), w2)" and "truthy (video_url r)"
  shows "fb_try_methods env originalUrl (m # post) w1 =
           (if truthy (thumbnail r) then (Some r, w2)
            else case extractFacebookThumbnail env originalUrl w2 of
                   (Inr t, w3) \<Rightarrow>
                     (Some (if truthy_string t then r\<lparr>thumbnail := map_option JStr t\<rparr> else r), w3)
                 | (Inl e, w3) \<Rightarrow> fb_try_methods env originalUrl post w3)"
  using assms by (simp split: prod.splits sum.splits)

lemma fb_try_methods_hit_backfill:
  fixes m :: "('w, video_data option) async" and env :: "'w env"
  assumes "m w1 = (Inr (Some r), w2)" and "truthy (video_url r)" and "\<not> truthy (thumbnail r)"
  shows "\<exists>t. extractFacebookThumbnail env originalUrl w2
               = (Inr t, snd (fetch env (thumbnail_request originalUrl) w2))
           \<and> fb_try_methods env originalUrl (m # post) w1
               = (Some (if truthy_string t then r\<lparr>thumbnail := map_option JStr t\<rparr> else r),
                  snd (fetch env (thumbnail_request originalUrl) w2))"
proof -
  obtain t where t: "extractFacebookThumbnail env originalUrl w2
               = (Inr t, snd (fetch env (thumbnail_request originalUrl) w2))"
    using extractFacebookThumbnail_one_fetch[of env originalUrl w2] by blast
  then show ?thesis
    using fb_try_methods_hit[of m w1 r w2 env originalUrl post] assms by simp
qed

lemma fb_try_methods_hit_independent:
  fixes m :: "('w, video_data option) async" and env :: "'w env"
  assumes "m w1 = (Inr (Some r), w2)" and "truthy (video_url r)"
  shows "fb_try_methods env originalUrl (m # post) w1 = fb_try_methods env originalUrl [m] w1"
proof (cases "truthy (thumbnail r)")
  case True
  then show ?thesis
    using fb_try_methods_hit[of m w1 r w2 env originalUrl post]
      fb_try_methods_hit[of m w1 r w2 env originalUrl "[]"] assms by simp
next
  case False
  from fb_try_methods_hit_backfill[of m w1 r w2 env originalUrl post]
       fb_try_methods_hit_backfill[of m w1 r w2 env originalUrl "[]"] assms False
  show ?thesis by auto
qed

lemma fb_try_methods_hit_outcome:
  fixes m :: "('w, video_data option) async" and env :: "'w env"
  assumes "m w1 = (Inr (Some r), w2)" and "truthy (video_url r)"
  shows "\<exists>t w3. fb_try_methods env originalUrl (m # post) w1 = (Some (r\<lparr>thumbnail := t\<rparr>), w3)"
proof (cases "truthy (thumbnail r)")
  case True
  then have "fb_try_methods env originalUrl (m # post) w1 = (Some (r\<lparr>thumbnail := thumbnail r\<rparr>), w2)"
    using fb_try_methods_hit[of m w1 r w2 env originalUrl post] assms by simp
  then show ?thesis by blast
next
  case False
  from fb_try_methods_hit_backfill[of m w1 r w2 env originalUrl post] assms False
  obtain t where "fb_try_methods env originalUrl (m # post) w1
               = (Some (if truthy_string t then r\<lparr>thumbnail := map_option JStr t\<rparr> else r),
                  snd (fetch env (thumbnail_request originalUrl) w2))" by blast
  then have "fb_try_methods env originalUrl (m # post) w1
               = (Some (r\<lparr>thumbnail := (if truthy_string t then map_option JStr t else thumbnail r)\<rparr>),
                  snd (fetch env (thumbnail_request originalUrl) w2))"
    by simp
  then show ?thesis by blast
qed

lemma ig_try_approaches_exhausted:
  "run_failing ms w = Some w' \<Longrightarrow> ig_try_approaches ms w = (None, w')"
  using ig_try_approaches_advance[of ms w w' "[]"] by simp

lemma fb_try_methods_exhausted:
  "run_failing ms w = Some w' \<Longrightarrow> fb_try_methods env originalUrl ms w = (None, w')"
  using fb_try_methods_advance[of ms w w' env originalUrl "[]"] by simp

text \<open>
  Claim C4. In both orchestrator loops, when the strategies \<open>pre\<close> all fail (throw,
  return \<^verbatim>\<open>null\<close>, or return no \<^verbatim>\<open>video_url\<close>) the chain advances through them, and
  when the next strategy \<open>m\<close> returns a result with a truthy \<^verbatim>\<open>video_url\<close> the loop returns
  that result: unchanged for Instagram, with at most its thumbnail filled in for
  Facebook. The later strategies \<open>post\<close> are not invoked: the world is the one \<open>m\<close> left
  (plus the thumbnail probe), and the Facebook loop gives the same result and world as
  the loop without them. When every strategy fails the loop ends without a result.
  \<^verbatim>\<open>fetchFacebookVideo\<close> and \<^verbatim>\<open>fetchInstagramData\<close> are these loops over their strategy
  lists.
\<close>

theorem strategy_chain_short_circuit:
  "(\<forall>(env :: 'w env) originalUrl (pre :: ('w, video_data option) async list)
       (m :: ('w, video_data option) async) post w w1 w2
       (r :: video_data).
      run_failing pre w = Some w1 \<and> m w1 = (Inr (Some r), w2) \<and> truthy (video_url r) \<longrightarrow>
        ig_try_approaches (pre @ m # post) w = (Some r, w2)
        \<and> (\<exists>t w3. fb_try_methods env originalUrl (pre @ m # post) w = (Some (r\<lparr>thumbnail := t\<rparr>), w3))
        \<and> fb_try_methods env originalUrl (pre @ m # post) w
            = fb_try_methods env originalUrl (pre @ [m]) w)
   \<and> (\<forall>(env :: 'w env) originalUrl (ms :: ('w, video_data option) async list) w w'.
        run_failing ms w = Some w' \<longrightarrow>
          ig_try_approaches ms w = (None, w') \<and> fb_try_methods env originalUrl ms w = (None, w'))
   \<and> (\<forall>(env :: 'w env) url w.
        \<not> isFacebookShareURL env url \<longrightarrow>
          fetchFacebookVideo env url w =
            (case fb_try_methods env url
                    [fetchViaFacebookAPI env url, fetchViaCobalAPI env url,
                     fetchViaFacebookDirect env url, fetchViaSnapSave env url] w of
               (Some result, w') \<Rightarrow> (Inr result, w')
             | (None, w') \<Rightarrow> (Inl fb_exhausted, w')))
   \<and> (\<forall>(env :: 'w env) url w w1 shortcode.
        fetchViaBackend env url w = (None, w1) \<and> extractShortcode env url = Some shortcode
        \<and> shortcode \<noteq> [] \<longrightarrow>
          fetchInstagramData env url w =
            (case ig_try_approaches
                    [fetchViaInstagramAPI env shortcode, fetchViaPageScrape env url,
                     fetchViaOEmbed env url] w1 of
               (Some result, w') \<Rightarrow> (Inr result, w')
             | (None, w') \<Rightarrow> (Inl ig_exhausted, w')))"
proof (intro conjI allI impI; (elim conjE)?)
  fix env :: "'w env" and originalUrl and pre :: "('w, video_data option) async list"
    and m :: "('w, video_data option) async"
    and post w w1 w2 and r :: video_data
  assume pre: "run_failing pre w = Some w1" and hit: "m w1 = (Inr (Some r), w2)"
    and v: "truthy (video_url r)"
  show "ig_try_approaches (pre @ m # post) w = (Some r, w2)"
    using ig_try_approaches_advance[OF pre, of "m # post"] ig_try_approaches_hit[of m w1 r w2 post] hit v by simp
  show "\<exists>t w3. fb_try_methods env originalUrl (pre @ m # post) w = (Some (r\<lparr>thumbnail := t\<rparr>), w3)"
    using fb_try_methods_advance[OF pre, of env originalUrl "m # post"]
      fb_try_methods_hit_outcome[of m w1 r w2 env originalUrl post] hit v by simp
  show "fb_try_methods env originalUrl (pre @ m # post) w
            = fb_try_methods env originalUrl (pre @ [m]) w"
    using fb_try_methods_advance[OF pre, of env originalUrl "m # post"]
      fb_try_methods_advance[OF pre, of env originalUrl "[m]"]
      fb_try_methods_hit_independent[of m w1 r w2 env originalUrl post] hit v by simp
next
  fix env :: "'w env" and originalUrl and ms :: "('w, video_data option) async list" and w w'
  assume ex: "run_failing ms w = Some w'"
  show "ig_try_approaches ms w = (None, w')" using ex by (rule ig_try_approaches_exhausted)
  show "fb_try_methods env originalUrl ms w = (None, w')" using ex by (rule fb_try_methods_exhausted)
next
  fix env :: "'w env" and url w
  assume "\<not> isFacebookShareURL env url"
  then show "fetchFacebookVideo env url w =
            (case fb_try_methods env url
                    [fetchViaFacebookAPI env url, fetchViaCobalAPI env url,
                     fetchViaFacebookDirect env url, fetchViaSnapSave env url] w of
               (Some result, w') \<Rightarrow> (Inr result, w')
             | (None, w') \<Rightarrow> (Inl fb_exhausted, w'))"
    by (simp add: fetchFacebookVideo_def split: prod.splits option.splits)
next
  fix env :: "'w env" and url w w1 shortcode
  assume "fetchViaBackend env url w = (None, w1)" "extractShortcode env url = Some shortcode"
    "shortcode \<noteq> []"
  then show "fetchInstagramData env url w =
            (case ig_try_approaches
                    [fetchViaInstagramAPI env shortcode, fetchViaPageScrape env url,
                     fetchViaOEmbed env url] w1 of
               (Some result, w') \<Rightarrow> (Inr result, w')
             | (None, w') \<Rightarrow> (Inl ig_exhausted, w'))"
    by (simp add: fetchInstagramData_def split: prod.splits option.splits)
qed

subsection \<open>A mocked strategy chain\<close>

text \<open>Mocked strategies over a world that is the trace of the strategies invoked.\<close>

definition mock_throw :: "string \<Rightarrow> (string list, video_data option) async" where
  "mock_throw name w = (Inl (NetworkError ''timeout''), w @ [name])"

definition mock_null :: "string \<Rightarrow> (string list, video_data option) async" where
  "mock_null name w = (Inr None, w @ [name])"

definition mock_ok :: "string \<Rightarrow> video_data \<Rightarrow> (string list, video_data option) async" where
  "mock_ok name r w = (Inr (Some r), w @ [name])"

definition sample_result :: video_data where
  "sample_result =
     \<lparr>video_url = Some (JStr ''https://x.cdn/video.mp4''),
      thumbnail = Some (JStr ''https://x.cdn/thumb.jpg''),
      quality = Some ''HD'', duration = None, extraction_method = None\<rparr>"

definition trace_env :: "string list env" where
  "trace_env =
     \<lparr>fetch = (\<lambda>req w. (Rejected (NetworkError ''offline''), w @ [''fetch''])),
      BACKEND_URL = None,
      re_test = (\<lambda>p s. False),
      re_group1 = (\<lambda>p s. None),
      re_match_all = (\<lambda>p s. []),
      encodeURIComponent = Inr,
      coerce_string = (\<lambda>v. [])\<rparr>"

definition mocked_chain :: "(string list, video_data option) async list" where
  "mocked_chain =
     [mock_throw ''strategy1'', mock_ok ''strategy2'' sample_result,
      mock_null ''strategy3'', mock_null ''strategy4'']"

theorem strategy_chain_short_circuit_witness:
  "run_failing [mock_throw ''strategy1''] [] = Some [''strategy1'']
   \<and> mock_ok ''strategy2'' sample_result [''strategy1'']
       = (Inr (Some sample_result), [''strategy1'', ''strategy2''])
   \<and> truthy (video_url sample_result)
   \<and> ig_try_approaches mocked_chain [] = (Some sample_result, [''strategy1'', ''strategy2''])
   \<and> fb_try_methods trace_env ''https://www.facebook.com/reel/123'' mocked_chain []
       = (Some sample_result, [''strategy1'', ''strategy2''])
   \<and> run_failing [mock_throw ''strategy1'', mock_null ''strategy3''] []
       = Some [''strategy1'', ''strategy3'']
   \<and> ig_try_approaches [mock_throw ''strategy1'', mock_null ''strategy3''] []
       = (None, [''strategy1'', ''strategy3''])"
proof -
  note T = strategy_chain_short_circuit[where 'w = "string list"]
  have pre: "run_failing [mock_throw ''strategy1''] [] = Some [''strategy1'']"
    by (simp add: mock_throw_def)
  have hit: "mock_ok ''strategy2'' sample_result [''strategy1'']
       = (Inr (Some sample_result), [''strategy1'', ''strategy2''])"
    by (simp add: mock_ok_def)
  have v: "truthy (video_url sample_result)"
    by (simp add: sample_result_def)
  have chain: "mocked_chain = [mock_throw ''strategy1''] @ mock_ok ''strategy2'' sample_result
                 # [mock_null ''strategy3'', mock_null ''strategy4'']"
    by (simp add: mocked_chain_def)
  note hitT = T[THEN conjunct1, rule_format, of "[mock_throw ''strategy1'']" "[]" "[''strategy1'']"
      "mock_ok ''strategy2'' sample_result" sample_result "[''strategy1'', ''strategy2'']"
      "[mock_null ''strategy3'', mock_null ''strategy4'']" trace_env
      "''https://www.facebook.com/reel/123''", OF conjI[OF pre conjI[OF hit v]]]
  have ig: "ig_try_approaches mocked_chain [] = (Some sample_result, [''strategy1'', ''strategy2''])"
    unfolding chain by (rule hitT[THEN conjunct1])
  have "fb_try_methods trace_env ''https://www.facebook.com/reel/123'' mocked_chain []
       = fb_try_methods trace_env ''https://www.facebook.com/reel/123''
           ([mock_throw ''strategy1''] @ [mock_ok ''strategy2'' sample_result]) []"
    unfolding chain by (rule hitT[THEN conjunct2, THEN conjunct2])
  also have "\<dots> = (Some sample_result, [''strategy1'', ''strategy2''])"
    by (simp add: mock_throw_def mock_ok_def sample_result_def)
  finally have fb: "fb_try_methods trace_env ''https://www.facebook.com/reel/123'' mocked_chain []
       = (Some sample_result, [''strategy1'', ''strategy2''])" .
  have ex: "run_failing [mock_throw ''strategy1'', mock_null ''strategy3''] []
       = Some [''strategy1'', ''strategy3'']"
    by (simp add: mock_throw_def mock_null_def)
  have none: "ig_try_approaches [mock_throw ''strategy1'', mock_null ''strategy3''] []
       = (None, [''strategy1'', ''strategy3''])"
    using T[THEN conjunct2, THEN conjunct1, rule_format, OF ex, of trace_env "[]"] by simp
  from pre hit v ig fb ex none show ?thesis by blast
qed

section \<open>Thumbnail backfill\<close>



text \<open>
  The four strategies of the first pass, for the URL they are given; and the step of
  \<^verbatim>\<open>fetchFacebookVideo\<close> before the passes, which resolves a share link and leaves any
  other URL as it is.
\<close>

definition facebook_methods :: "'w env \<Rightarrow> string \<Rightarrow> ('w, video_data option) async list" where
  "facebook_methods env url =
     [fetchViaFacebookAPI env url, fetchViaCobalAPI env url,
      fetchViaFacebookDirect env url, fetchViaSnapSave env url]"







subsection \<open>A run with and without a thumbnail on the post page\<close>



























section \<open>The share-link resolver never throws\<close>

lemma resolve_total:
  "\<exists>u w'. resolveFacebookShareURL_Improved env url w = (Inr u, w')"
  by (simp add: resolveFacebookShareURL_Improved_def split: prod.splits option.splits)

lemma resolve_gives_up:
  assumes "resolve_strategy1 env url w = (None, w1)"
    and "resolve_strategy2 env (re_group1 env shareId_pattern url) w1 = (None, w2)"
    and "resolve_strategy3 env url w2 = (None, w3)"
    and "resolve_strategy4 env url w3 = (None, w4)"
  shows "resolveFacebookShareURL_Improved env url w = (Inr url, w4)"
  using assms by (simp add: resolveFacebookShareURL_Improved_def)

lemma strategy1_swallows:
  assumes "fetch env (cobalt_probe_request url) w = (rep, w1)"
    and "cobalt_probe_accepts rep \<noteq> Inr True"
  shows "resolve_strategy1 env url w = (None, w1)"
  using assms
  by (cases "cobalt_probe_accepts rep")
     (auto simp: resolve_strategy1_def catch_null_def try_bind_def)

lemma probe_rejected: "cobalt_probe_accepts (Rejected e) = Inl e"
  by (simp add: cobalt_probe_accepts_def)

lemma probe_not_ok: "\<not> resp_ok response \<Longrightarrow> cobalt_probe_accepts (Responded response) = Inr False"
  by (simp add: cobalt_probe_accepts_def)

lemma probe_bad_json:
  "resp_ok response \<Longrightarrow> resp_json response = Inl e \<Longrightarrow>
     cobalt_probe_accepts (Responded response) = Inl e"
  by (simp add: cobalt_probe_accepts_def try_bind_def)

lemma strategy2_swallows_decode:
  "base62ToDecimal sid = Inl e \<Longrightarrow> resolve_strategy2 env (Some sid) w = (None, w)"
  by (simp add: resolve_strategy2_def)

lemma strategy2_swallows:
  assumes "base62ToDecimal sid = Inr d"
    and "fetch env (cobalt_probe_request (''https://www.facebook.com/reel/'' @ d)) w = (rep, w1)"
    and "cobalt_probe_accepts rep \<noteq> Inr True" and "sid \<noteq> []"
  shows "resolve_strategy2 env (Some sid) w = (None, w1)"
  using assms
  by (cases "cobalt_probe_accepts rep")
     (auto simp: resolve_strategy2_def catch_null_def try_bind_def Let_def)

lemma strategy3_swallows_reject:
  "fetch env (manual_request url) w = (Rejected e, w1) \<Longrightarrow>
     resolve_strategy3 env url w = (None, w1)"
  by (simp add: resolve_strategy3_def)

lemma strategy4_swallows_reject:
  "fetch env (backend_resolve_request b url) w = (Rejected e, w1) \<Longrightarrow> BACKEND_URL env = Some b
     \<Longrightarrow> \<exists>w'. resolve_strategy4 env url w = (None, w')"
  by (simp add: resolve_strategy4_def catch_null_def)

text \<open>A network on which every request fails: the promise of every fetch rejects.\<close>

definition network_down :: "'w env \<Rightarrow> bool" where
  "network_down env = (\<forall>req w. \<exists>e w'. fetch env req w = (Rejected e, w'))"

text \<open>A network on which every request is answered with a non-2xx response without a
  \<^verbatim>\<open>Location\<close> header.\<close>

definition network_refuses :: "'w env \<Rightarrow> bool" where
  "network_refuses env =
     (\<forall>req w. \<exists>response w'. fetch env req w = (Responded response, w')
        \<and> \<not> resp_ok response \<and> resp_location response = None)"

lemma down_strategy1: "network_down env \<Longrightarrow> fst (resolve_strategy1 env url w) = None"
proof -
  assume d: "network_down env"
  then obtain e w' where "fetch env (cobalt_probe_request url) w = (Rejected e, w')"
    unfolding network_down_def by blast
  then show ?thesis
    using strategy1_swallows[of env url w "Rejected e" w'] by (simp add: probe_rejected)
qed

lemma down_strategy2: "network_down env \<Longrightarrow> fst (resolve_strategy2 env shareId w) = None"
proof (cases shareId)
  case None
  then show ?thesis by (simp add: resolve_strategy2_def)
next
  case (Some sid)
  assume d: "network_down env"
  show ?thesis
  proof (cases "base62ToDecimal sid")
    case (Inl e)
    then show ?thesis using Some by (simp add: strategy2_swallows_decode)
  next
    case (Inr dec)
    obtain e w' where
      f: "fetch env (cobalt_probe_request (''https://www.facebook.com/reel/'' @ dec)) w = (Rejected e, w')"
      using d unfolding network_down_def by blast
    show ?thesis
    proof (cases "sid = []")
      case True
      then show ?thesis using Some by (simp add: resolve_strategy2_def)
    next
      case False
      then show ?thesis
        using strategy2_swallows[OF Inr f _ False, of ] Some by (simp add: probe_rejected)
    qed
  qed
qed

lemma down_strategy3: "network_down env \<Longrightarrow> fst (resolve_strategy3 env url w) = None"
proof -
  assume d: "network_down env"
  then obtain e w' where "fetch env (manual_request url) w = (Rejected e, w')"
    unfolding network_down_def by blast
  then show ?thesis by (simp add: strategy3_swallows_reject)
qed

lemma down_strategy4: "network_down env \<Longrightarrow> fst (resolve_strategy4 env url w) = None"
proof (cases "BACKEND_URL env")
  case None
  then show ?thesis by (simp add: resolve_strategy4_def)
next
  case (Some b)
  assume d: "network_down env"
  then obtain e w' where "fetch env (backend_resolve_request b url) w = (Rejected e, w')"
    unfolding network_down_def by blast
  then show ?thesis using Some
    by (simp add: resolve_strategy4_def catch_null_def)
qed

lemma resolve_by_strategies:
  assumes "\<And>w. fst (resolve_strategy1 env url w) = None"
    and "\<And>w. fst (resolve_strategy2 env (re_group1 env shareId_pattern url) w) = None"
    and "\<And>w. fst (resolve_strategy3 env url w) = None"
    and "\<And>w. fst (resolve_strategy4 env url w) = None"
  shows "fst (resolveFacebookShareURL_Improved env url w) = Inr url"
proof -
  obtain w1 where 1: "resolve_strategy1 env url w = (None, w1)"
    using assms(1)[of w] by (cases "resolve_strategy1 env url w") simp
  obtain w2 where 2: "resolve_strategy2 env (re_group1 env shareId_pattern url) w1 = (None, w2)"
    using assms(2)[of w1] by (cases "resolve_strategy2 env (re_group1 env shareId_pattern url) w1") simp
  obtain w3 where 3: "resolve_strategy3 env url w2 = (None, w3)"
    using assms(3)[of w2] by (cases "resolve_strategy3 env url w2") simp
  obtain w4 where 4: "resolve_strategy4 env url w3 = (None, w4)"
    using assms(4)[of w3] by (cases "resolve_strategy4 env url w3") simp
  show ?thesis using resolve_gives_up[OF 1 2 3 4] by simp
qed

lemma resolve_network_down:
  "network_down env \<Longrightarrow> fst (resolveFacebookShareURL_Improved env url w) = Inr url"
  by (rule resolve_by_strategies)
     (simp_all add: down_strategy1 down_strategy2 down_strategy3 down_strategy4)

lemma refuses_strategy1: "network_refuses env \<Longrightarrow> fst (resolve_strategy1 env url w) = None"
proof -
  assume d: "network_refuses env"
  then obtain response w' where "fetch env (cobalt_probe_request url) w = (Responded response, w')"
    "\<not> resp_ok response"
    unfolding network_refuses_def by blast
  then show ?thesis
    using strategy1_swallows[of env url w "Responded response" w'] by (simp add: probe_not_ok)
qed

lemma refuses_strategy2: "network_refuses env \<Longrightarrow> fst (resolve_strategy2 env shareId w) = None"
proof (cases shareId)
  case None
  then show ?thesis by (simp add: resolve_strategy2_def)
next
  case (Some sid)
  assume d: "network_refuses env"
  show ?thesis
  proof (cases "base62ToDecimal sid")
    case (Inl e)
    then show ?thesis using Some by (simp add: strategy2_swallows_decode)
  next
    case (Inr dec)
    obtain response w' where
      f: "fetch env (cobalt_probe_request (''https://www.facebook.com/reel/'' @ dec)) w
           = (Responded response, w')" and nok: "\<not> resp_ok response"
      using d unfolding network_refuses_def by blast
    show ?thesis
    proof (cases "sid = []")
      case True
      then show ?thesis using Some by (simp add: resolve_strategy2_def)
    next
      case False
      then show ?thesis
        using strategy2_swallows[OF Inr f _ False] Some nok by (simp add: probe_not_ok)
    qed
  qed
qed

lemma refuses_strategy3: "network_refuses env \<Longrightarrow> fst (resolve_strategy3 env url w) = None"
proof -
  assume d: "network_refuses env"
  then obtain r1 w1 where 1: "fetch env (manual_request url) w = (Responded r1, w1)"
    "resp_location r1 = None"
    unfolding network_refuses_def by blast
  from d obtain r2 w2 where 2: "fetch env (follow_request url) w1 = (Responded r2, w2)"
    "\<not> resp_ok r2"
    unfolding network_refuses_def by blast
  from 1 2 show ?thesis
    by (simp add: resolve_strategy3_def location_accepted_def catch_null_def)
qed

lemma refuses_strategy4: "network_refuses env \<Longrightarrow> fst (resolve_strategy4 env url w) = None"
proof (cases "BACKEND_URL env")
  case None
  then show ?thesis by (simp add: resolve_strategy4_def)
next
  case (Some b)
  assume d: "network_refuses env"
  then obtain r w' where "fetch env (backend_resolve_request b url) w = (Responded r, w')"
    "\<not> resp_ok r"
    unfolding network_refuses_def by blast
  then show ?thesis using Some
    by (simp add: resolve_strategy4_def catch_null_def)
qed

lemma resolve_network_refuses:
  "network_refuses env \<Longrightarrow> fst (resolveFacebookShareURL_Improved env url w) = Inr url"
  by (rule resolve_by_strategies)
     (simp_all add: refuses_strategy1 refuses_strategy2 refuses_strategy3 refuses_strategy4)

lemma unresolved_share_url_first_pass:
  assumes "isFacebookShareURL env url"
    and "resolveFacebookShareURL_Improved env url w = (Inr url, w1)"
  shows "fetchFacebookVideo env url w =
           (case fb_try_methods env url (facebook_methods env url) w1 of
              (Some result, w2) \<Rightarrow> (Inr result, w2)
            | (None, w2) \<Rightarrow> (Inl fb_exhausted, w2))"
  using assms
  by (simp add: fetchFacebookVideo_def facebook_methods_def split: prod.splits option.splits)

text \<open>
  Claim C6. \<^verbatim>\<open>resolveFacebookShareURL_Improved\<close> always returns a URL and never throws.
  When its four strategies all end without a result it returns the URL it was given.
  A failure inside a strategy is swallowed there: a Cobalt probe that rejects, is not
  ok, cannot be parsed or does not report a stream ends strategy 1 without a result, and
  the base-62 decoding error ends strategy 2 without a result and without a fetch. On a
  network where every fetch rejects, or every response is non-2xx, the original URL
  comes back; and \<^verbatim>\<open>fetchFacebookVideo\<close> then runs its four extraction strategies
  against that URL.
\<close>

theorem resolver_never_throws:
  "(\<forall>(env :: 'w env) url w. \<exists>u w'. resolveFacebookShareURL_Improved env url w = (Inr u, w'))
   \<and> (\<forall>(env :: 'w env) url w w1 w2 w3 w4.
        resolve_strategy1 env url w = (None, w1)
        \<and> resolve_strategy2 env (re_group1 env shareId_pattern url) w1 = (None, w2)
        \<and> resolve_strategy3 env url w2 = (None, w3)
        \<and> resolve_strategy4 env url w3 = (None, w4) \<longrightarrow>
          resolveFacebookShareURL_Improved env url w = (Inr url, w4))
   \<and> (\<forall>(env :: 'w env) url w rep w1.
        fetch env (cobalt_probe_request url) w = (rep, w1)
        \<and> cobalt_probe_accepts rep \<noteq> Inr True \<longrightarrow>
          resolve_strategy1 env url w = (None, w1))
   \<and> (\<forall>(env :: 'w env) sid e w.
        base62ToDecimal sid = Inl e \<longrightarrow> resolve_strategy2 env (Some sid) w = (None, w))
   \<and> (\<forall>(env :: 'w env) url w.
        network_down env \<or> network_refuses env \<longrightarrow>
          fst (resolveFacebookShareURL_Improved env url w) = Inr url)
   \<and> (\<forall>(env :: 'w env) url w w1.
        isFacebookShareURL env url
        \<and> resolveFacebookShareURL_Improved env url w = (Inr url, w1) \<longrightarrow>
          fetchFacebookVideo env url w =
            (case fb_try_methods env url (facebook_methods env url) w1 of
               (Some result, w2) \<Rightarrow> (Inr result, w2)
             | (None, w2) \<Rightarrow> (Inl fb_exhausted, w2)))"
proof (intro conjI allI impI; (elim conjE)?)
  fix env :: "'w env" and url w
  show "\<exists>u w'. resolveFacebookShareURL_Improved env url w = (Inr u, w')"
    by (rule resolve_total)
next
  fix env :: "'w env" and url w w1 w2 w3 w4
  assume "resolve_strategy1 env url w = (None, w1)"
    "resolve_strategy2 env (re_group1 env shareId_pattern url) w1 = (None, w2)"
    "resolve_strategy3 env url w2 = (None, w3)"
    "resolve_strategy4 env url w3 = (None, w4)"
  then show "resolveFacebookShareURL_Improved env url w = (Inr url, w4)"
    by (rule resolve_gives_up)
next
  fix env :: "'w env" and url w rep w1
  assume "fetch env (cobalt_probe_request url) w = (rep, w1)" "cobalt_probe_accepts rep \<noteq> Inr True"
  then show "resolve_strategy1 env url w = (None, w1)"
    by (rule strategy1_swallows)
next
  fix env :: "'w env" and sid e w
  assume "base62ToDecimal sid = Inl e"
  then show "resolve_strategy2 env (Some sid) w = (None, w)"
    by (rule strategy2_swallows_decode)
next
  fix env :: "'w env" and url w
  assume "network_down env \<or> network_refuses env"
  then show "fst (resolveFacebookShareURL_Improved env url w) = Inr url"
    using resolve_network_down[of env url w] resolve_network_refuses[of env url w] by blast
next
  fix env :: "'w env" and url w w1
  assume "isFacebookShareURL env url" "resolveFacebookShareURL_Improved env url w = (Inr url, w1)"
  then show "fetchFacebookVideo env url w =
            (case fb_try_methods env url (facebook_methods env url) w1 of
               (Some result, w2) \<Rightarrow> (Inr result, w2)
             | (None, w2) \<Rightarrow> (Inl fb_exhausted, w2))"
    by (rule unresolved_share_url_first_pass)
qed

text \<open>A share link on a network that is down; the regular expression engine recognises
  the link and finds its identifier.\<close>

definition env_down :: "request list env" where
  "env_down = mock_env (\<lambda>history req. Rejected (NetworkError ''fetch failed''))
                share_tests [((shareId_pattern, share_url), ''XyZ9'')]"

lemma env_down_is_down: "network_down env_down"
  by (simp add: network_down_def env_down_def mock_env_def)

lemma run_resolver_down:
  "resolveFacebookShareURL_Improved env_down share_url []
     = (Inr share_url,
        [cobalt_probe_request share_url,
         cobalt_probe_request ''https://www.facebook.com/reel/14195839'',
         manual_request share_url])"
  by (simp add: resolveFacebookShareURL_Improved_def resolve_strategy1_def resolve_strategy2_def
       resolve_strategy3_def resolve_strategy4_def env_down_def mock_env_def share_url_def
       cobalt_probe_accepts_def catch_null_def try_bind_def
       base62ToDecimal_def indexOf_def alphabet_def bigint_toString_def nat_toString.simps
       decimal_digits_def)

lemma share_url_is_share: "isFacebookShareURL env_down share_url"
  by (simp add: isFacebookShareURL_def env_down_def mock_env_def share_tests_def sharePatterns_def)

lemma run_methods_down:
  "fb_try_methods env_down share_url (facebook_methods env_down share_url) w
     = (None, w @ [facebookAPI_request share_url, cobalt_request share_url,
                   direct_request share_url, snapsave_request share_url])"
  by (simp add: facebook_methods_def fetchViaFacebookAPI_def fetchViaCobalAPI_def
        fetchViaFacebookDirect_def fetchViaSnapSave_def env_down_def mock_env_def catch_null_def)

theorem resolver_never_throws_witness:
  "network_down env_down
   \<and> resolveFacebookShareURL_Improved env_down share_url []
       = (Inr share_url,
          [cobalt_probe_request share_url,
           cobalt_probe_request ''https://www.facebook.com/reel/14195839'',
           manual_request share_url])
   \<and> base62ToDecimal ''Xy_9'' = Inl (Error ''Invalid base62 character: _'')
   \<and> resolve_strategy2 env_down (Some ''Xy_9'') [] = (None, [])
   \<and> isFacebookShareURL env_down share_url
   \<and> fetchFacebookVideo env_down share_url []
       = (Inl fb_exhausted,
          [cobalt_probe_request share_url,
           cobalt_probe_request ''https://www.facebook.com/reel/14195839'',
           manual_request share_url,
           facebookAPI_request share_url, cobalt_request share_url,
           direct_request share_url, snapsave_request share_url])"
proof -
  note T = resolver_never_throws[where 'w = "request list"]
  have "fst (resolveFacebookShareURL_Improved env_down share_url []) = Inr share_url"
    using T[THEN conjunct2, THEN conjunct2, THEN conjunct2, THEN conjunct2, THEN conjunct1,
            rule_format, of env_down share_url "[]"] env_down_is_down by blast
  then have r: "resolveFacebookShareURL_Improved env_down share_url []
       = (Inr share_url,
          [cobalt_probe_request share_url,
           cobalt_probe_request ''https://www.facebook.com/reel/14195839'',
           manual_request share_url])"
    using run_resolver_down by simp
  have dec: "base62ToDecimal ''Xy_9'' = Inl (Error ''Invalid base62 character: _'')"
    by (simp add: base62ToDecimal_def indexOf_def alphabet_def)
  have s2: "resolve_strategy2 env_down (Some ''Xy_9'') [] = (None, [])"
    using T[THEN conjunct2, THEN conjunct2, THEN conjunct2, THEN conjunct1, rule_format, OF dec] .
  have f: "fetchFacebookVideo env_down share_url []
       = (Inl fb_exhausted,
          [cobalt_probe_request share_url,
           cobalt_probe_request ''https://www.facebook.com/reel/14195839'',
           manual_request share_url,
           facebookAPI_request share_url, cobalt_request share_url,
           direct_request share_url, snapsave_request share_url])"
    using T[THEN conjunct2, THEN conjunct2, THEN conjunct2, THEN conjunct2, THEN conjunct2,
            rule_format, OF conjI[OF share_url_is_share r]]
    by (simp add: run_methods_down)
  from env_down_is_down r dec s2 share_url_is_share f show ?thesis by blast
qed

section \<open>Exhaustion at the route handler\<close>

lemma fb_try_methods_video_url:
  "fb_try_methods env originalUrl ms w = (Some r, w') \<Longrightarrow> truthy (video_url r)"
proof (induction ms arbitrary: w)
  case Nil
  then show ?case by simp
next
  case (Cons m ms)
  then show ?case
    by (cases "m w")
       (auto split: sum.splits option.splits if_splits prod.splits)
qed

text \<open>The three ways \<^verbatim>\<open>fetchFacebookVideo\<close> can end.\<close>

lemma fetchFacebookVideo_outcomes:
  "(\<exists>e w1. fetchFacebookVideo env url w = (Inl e, w1) \<and> e = fb_exhausted)
   \<or> (\<exists>r w1 originalUrl ms w0. fetchFacebookVideo env url w = (Inr r, w1)
         \<and> fb_try_methods env originalUrl ms w0 = (Some r, w1))"
proof -
  define start where "start = (if isFacebookShareURL env url
               then resolveFacebookShareURL_Improved env url w else (Inr url, w))"
  obtain resolved w1 where st: "start = (Inr resolved, w1)"
    using resolve_total[of env url w] unfolding start_def by (cases "isFacebookShareURL env url") auto
  define first where "first = fb_try_methods env url
                       [fetchViaFacebookAPI env resolved, fetchViaCobalAPI env resolved,
                        fetchViaFacebookDirect env resolved, fetchViaSnapSave env resolved] w1"
  define second where "second = fb_try_methods env url
                                 [fetchViaCobalAPI env url, fetchViaSnapSave env url] (snd first)"
  have unfold: "fetchFacebookVideo env url w =
      (case first of
         (Some result, w2) \<Rightarrow> (Inr result, w2)
       | (None, w2) \<Rightarrow>
           if isFacebookShareURL env url \<and> url \<noteq> resolved
           then (case fb_try_methods env url
                        [fetchViaCobalAPI env url, fetchViaSnapSave env url] w2 of
                   (Some result, w3) \<Rightarrow> (Inr result, w3)
                 | (None, w3) \<Rightarrow> (Inl fb_exhausted, w3))
           else (Inl fb_exhausted, w2))"
    using st unfolding fetchFacebookVideo_def start_def first_def by (simp add: Let_def del: fb_try_methods.simps)
  obtain r1 w2 where f: "first = (r1, w2)" by (cases first)
  show ?thesis
  proof (cases r1)
    case (Some r)
    then have "fetchFacebookVideo env url w = (Inr r, w2)" using unfold f by (simp del: fb_try_methods.simps)
    moreover have "fb_try_methods env url
                       [fetchViaFacebookAPI env resolved, fetchViaCobalAPI env resolved,
                        fetchViaFacebookDirect env resolved, fetchViaSnapSave env resolved] w1
                     = (Some r, w2)"
      using f Some unfolding first_def by (simp del: fb_try_methods.simps)
    ultimately show ?thesis by blast
  next
    case None
    show ?thesis
    proof (cases "isFacebookShareURL env url \<and> url \<noteq> resolved")
      case False
      then have "fetchFacebookVideo env url w = (Inl fb_exhausted, w2)"
        using unfold f None by (auto simp del: fb_try_methods.simps)
      then show ?thesis by blast
    next
      case True
      obtain r2 w3 where s: "fb_try_methods env url
                        [fetchViaCobalAPI env url, fetchViaSnapSave env url] w2 = (r2, w3)"
        by (cases "fb_try_methods env url [fetchViaCobalAPI env url, fetchViaSnapSave env url] w2")
      show ?thesis
      proof (cases r2)
        case None2: None
        then have "fetchFacebookVideo env url w = (Inl fb_exhausted, w3)"
          using unfold f None True s by (simp del: fb_try_methods.simps)
        then show ?thesis by blast
      next
        case (Some r)
        then have "fetchFacebookVideo env url w = (Inr r, w3)"
          using unfold f None True s by (simp del: fb_try_methods.simps)
        then show ?thesis using s Some by blast
      qed
    qed
  qed
qed

lemma fetchFacebookVideo_result:
  "fetchFacebookVideo env url w = (Inr r, w') \<Longrightarrow> truthy (video_url r)"
  using fetchFacebookVideo_outcomes[of env url w] fb_try_methods_video_url by fastforce

lemma fetchFacebookVideo_throws:
  "fetchFacebookVideo env url w = (Inl e, w') \<Longrightarrow> e = fb_exhausted"
  using fetchFacebookVideo_outcomes[of env url w] by fastforce

text \<open>A request whose JSON body is an object with the string \<open>url\<close> as its \<^verbatim>\<open>url\<close>.\<close>

definition body_has_url :: "post_request \<Rightarrow> string \<Rightarrow> bool" where
  "body_has_url req url =
     (\<exists>kvs. post_json req = Inr (JObj kvs) \<and> map_of kvs ''url'' = Some (JStr url) \<and> url \<noteq> [])"

lemma POST_resolve_facebook:
  assumes "body_has_url req url" and "isFacebookURL env url"
  shows "POST_resolve env req w =
           (case fetchFacebookVideo env url w of
              (Inl fbError, w1) \<Rightarrow> (Inr (json_error 500 (error_message fbError)), w1)
            | (Inr videoData, w1) \<Rightarrow> (Inr (json_success videoData), w1))"
proof -
  from assms(1) obtain kvs where b: "post_json req = Inr (JObj kvs)"
    "map_of kvs ''url'' = Some (JStr url)" "url \<noteq> []"
    unfolding body_has_url_def by blast
  show ?thesis
    using b assms(2) fetchFacebookVideo_result[of env url w]
    by (auto simp: POST_resolve_def try_bind_def member_def js_ToString_def
             split: prod.splits sum.splits)
qed

lemma POST_allowed:
  assumes "fst (checkRateLimit m (client_ip req) now) = True"
  shows "POST env req now (m, w) =
           (case POST_resolve env req w of
              (Inl error, w1) \<Rightarrow>
                (json_error 500 (error_message error), snd (checkRateLimit m (client_ip req) now), w1)
            | (Inr response, w1) \<Rightarrow> (response, snd (checkRateLimit m (client_ip req) now), w1))"
  using assms by (simp add: POST_def split_beta Let_def)

lemma POST_rejected:
  assumes "fst (checkRateLimit m (client_ip req) now) = False"
  shows "POST env req now (m, w) =
           (json_error 429 ''Too many requests. Please wait a moment and try again.'', m, w)"
  using assms checkRateLimit_reject_unchanged[OF assms] by (simp add: POST_def split_beta Let_def)

text \<open>
  Claim C1. What the handler does on exhaustion: for a request whose body carries a
  Facebook URL and that passes the rate limit, when \<^verbatim>\<open>fetchFacebookVideo\<close> throws its
  exhaustion error the response has status 500 (not 404) with the message
  ``Unable to fetch Facebook video. The post may be private or unavailable.''; and for
  a Facebook URL the handler never answers 404, since \<^verbatim>\<open>fetchFacebookVideo\<close> either
  returns a result with a truthy \<^verbatim>\<open>video_url\<close> or throws.
\<close>

theorem facebook_exhaustion_answers_500:
  "(\<forall>(env :: 'w env) req now m w url w'.
      body_has_url req url \<and> isFacebookURL env url
      \<and> fst (checkRateLimit m (client_ip req) now) = True
      \<and> fetchFacebookVideo env url w = (Inl fb_exhausted, w') \<longrightarrow>
        POST env req now (m, w)
          = (\<lparr>http_status = 500, http_success = False,
               http_error = Some ''Unable to fetch Facebook video. The post may be private or unavailable.'',
               http_data = None\<rparr>,
             snd (checkRateLimit m (client_ip req) now), w'))
   \<and> (\<forall>(env :: 'w env) req now m w url.
        body_has_url req url \<and> isFacebookURL env url \<longrightarrow>
          http_status (fst (POST env req now (m, w))) \<noteq> 404)"
proof (intro conjI allI impI; (elim conjE)?)
  fix env :: "'w env" and req now m w url w'
  assume "body_has_url req url" "isFacebookURL env url"
    "fst (checkRateLimit m (client_ip req) now) = True"
    "fetchFacebookVideo env url w = (Inl fb_exhausted, w')"
  then show "POST env req now (m, w)
          = (\<lparr>http_status = 500, http_success = False,
               http_error = Some ''Unable to fetch Facebook video. The post may be private or unavailable.'',
               http_data = None\<rparr>,
             snd (checkRateLimit m (client_ip req) now), w')"
    by (simp add: POST_allowed POST_resolve_facebook json_error_def fb_exhausted_def)
next
  fix env :: "'w env" and req now m w url
  assume b: "body_has_url req url" and f: "isFacebookURL env url"
  show "http_status (fst (POST env req now (m, w))) \<noteq> 404"
  proof (cases "fst (checkRateLimit m (client_ip req) now)")
    case True
    then show ?thesis
      using POST_allowed[of m req now env w] POST_resolve_facebook[OF b f, of w]
      by (auto simp: json_error_def json_success_def split: prod.splits sum.splits)
  next
    case False
    then show ?thesis using POST_rejected[of m req now env w] by (simp add: json_error_def)
  qed
qed

definition share_request :: post_request where
  "share_request =
     \<lparr>x_forwarded_for = Some ''203.0.113.7, 10.0.0.1'', x_real_ip = None,
      post_json = Inr (JObj [(''url'', JStr share_url)])\<rparr>"

lemma share_url_is_facebook: "isFacebookURL env_down share_url"
  by (simp add: isFacebookURL_def env_down_def mock_env_def share_tests_def fbPatterns_def)

lemma run_fetch_down:
  "fetchFacebookVideo env_down share_url []
       = (Inl fb_exhausted,
          [cobalt_probe_request share_url,
           cobalt_probe_request ''https://www.facebook.com/reel/14195839'',
           manual_request share_url,
           facebookAPI_request share_url, cobalt_request share_url,
           direct_request share_url, snapsave_request share_url])"
  using unresolved_share_url_first_pass[OF share_url_is_share run_resolver_down]
  by (simp add: run_methods_down)

theorem facebook_exhaustion_answers_500_witness:
  "body_has_url share_request share_url \<and> isFacebookURL env_down share_url
   \<and> fst (checkRateLimit rateLimitMap_init (client_ip share_request) 0) = True
   \<and> fst (fetchFacebookVideo env_down share_url []) = Inl fb_exhausted
   \<and> fst (POST env_down share_request 0 (rateLimitMap_init, []))
       = \<lparr>http_status = 500, http_success = False,
          http_error = Some ''Unable to fetch Facebook video. The post may be private or unavailable.'',
          http_data = None\<rparr>
   \<and> http_status (fst (POST env_down share_request 0 (rateLimitMap_init, []))) \<noteq> 404"
proof -
  have b: "body_has_url share_request share_url"
    by (simp add: body_has_url_def share_request_def share_url_def)
  have a: "fst (checkRateLimit rateLimitMap_init (client_ip share_request) 0) = True"
    by (simp add: checkRateLimit_def rateLimitMap_init_def)
  note T = facebook_exhaustion_answers_500[where 'w = "request list", THEN conjunct1, rule_format,
      OF conjI[OF b conjI[OF share_url_is_facebook conjI[OF a run_fetch_down]]]]
  from T b share_url_is_facebook a run_fetch_down show ?thesis by simp
qed

section \<open>Quality of the Instagram outcomes\<close>

text \<open>An outcome is successful when it carries a truthy \<^verbatim>\<open>video_url\<close>; \<open>tagged_HD\<close> says
  that a successful outcome, if there is one, has the quality \<open>HD\<close>.\<close>

definition tagged_HD :: "video_data option \<Rightarrow> bool" where
  "tagged_HD result =
     (case result of
        None \<Rightarrow> True
      | Some r \<Rightarrow> if truthy (video_url r) then quality r = Some ''HD'' else True)"

lemma tagged_HD_None [simp]: "tagged_HD None"
  by (simp add: tagged_HD_def)

lemma tagged_HD_SomeI: "quality r = Some ''HD'' \<Longrightarrow> tagged_HD (Some r)"
  by (simp add: tagged_HD_def)

lemma extractVideoFromHTML_HD:
  "extractVideoFromHTML env html = Some r \<Longrightarrow> quality r = Some ''HD''"
  by (auto simp: extractVideoFromHTML_def Let_def split: option.splits)

lemma extractVideoFromJSON_HD:
  "extractVideoFromJSON rt data = Some r \<Longrightarrow> quality r = Some ''HD''"
  by (auto simp: extractVideoFromJSON_def extractVideoFromJSON_body_def catch_null_def
        try_bind_def Let_def
        split: option.splits json.splits list.splits sum.splits if_splits)

lemma fetchViaInstagramAPI_parse_HD:
  "fetchViaInstagramAPI_parse env html = Some r \<Longrightarrow> quality r = Some ''HD''"
  by (auto simp: fetchViaInstagramAPI_parse_def split: option.splits)

lemma fetchViaAlternativeService_parse_HD:
  "fetchViaAlternativeService_parse env html = Some r \<Longrightarrow> quality r = Some ''HD''"
  by (auto simp: fetchViaAlternativeService_parse_def split: option.splits)

lemma backend_parse_HD:
  "backend_parse env data = Inr (Some r) \<Longrightarrow> quality r = Some ''HD''"
  by (auto simp: backend_parse_def try_bind_def split: sum.splits if_splits)

lemma fetchViaOEmbed_parse_HD:
  "fetchViaOEmbed_parse env data = Inr (Some r) \<Longrightarrow> truthy (video_url r) \<Longrightarrow>
     quality r = Some ''HD''"
  by (auto simp: fetchViaOEmbed_parse_def try_bind_def
        split: sum.splits if_splits option.splits json.splits)

lemma fetchViaInstagramAPI_HD:
  "fetchViaInstagramAPI env shortcode w = (Inr (Some r), w') \<Longrightarrow> quality r = Some ''HD''"
  by (auto simp: fetchViaInstagramAPI_def catch_null_Some try_bind_def
        split: prod.splits reply.splits if_splits sum.splits
        dest: fetchViaInstagramAPI_parse_HD)

lemma fetchViaAlternativeService_HD:
  "fetchViaAlternativeService env url w = (Inr (Some r), w') \<Longrightarrow> quality r = Some ''HD''"
  by (auto simp: fetchViaAlternativeService_def catch_null_Some try_bind_def
        split: prod.splits reply.splits if_splits sum.splits option.splits
        dest: fetchViaAlternativeService_parse_HD)

lemma tryFetchWithUserAgent_HD:
  "tryFetchWithUserAgent env url ua w = (Inr (Some r), w') \<Longrightarrow> quality r = Some ''HD''"
  by (auto simp: tryFetchWithUserAgent_def try_bind_def
        split: prod.splits reply.splits if_splits sum.splits
        dest: extractVideoFromHTML_HD)

lemma tryEmbedApproach_HD:
  "tryEmbedApproach env shortcode w = (Inr (Some r), w') \<Longrightarrow> quality r = Some ''HD''"
  by (auto simp: tryEmbedApproach_def try_bind_def
        split: prod.splits reply.splits if_splits sum.splits
        dest: extractVideoFromHTML_HD)

lemma scrape_user_agents_HD:
  "scrape_user_agents env url uas w = (Some r, w') \<Longrightarrow> quality r = Some ''HD''"
proof (induction uas arbitrary: w)
  case Nil
  then show ?case by simp
next
  case (Cons ua uas)
  obtain x w1 where t: "tryFetchWithUserAgent env url ua w = (x, w1)"
    by (cases "tryFetchWithUserAgent env url ua w")
  show ?case
  proof (cases x)
    case (Inl e)
    then show ?thesis using Cons t by simp
  next
    case (Inr result)
    show ?thesis
    proof (cases "has_video_url result")
      case True
      then obtain r0 where "result = Some r0" by (cases result) (simp_all add: has_video_url_def)
      then show ?thesis
        using Cons.prems t Inr True tryFetchWithUserAgent_HD[of env url ua w r0 w1] by simp
    next
      case False
      then show ?thesis using Cons t Inr by simp
    qed
  qed
qed

lemma fetchViaPageScrape_HD:
  assumes "fetchViaPageScrape env url w = (Inr (Some r), w')"
  shows "quality r = Some ''HD''"
proof -
  obtain s w1 where sc: "scrape_user_agents env url userAgents w = (s, w1)"
    by (cases "scrape_user_agents env url userAgents w")
  show ?thesis
  proof (cases s)
    case (Some r0)
    then show ?thesis
      using assms sc scrape_user_agents_HD[of env url userAgents w r0 w1]
      by (simp add: fetchViaPageScrape_def)
  next
    case None
    then show ?thesis
      using assms sc
      by (auto simp: fetchViaPageScrape_def
            split: option.splits if_splits prod.splits sum.splits
            dest: tryEmbedApproach_HD)
  qed
qed

lemma fetchViaOEmbed_HD:
  assumes "fetchViaOEmbed env url w = (Inr (Some r), w')" and "truthy (video_url r)"
  shows "quality r = Some ''HD''"
  using assms
  by (auto simp: fetchViaOEmbed_def try_bind_def Let_def
        split: sum.splits prod.splits reply.splits if_splits option.splits
        dest: fetchViaOEmbed_parse_HD fetchViaAlternativeService_HD)

lemma fetchViaBackend_HD:
  "fetchViaBackend env url w = (Some r, w') \<Longrightarrow> quality r = Some ''HD''"
  by (auto simp: fetchViaBackend_def catch_null_Some try_bind_def
        split: sum.splits prod.splits reply.splits if_splits
        dest: backend_parse_HD)

text \<open>Every strategy of a list tags its successful outcomes \<open>HD\<close>, in every world.\<close>

definition all_tag_HD :: "('w, video_data option) async list \<Rightarrow> bool" where
  "all_tag_HD ms = (\<forall>m \<in> set ms. \<forall>w r w'. m w = (Inr (Some r), w') \<longrightarrow> tagged_HD (Some r))"

lemma ig_try_approaches_HD:
  "all_tag_HD ms \<Longrightarrow> ig_try_approaches ms w = (Some r, w') \<Longrightarrow> quality r = Some ''HD''"
proof (induction ms arbitrary: w)
  case Nil
  then show ?case by simp
next
  case (Cons m ms)
  have rest: "all_tag_HD ms" using Cons.prems(1) by (simp add: all_tag_HD_def)
  have head: "\<And>w r w'. m w = (Inr (Some r), w') \<Longrightarrow> tagged_HD (Some r)"
    using Cons.prems(1) by (auto simp: all_tag_HD_def)
  obtain x w1 where m: "m w = (x, w1)" by (cases "m w")
  show ?case
  proof (cases x)
    case (Inl e)
    then show ?thesis using Cons.IH[OF rest] Cons.prems(2) m by simp
  next
    case (Inr result)
    show ?thesis
    proof (cases result)
      case None
      then show ?thesis using Cons.IH[OF rest] Cons.prems(2) m Inr by simp
    next
      case (Some r0)
      show ?thesis
      proof (cases "truthy (video_url r0)")
        case True
        then show ?thesis
          using Cons.prems(2) m Inr Some head[of w r0 w1] by (simp add: tagged_HD_def)
      next
        case False
        then show ?thesis using Cons.IH[OF rest] Cons.prems(2) m Inr Some by simp
      qed
    qed
  qed
qed

lemma instagram_approaches_tag_HD:
  "all_tag_HD [fetchViaInstagramAPI env shortcode, fetchViaPageScrape env url, fetchViaOEmbed env url]"
  using fetchViaInstagramAPI_HD[of env shortcode] fetchViaPageScrape_HD[of env url]
    fetchViaOEmbed_HD[of env url]
  by (auto simp: all_tag_HD_def tagged_HD_def)

lemma fetchInstagramData_HD:
  assumes "fetchInstagramData env url w = (Inr r, w')"
  shows "quality r = Some ''HD''"
proof -
  obtain b w1 where bk: "fetchViaBackend env url w = (b, w1)"
    by (cases "fetchViaBackend env url w")
  show ?thesis
  proof (cases b)
    case (Some r0)
    then show ?thesis
      using assms bk fetchViaBackend_HD[of env url w r0 w1] by (simp add: fetchInstagramData_def)
  next
    case None
    then obtain shortcode w2 where ig:
      "ig_try_approaches [fetchViaInstagramAPI env shortcode, fetchViaPageScrape env url,
                          fetchViaOEmbed env url] w1 = (Some r, w2)"
      using assms bk
      by (auto simp: fetchInstagramData_def simp del: ig_try_approaches.simps
            split: option.splits if_splits prod.splits)
    show ?thesis
      using ig_try_approaches_HD[OF instagram_approaches_tag_HD[of env shortcode url] ig] .
  qed
qed

text \<open>
  Claim C10. Every result that \<^verbatim>\<open>fetchInstagramData\<close> returns has the quality \<open>HD\<close>, and
  so has every successful outcome of each of its sources: the delegated backend, the
  embed endpoint, page scraping, oEmbed with its mobile scrape, and the HTML and JSON
  extractors. (\<^verbatim>\<open>fetchViaOEmbed\<close> can return an object that has only a thumbnail; it has
  no \<^verbatim>\<open>video_url\<close> and the orchestrator does not accept it.)
\<close>

theorem instagram_always_HD:
  "(\<forall>(env :: 'w env) url w r w'.
      fetchInstagramData env url w = (Inr r, w') \<longrightarrow> quality r = Some ''HD'')
   \<and> (\<forall>(env :: 'w env) url w r w'.
      fetchViaBackend env url w = (Some r, w') \<longrightarrow> quality r = Some ''HD'')
   \<and> (\<forall>(env :: 'w env) shortcode w r w'.
      fetchViaInstagramAPI env shortcode w = (Inr (Some r), w') \<longrightarrow> quality r = Some ''HD'')
   \<and> (\<forall>(env :: 'w env) url w r w'.
      fetchViaPageScrape env url w = (Inr (Some r), w') \<longrightarrow> quality r = Some ''HD'')
   \<and> (\<forall>(env :: 'w env) url w r w'.
      fetchViaOEmbed env url w = (Inr (Some r), w') \<and> truthy (video_url r) \<longrightarrow>
        quality r = Some ''HD'')
   \<and> (\<forall>(env :: 'w env) url w r w'.
      fetchViaAlternativeService env url w = (Inr (Some r), w') \<longrightarrow> quality r = Some ''HD'')
   \<and> (\<forall>(env :: 'w env) html r.
      extractVideoFromHTML env html = Some r \<longrightarrow> quality r = Some ''HD'')
   \<and> (\<forall>rt data r.
      extractVideoFromJSON rt data = Some r \<longrightarrow> quality r = Some ''HD'')"
proof (intro conjI allI impI; (elim conjE)?)
  fix env :: "'w env" and url w r w'
  assume "fetchInstagramData env url w = (Inr r, w')"
  then show "quality r = Some ''HD''" by (rule fetchInstagramData_HD)
next
  fix env :: "'w env" and url w r w'
  assume "fetchViaBackend env url w = (Some r, w')"
  then show "quality r = Some ''HD''" by (rule fetchViaBackend_HD)
next
  fix env :: "'w env" and shortcode w r w'
  assume "fetchViaInstagramAPI env shortcode w = (Inr (Some r), w')"
  then show "quality r = Some ''HD''" by (rule fetchViaInstagramAPI_HD)
next
  fix env :: "'w env" and url w r w'
  assume "fetchViaPageScrape env url w = (Inr (Some r), w')"
  then show "quality r = Some ''HD''" by (rule fetchViaPageScrape_HD)
next
  fix env :: "'w env" and url w r w'
  assume "fetchViaOEmbed env url w = (Inr (Some r), w')" "truthy (video_url r)"
  then show "quality r = Some ''HD''" by (rule fetchViaOEmbed_HD)
next
  fix env :: "'w env" and url w r w'
  assume "fetchViaAlternativeService env url w = (Inr (Some r), w')"
  then show "quality r = Some ''HD''" by (rule fetchViaAlternativeService_HD)
next
  fix env :: "'w env" and html r
  assume "extractVideoFromHTML env html = Some r"
  then show "quality r = Some ''HD''" by (rule extractVideoFromHTML_HD)
next
  fix rt data r
  assume "extractVideoFromJSON rt data = Some r"
  then show "quality r = Some ''HD''" by (rule extractVideoFromJSON_HD)
qed

text \<open>
  The reel of the specification's end-to-end example: the backend is unreachable and
  the embed endpoint answers with markup that holds a \<^verbatim>\<open>video_url\<close>.
\<close>

definition reel_ABC123 :: string where
  "reel_ABC123 = ''https://www.instagram.com/reel/ABC123/''"

definition embed_page :: string where
  \<open>embed_page = ''{"video_url":"https://x.cdn/video.mp4"}''\<close>

definition net_embed :: "request list \<Rightarrow> request \<Rightarrow> reply" where
  "net_embed history req =
     (if req_url req = ''https://www.instagram.com/p/ABC123/embed/captioned/''
      then ok_html embed_page
      else Rejected (NetworkError ''fetch failed''))"

definition embed_groups :: "((regex \<times> string) \<times> string) list" where
  \<open>embed_groups =
     [((extractShortcode_patterns ! 1, reel_ABC123), ''ABC123''),
      ((RegExp ''"video_url":"([^"]+)"'' [], embed_page), ''https://x.cdn/video.mp4'')]\<close>

definition env_embed :: "request list env" where
  "env_embed = mock_env net_embed [] embed_groups"

lemma run_instagram_embed:
  "fetchInstagramData env_embed reel_ABC123 []
     = (Inr \<lparr>video_url = Some (JStr ''https://x.cdn/video.mp4''), thumbnail = None,
             quality = Some ''HD'', duration = None, extraction_method = None\<rparr>,
        [backend_reel_request env_embed reel_ABC123, instagramAPI_request ''ABC123''])"
  by (simp add: fetchInstagramData_def fetchViaBackend_def fetchViaInstagramAPI_def
        fetchViaInstagramAPI_parse_def extractShortcode_def extractShortcode_patterns_def
        ig_api_videoPatterns_def ig_api_thumbnailPatterns_def
        env_embed_def mock_env_def net_embed_def embed_groups_def embed_page_def reel_ABC123_def
        backend_reel_request_def backend_base_def instagramAPI_request_def GET_request_def
        ok_html_def catch_null_def try_bind_def unescape_instagram_def bs_def)

theorem instagram_always_HD_witness:
  "fetchInstagramData env_embed reel_ABC123 []
     = (Inr \<lparr>video_url = Some (JStr ''https://x.cdn/video.mp4''), thumbnail = None,
             quality = Some ''HD'', duration = None, extraction_method = None\<rparr>,
        [backend_reel_request env_embed reel_ABC123, instagramAPI_request ''ABC123''])
   \<and> (\<exists>r. fst (fetchInstagramData env_embed reel_ABC123 []) = Inr r \<and> quality r = Some ''HD'')"
proof -
  note T = instagram_always_HD[where 'w = "request list", THEN conjunct1, rule_format,
      OF run_instagram_embed]
  from T run_instagram_embed show ?thesis by simp
qed

section \<open>The rate limit at the route handler\<close>

text \<open>
  Claim C2. A call that finds no record for the key, or a record older than
  \<open>RATE_LIMIT_WINDOW\<close>, opens a window at its own time \<open>t0\<close> and returns true. Among the
  later calls \<open>cs\<close> (calls of other clients may be interleaved), as long as the calls of
  this key stay inside the window (\<open>t - t0 \<le> 60000\<close>), the first \<open>RATE_LIMIT - 1 = 9\<close> of
  them return true, which makes exactly 10 accepted calls in the window, and every
  further one returns false. Any call of the key made after the window has elapsed
  (\<open>t - t0 > 60000\<close>) returns true again and stores a record with count 1 and the new
  time. A request whose call returns false is answered 429 by the handler with the map
  and the world unchanged: no fetch is made for it.
\<close>

theorem rate_limit_window:
  "(\<forall>m k t0 cs rs m'.
      opens_window m k t0 \<and> in_window k t0 cs
      \<and> run_calls (snd (checkRateLimit m k t0)) cs = (rs, m') \<longrightarrow>
        RATE_LIMIT = 10 \<and> RATE_LIMIT_WINDOW = 60000
        \<and> fst (checkRateLimit m k t0) = True
        \<and> results_for k cs rs =
             replicate (min (calls_of k cs) (RATE_LIMIT - 1)) True
             @ replicate (calls_of k cs - (RATE_LIMIT - 1)) False
        \<and> (\<forall>t. t - t0 > RATE_LIMIT_WINDOW \<longrightarrow>
              checkRateLimit m' k t = (True, m'(k \<mapsto> \<lparr>count = 1, lastReset = t\<rparr>))))
   \<and> (\<forall>(env :: 'w env) req now m w.
        fst (checkRateLimit m (client_ip req) now) = False \<longrightarrow>
          POST env req now (m, w)
            = (\<lparr>http_status = 429, http_success = False,
                 http_error = Some ''Too many requests. Please wait a moment and try again.'',
                 http_data = None\<rparr>, m, w))"
proof (rule conjI)
  show "\<forall>m k t0 cs rs m'.
      opens_window m k t0 \<and> in_window k t0 cs
      \<and> run_calls (snd (checkRateLimit m k t0)) cs = (rs, m') \<longrightarrow>
        RATE_LIMIT = 10 \<and> RATE_LIMIT_WINDOW = 60000
        \<and> fst (checkRateLimit m k t0) = True
        \<and> results_for k cs rs =
             replicate (min (calls_of k cs) (RATE_LIMIT - 1)) True
             @ replicate (calls_of k cs - (RATE_LIMIT - 1)) False
        \<and> (\<forall>t. t - t0 > RATE_LIMIT_WINDOW \<longrightarrow>
              checkRateLimit m' k t = (True, m'(k \<mapsto> \<lparr>count = 1, lastReset = t\<rparr>)))"
  proof (intro allI impI, elim conjE)
    fix m k t0 cs rs m'
    assume a: "opens_window m k t0" and b: "in_window k t0 cs"
      and c: "run_calls (snd (checkRateLimit m k t0)) cs = (rs, m')"
    show "RATE_LIMIT = 10 \<and> RATE_LIMIT_WINDOW = 60000
        \<and> fst (checkRateLimit m k t0) = True
        \<and> results_for k cs rs =
             replicate (min (calls_of k cs) (RATE_LIMIT - 1)) True
             @ replicate (calls_of k cs - (RATE_LIMIT - 1)) False
        \<and> (\<forall>t. t - t0 > RATE_LIMIT_WINDOW \<longrightarrow>
              checkRateLimit m' k t = (True, m'(k \<mapsto> \<lparr>count = 1, lastReset = t\<rparr>)))"
      using a b c by (rule window_calls_accepted)
  qed
next
  show "\<forall>(env :: 'w env) req now m w.
        fst (checkRateLimit m (client_ip req) now) = False \<longrightarrow>
          POST env req now (m, w)
            = (\<lparr>http_status = 429, http_success = False,
                 http_error = Some ''Too many requests. Please wait a moment and try again.'',
                 http_data = None\<rparr>, m, w)"
    by (intro allI impI) (simp add: POST_rejected json_error_def)
qed

definition burst_request :: post_request where
  "burst_request =
     \<lparr>x_forwarded_for = Some (k1 @ '', 10.0.0.254''), x_real_ip = None,
      post_json = Inr (JObj [(''url'', JStr share_url)])\<rparr>"

theorem rate_limit_window_witness:
  "opens_window rateLimitMap_init k1 0 \<and> in_window k1 0 burst
   \<and> results_for k1 burst (fst (run_calls (snd (checkRateLimit rateLimitMap_init k1 0)) burst))
       = [True, True, True, True, True, True, True, True, True, False, False]
   \<and> fst (checkRateLimit (snd (run_calls (snd (checkRateLimit rateLimitMap_init k1 0)) burst)) k1 60001)
   \<and> client_ip burst_request = k1
   \<and> fst (checkRateLimit (snd (run_calls rateLimitMap_init ((k1, 0) # burst)))
            (client_ip burst_request) 60000) = False
   \<and> POST env_down burst_request 60000 (snd (run_calls rateLimitMap_init ((k1, 0) # burst)), [])
       = (\<lparr>http_status = 429, http_success = False,
            http_error = Some ''Too many requests. Please wait a moment and try again.'',
            http_data = None\<rparr>, snd (run_calls rateLimitMap_init ((k1, 0) # burst)), [])"
proof -
  note T = rate_limit_window[where 'w = "request list"]
  have ip: "client_ip burst_request = k1"
    by (simp add: client_ip_def burst_request_def k1_def truthy_string_def)
  have stored: "snd (run_calls rateLimitMap_init ((k1, 0) # burst)) k1
                  = Some \<lparr>count = 10, lastReset = 0\<rparr>"
    by (simp add: burst_def k1_def k2_def rateLimitMap_init_def checkRateLimit_def
          RATE_LIMIT_def RATE_LIMIT_WINDOW_def)
  have rejected: "fst (checkRateLimit (snd (run_calls rateLimitMap_init ((k1, 0) # burst)))
                    (client_ip burst_request) 60000) = False"
    using checkRateLimit_in_window[of "snd (run_calls rateLimitMap_init ((k1, 0) # burst))"
        k1 10 0 60000] stored
    by (simp add: ip RATE_LIMIT_def RATE_LIMIT_WINDOW_def del: run_calls.simps)
  have hyp: "opens_window rateLimitMap_init k1 0 \<and> in_window k1 0 burst
      \<and> run_calls (snd (checkRateLimit rateLimitMap_init k1 0)) burst
          = (fst (run_calls (snd (checkRateLimit rateLimitMap_init k1 0)) burst),
             snd (run_calls (snd (checkRateLimit rateLimitMap_init k1 0)) burst))"
    by (simp add: opens_window_def in_window_def burst_def k1_def k2_def rateLimitMap_init_def
          RATE_LIMIT_WINDOW_def)
  have calls: "calls_of k1 burst = 11"
    by (simp add: calls_of_def burst_def k1_def k2_def)
  note W = T[THEN conjunct1, rule_format, OF hyp]
  have res: "results_for k1 burst (fst (run_calls (snd (checkRateLimit rateLimitMap_init k1 0)) burst))
       = [True, True, True, True, True, True, True, True, True, False, False]"
    using W[THEN conjunct2, THEN conjunct2, THEN conjunct2, THEN conjunct1]
    by (simp add: calls RATE_LIMIT_def numeral_eq_Suc)
  have again: "fst (checkRateLimit (snd (run_calls (snd (checkRateLimit rateLimitMap_init k1 0)) burst)) k1 60001)"
    using W[THEN conjunct2, THEN conjunct2, THEN conjunct2, THEN conjunct2, rule_format, of 60001]
    by (simp add: RATE_LIMIT_WINDOW_def del: run_calls.simps)
  note P = T[THEN conjunct2, rule_format, OF rejected, of env_down "[]"]
  from hyp res again ip rejected P show ?thesis by blast
qed

end
